theory Spec2Isabelle
  imports Complex_Main "HOL-Library.Word"
begin

unbundle bit_operations_syntax

section \<open>Faults\<close>

text \<open>
  What the source leaves undefined: a read or write outside an array, the use of a null
  pointer, an integer division by zero, the conversion to \<open>int\<close> of a \<open>float\<close> outside the
  range of \<open>int\<close>, a loop that does not end (a model on fuel that ran out).
\<close>

datatype fault = OutOfBounds | NullDeref | DivByZero | Unrepresentable | OutOfFuel

section \<open>Floating point numbers\<close>

text \<open>
  The value of a \<open>float\<close> or a \<open>double\<close>: not a number, an infinity, the negative zero, or
  a finite number (\<open>Fin 0\<close> is the positive zero). The finite numbers of a format are
  those its rounding keeps; the type holds every real number, so that one type serves
  both formats.
\<close>

datatype ieee = NaN | PInf | NInf | NZero | Fin real

type_synonym float = ieee
type_synonym double = ieee

text \<open>
  Rounding to \<open>float\<close> (24 bits of precision, exponents from -126 to 127): to the nearest
  multiple of the spacing at \<open>x\<close>, a tie to the even multiple; a result of magnitude
  \<open>2 ^ 128\<close> overflows to an infinity, a result that vanishes keeps the sign.
\<close>

definition rne :: "real \<Rightarrow> int" where
  "rne x =
     (let n = \<lfloor>x\<rfloor>
      in if x - of_int n < 1 / 2 then n
         else if 1 / 2 < x - of_int n then n + 1
         else if even n then n else n + 1)"

definition expo32 :: "real \<Rightarrow> int" where
  "expo32 x = max \<lfloor>log 2 \<bar>x\<bar>\<rfloor> (- 126)"

definition ulp32 :: "real \<Rightarrow> real" where
  "ulp32 x = 2 powi (expo32 x - 23)"

definition nearest32 :: "real \<Rightarrow> real" where
  "nearest32 x = of_int (rne (x / ulp32 x)) * ulp32 x"

definition round32 :: "real \<Rightarrow> ieee" where
  "round32 x =
     (if x = 0 then Fin 0
      else
        (let y = nearest32 x
         in if 2 ^ 128 \<le> \<bar>y\<bar> then (if x < 0 then NInf else PInf)
            else if y = 0 then (if x < 0 then NZero else Fin 0)
            else Fin y))"

text \<open>
  The arithmetic of the floating point unit on \<open>float\<close> operands: the exact result,
  rounded, with the rules for not a number, the infinities and the signed zeros.
\<close>

definition is_nan :: "ieee \<Rightarrow> bool" where
  "is_nan a = (a = NaN)"

definition is_inf :: "ieee \<Rightarrow> bool" where
  "is_inf a = (a = PInf \<or> a = NInf)"

definition is_finite :: "ieee \<Rightarrow> bool" where
  "is_finite a = (case a of NZero \<Rightarrow> True | Fin x \<Rightarrow> True | _ \<Rightarrow> False)"

definition fval :: "ieee \<Rightarrow> real" where
  "fval a = (case a of Fin x \<Rightarrow> x | _ \<Rightarrow> 0)"

definition negative :: "ieee \<Rightarrow> bool" where
  "negative a = (case a of NInf \<Rightarrow> True | NZero \<Rightarrow> True | Fin x \<Rightarrow> x < 0 | _ \<Rightarrow> False)"

definition signed_zero :: "bool \<Rightarrow> ieee" where
  "signed_zero s = (if s then NZero else Fin 0)"

definition signed_inf :: "bool \<Rightarrow> ieee" where
  "signed_inf s = (if s then NInf else PInf)"

definition fneg :: "ieee \<Rightarrow> ieee" where
  "fneg a =
     (case a of NaN \<Rightarrow> NaN | PInf \<Rightarrow> NInf | NInf \<Rightarrow> PInf | NZero \<Rightarrow> Fin 0
      | Fin x \<Rightarrow> if x = 0 then NZero else Fin (- x))"

definition fadd :: "ieee \<Rightarrow> ieee \<Rightarrow> ieee" where
  "fadd a b =
     (if is_nan a \<or> is_nan b then NaN
      else if is_inf a then (if is_inf b \<and> a \<noteq> b then NaN else a)
      else if is_inf b then b
      else if a = NZero \<and> b = NZero then NZero
      else round32 (fval a + fval b))"

definition fsub :: "ieee \<Rightarrow> ieee \<Rightarrow> ieee" where
  "fsub a b = fadd a (fneg b)"

definition fmul :: "ieee \<Rightarrow> ieee \<Rightarrow> ieee" where
  "fmul a b =
     (if is_nan a \<or> is_nan b then NaN
      else if is_inf a \<or> is_inf b then
        (if (is_finite a \<and> fval a = 0) \<or> (is_finite b \<and> fval b = 0) then NaN
         else signed_inf (negative a \<noteq> negative b))
      else if fval a * fval b = 0 then signed_zero (negative a \<noteq> negative b)
      else round32 (fval a * fval b))"

definition fdiv :: "ieee \<Rightarrow> ieee \<Rightarrow> ieee" where
  "fdiv a b =
     (if is_nan a \<or> is_nan b then NaN
      else if is_inf a then (if is_inf b then NaN else signed_inf (negative a \<noteq> negative b))
      else if is_inf b then signed_zero (negative a \<noteq> negative b)
      else if fval b = 0 then
        (if fval a = 0 then NaN else signed_inf (negative a \<noteq> negative b))
      else if fval a = 0 then signed_zero (negative a \<noteq> negative b)
      else round32 (fval a / fval b))"

text \<open>
  The comparisons \<open><=\<close>, \<open>>=\<close>, \<open>!=\<close>, \<open>==\<close> and \<open><\<close>: on not a number \<open>!=\<close> is true and the
  others are false; the two zeros are equal.
\<close>

definition fle :: "ieee \<Rightarrow> ieee \<Rightarrow> bool" where
  "fle a b =
     (\<not> is_nan a \<and> \<not> is_nan b
      \<and> (a = NInf \<or> b = PInf \<or> (is_finite a \<and> is_finite b \<and> fval a \<le> fval b)))"

definition fge :: "ieee \<Rightarrow> ieee \<Rightarrow> bool" where
  "fge a b = fle b a"

definition fne :: "ieee \<Rightarrow> ieee \<Rightarrow> bool" where
  "fne a b = (is_nan a \<or> is_nan b \<or> (a \<noteq> b \<and> \<not> (is_finite a \<and> is_finite b \<and> fval a = fval b)))"

text \<open>
  The conversions: \<open>double\<close> to \<open>float\<close> rounds (\<open>float\<close> to \<open>double\<close> keeps the value), an
  unsigned integer to \<open>float\<close> rounds, \<open>float\<close> to \<open>int\<close> truncates and is undefined (\<open>None\<close>)
  outside the range of \<open>int\<close>.
\<close>

definition feq :: "ieee \<Rightarrow> ieee \<Rightarrow> bool" where
  "feq a b = (\<not> fne a b)"

definition flt :: "ieee \<Rightarrow> ieee \<Rightarrow> bool" where
  "flt a b = (fle a b \<and> fne a b)"

definition to_float :: "ieee \<Rightarrow> ieee" where
  "to_float a = (case a of Fin x \<Rightarrow> round32 x | _ \<Rightarrow> a)"

definition float_of_nat :: "nat \<Rightarrow> ieee" where
  "float_of_nat n = round32 (real n)"

definition to_int :: "ieee \<Rightarrow> int option" where
  "to_int a =
     (if is_finite a \<and> - (2 ^ 31) - 1 < fval a \<and> fval a < 2 ^ 31
      then Some (if 0 \<le> fval a then \<lfloor>fval a\<rfloor> else \<lceil>fval a\<rceil>)
      else None)"

text \<open>
  Modelled from the spec: \<open>powf(10.f, v)\<close> (the C library is not among the sources) is the
  power \<open>10^v\<close>, rounded to \<open>float\<close>.
\<close>

definition powf10 :: "ieee \<Rightarrow> ieee" where
  "powf10 v =
     (case v of NaN \<Rightarrow> NaN | PInf \<Rightarrow> PInf | NInf \<Rightarrow> Fin 0
      | _ \<Rightarrow> round32 (10 powr fval v))"

section \<open>Serializer: the ASCII-safe string escape (serializer.cpp)\<close>

text \<open>
  A \<open>const char *\<close> is modelled by the bytes stored at the pointer; the buffer is followed
  by a NUL byte, and a NUL byte inside the list ends the C string there, as every loop of the
  source stops at the first zero byte it reads.
\<close>

type_synonym byte = "8 word"

definition cstr :: "byte list \<Rightarrow> byte list" where
  "cstr m = takeWhile (\<lambda>b. b \<noteq> 0) m"

text \<open>
  Modelled from the spec: \<open>utf8_encode\<close> (utf8.cpp is not among the sources). The spec says
  that bytes of 128 and above become the two-byte UTF-8 encoding of the byte value, and
  that ASCII passes unchanged. The result is the bytes stored at the output position;
  its length is the \<open>size\<close> the function reports.
\<close>

definition utf8_encode :: "byte \<Rightarrow> byte list" where
  "utf8_encode ch =
     (if ch < 0x80 then [ch]
      else [0xC0 + drop_bit 6 ch, 0x80 + (ch AND 0x3F)])"

text \<open>
  Modelled from the spec: \<open>utf8_decode\<close> (utf8.cpp is not among the sources), the inverse
  of the encoding: it returns the code point at the head of the buffer and the number of
  bytes it occupies, or \<open>-1\<close> with size 1 for a malformed sequence.
\<close>

definition is_cont :: "byte \<Rightarrow> bool" where
  "is_cont b = (0x80 \<le> b \<and> b < 0xC0)"

fun utf8_decode :: "byte list \<Rightarrow> int \<times> nat" where
  "utf8_decode [] = (0, 1)"
| "utf8_decode (c # rest) =
     (if c < 0x80 then (uint c, 1)
      else if 0xC0 \<le> c \<and> c < 0xE0 then
        (case rest of
           c1 # _ \<Rightarrow>
             if is_cont c1 then
               (let r = uint (c AND 0x1F) * 64 + uint (c1 AND 0x3F)
                in if 128 \<le> r then (r, 2) else (-1, 1))
             else (-1, 1)
         | _ \<Rightarrow> (-1, 1))
      else if 0xE0 \<le> c \<and> c < 0xF0 then
        (case rest of
           c1 # c2 # _ \<Rightarrow>
             if is_cont c1 \<and> is_cont c2 then
               (let r = uint (c AND 0x0F) * 4096 + uint (c1 AND 0x3F) * 64 + uint (c2 AND 0x3F)
                in if 2048 \<le> r then (r, 3) else (-1, 1))
             else (-1, 1)
         | _ \<Rightarrow> (-1, 1))
      else if 0xF0 \<le> c \<and> c < 0xF8 then
        (case rest of
           c1 # c2 # c3 # _ \<Rightarrow>
             if is_cont c1 \<and> is_cont c2 \<and> is_cont c3 then
               (let r = uint (c AND 0x07) * 262144 + uint (c1 AND 0x3F) * 4096
                          + uint (c2 AND 0x3F) * 64 + uint (c3 AND 0x3F)
                in if 65536 \<le> r then (r, 4) else (-1, 1))
             else (-1, 1)
         | _ \<Rightarrow> (-1, 1))
      else (-1, 1))"

text \<open>
  The first loop of \<open>StringToUnicode\<close>: \<open>count1\<close> counts the bytes read, \<open>count\<close> the
  bytes the encoding needs; the loop ends at the NUL byte, or after \<open>size\<close> bytes when
  \<open>size > 0\<close>.
\<close>

fun count_loop :: "byte list \<Rightarrow> int \<Rightarrow> int \<Rightarrow> int \<Rightarrow> int \<times> int" where
  "count_loop [] sz count count1 = (count, count1)"
| "count_loop (b # bs) sz count count1 =
     (if b = 0 then (count, count1)
      else
        (let count1' = count1 + 1;
             count' = (if 128 \<le> uint b then count + 2 else count + 1)
         in if count1' = sz \<and> sz > 0 then (count', count1')
            else count_loop bs sz count' count1'))"

text \<open>
  The second loop of \<open>StringToUnicode\<close> encodes every byte up to the NUL byte (it does
  not look at \<open>size\<close>) and stores the encodings one after the other.
\<close>

fun encode_loop :: "byte list \<Rightarrow> byte list" where
  "encode_loop [] = []"
| "encode_loop (b # bs) = (if b = 0 then [] else utf8_encode b @ encode_loop bs)"

text \<open>
  \<open>StringToUnicode cc size\<close>. A pure ASCII input is returned as it is (the pointer
  \<open>cc\<close> itself, so the whole C string). Otherwise the output buffer holds \<open>count\<close> bytes
  and the terminator; the result is \<open>None\<close> when the second loop writes beyond them.
\<close>

definition StringToUnicode :: "byte list \<Rightarrow> int \<Rightarrow> byte list option" where
  "StringToUnicode cc sz =
     (case count_loop cc sz 0 0 of
        (count, count1) \<Rightarrow>
          if count = count1 then Some (cstr cc)
          else
            (let written = encode_loop cc
             in if int (length written) \<le> count then Some written else None))"

text \<open>
  \<open>UnicodeToString\<close>: decode one code point after the other until the NUL byte; a code
  point that is negative or above 255 becomes \<open>'?'\<close> (63). The result is the C string in
  the output buffer.
\<close>

function decode_loop :: "byte list \<Rightarrow> byte list" where
  "decode_loop [] = []"
| "decode_loop (b # bs) =
     (if b = 0 then []
      else
        (case utf8_decode (b # bs) of
           (c, n) \<Rightarrow>
             (if c < 0 \<or> 255 < c then 63 else word_of_int c) # decode_loop (drop n (b # bs))))"
  by pat_completeness auto

lemma utf8_decode_size_pos: "0 < snd (utf8_decode bs)"
  by (cases bs) (auto simp: Let_def split: list.splits)

termination decode_loop
proof (relation "measure length", goal_cases)
  case 1
  show ?case by simp
next
  case (2 b bs x c)
  have "0 < snd (utf8_decode (b # bs))"
    by (rule utf8_decode_size_pos)
  with 2 show ?case
    by (cases "utf8_decode (b # bs)") auto
qed

definition UnicodeToString :: "byte list \<Rightarrow> byte list" where
  "UnicodeToString cc = cstr (decode_loop cc)"

subsection \<open>Round trip of the escape\<close>

text \<open>Every byte of 128 and above: the two bytes of its encoding decode to it.\<close>

lemma two_byte_all:
  "\<forall>b::byte. \<not> b < 0x80 \<longrightarrow>
     (0xC0 \<le> 0xC0 + drop_bit 6 b \<and> 0xC0 + drop_bit 6 b < 0xE0 \<and> \<not> 0xC0 + drop_bit 6 b < 0x80 \<and>
      0xC0 + drop_bit 6 b \<noteq> 0 \<and>
      is_cont (0x80 + (b AND 0x3F)) \<and>
      uint ((0xC0 + drop_bit 6 b) AND 0x1F) * 64 + uint ((0x80 + (b AND 0x3F)) AND 0x3F) = uint b)"
  by code_simp

lemma utf8_decode_encode:
  "utf8_decode (utf8_encode b @ rest) = (if b = 0 \<and> rest = [] then (0, 1) else (uint b, length (utf8_encode b)))"
proof (cases "b < 0x80")
  case True
  then show ?thesis by (auto simp: utf8_encode_def)
next
  case False
  with two_byte_all have *: "0xC0 \<le> 0xC0 + drop_bit 6 b" "0xC0 + drop_bit 6 b < 0xE0"
      "\<not> 0xC0 + drop_bit 6 b < 0x80" "is_cont (0x80 + (b AND 0x3F))"
      "uint ((0xC0 + drop_bit 6 b) AND 0x1F) * 64 + uint ((0x80 + (b AND 0x3F)) AND 0x3F) = uint b"
    by blast+
  have "128 \<le> uint b" using False by (simp add: word_less_def not_less)
  moreover have "b \<noteq> 0" using False by auto
  ultimately show ?thesis using False *
    by (simp add: utf8_encode_def Let_def)
qed

lemma utf8_encode_hd: "b \<noteq> 0 \<Longrightarrow> \<exists>x xs. utf8_encode b = x # xs \<and> x \<noteq> 0"
  using two_byte_all by (auto simp: utf8_encode_def)

lemma decode_encode_loop: "decode_loop (encode_loop m) = cstr m"
proof (induction m)
  case Nil
  then show ?case by (simp add: cstr_def)
next
  case (Cons b bs)
  show ?case
  proof (cases "b = 0")
    case True
    then show ?thesis by (simp add: cstr_def)
  next
    case False
    then obtain x xs where e: "utf8_encode b = x # xs" "x \<noteq> 0"
      using utf8_encode_hd by blast
    have d: "utf8_decode (x # xs @ encode_loop bs) = (uint b, length (x # xs))"
      using utf8_decode_encode [of b "encode_loop bs"] False e by simp
    have "decode_loop (encode_loop (b # bs)) = decode_loop (x # (xs @ encode_loop bs))"
      using False e by simp
    also have "\<dots> = b # decode_loop (encode_loop bs)"
      using e(2) d uint_lt2p [of b] by (simp del: utf8_decode.simps)
    finally show ?thesis using False Cons.IH by (simp add: cstr_def)
  qed
qed

text \<open>The number of bytes the encoding of the C string at \<open>m\<close> needs.\<close>

definition enc_len :: "byte list \<Rightarrow> int" where
  "enc_len m = (\<Sum>b\<leftarrow>cstr m. if 128 \<le> uint b then 2 else 1)"

lemma count_loop_unbounded:
  "sz \<le> 0 \<Longrightarrow> count_loop m sz count count1 = (count + enc_len m, count1 + int (length (cstr m)))"
  by (induction m arbitrary: count count1) (auto simp: enc_len_def cstr_def Let_def)

lemma length_utf8_encode: "length (utf8_encode b) = (if 128 \<le> uint b then 2 else 1)"
  by (auto simp: utf8_encode_def word_less_def)

lemma length_encode_loop: "int (length (encode_loop m)) = enc_len m"
  by (induction m) (auto simp: enc_len_def cstr_def length_utf8_encode)

lemma sum_list_two_one_ge: "int (length xs) \<le> (\<Sum>b\<leftarrow>xs. if P b then 2 else 1)"
  by (induction xs) auto

lemma sum_list_two_one_eq:
  "(\<Sum>b\<leftarrow>xs. if P b then 2 else 1) = int (length xs) \<Longrightarrow> b \<in> set xs \<Longrightarrow> \<not> P b"
proof (induction xs)
  case Nil
  then show ?case by simp
next
  case (Cons x xs)
  from sum_list_two_one_ge [of xs P] Cons.prems(1)
  have "\<not> P x" and "(\<Sum>b\<leftarrow>xs. if P b then 2 else 1) = int (length xs)"
    by (auto split: if_splits)
  with Cons show ?case by auto
qed

lemma enc_len_ascii: "enc_len m = int (length (cstr m)) \<Longrightarrow> b \<in> set (cstr m) \<Longrightarrow> b < 0x80"
  using sum_list_two_one_eq [of "\<lambda>b. 128 \<le> uint b" "cstr m" b]
  by (simp add: enc_len_def word_less_def)

lemma decode_loop_ascii: "\<forall>b\<in>set m. b \<noteq> 0 \<and> b < 0x80 \<Longrightarrow> decode_loop m = m"
proof (induction m)
  case Nil
  then show ?case by simp
next
  case (Cons a m)
  then have "a \<noteq> 0" "a < 0x80" "decode_loop m = m" by auto
  moreover have "uint a < 256" using uint_lt2p [of a] by simp
  ultimately show ?case by simp
qed

lemma cstr_nonzero: "b \<in> set (cstr m) \<Longrightarrow> b \<noteq> 0"
  by (auto simp: cstr_def dest: set_takeWhileD)

lemma cstr_idem: "cstr (cstr m) = cstr m"
  by (simp add: cstr_def)

lemma roundtrip_cstr: "map_option UnicodeToString (StringToUnicode m (-1)) = Some (cstr m)"
proof (cases "enc_len m = int (length (cstr m))")
  case True
  then have "decode_loop (cstr m) = cstr m"
    using enc_len_ascii cstr_nonzero by (intro decode_loop_ascii) blast
  then show ?thesis using True
    by (simp add: StringToUnicode_def UnicodeToString_def count_loop_unbounded cstr_idem)
next
  case False
  then show ?thesis
    by (simp add: StringToUnicode_def UnicodeToString_def count_loop_unbounded Let_def
        length_encode_loop decode_encode_loop cstr_idem)
qed

lemma cstr_id: "0 \<notin> set s \<Longrightarrow> cstr s = s"
  unfolding cstr_def by (induction s) auto

text \<open>
  C9 (as amended). For every byte sequence \<open>s\<close> with bytes in 1..255 (no NUL byte, as a
  C string holds), \<open>StringToUnicode\<close> returns a buffer it did not overrun, and
  \<open>UnicodeToString\<close> of it is \<open>s\<close>. Lemma \<open>roundtrip_cstr\<close> is the general form: on any
  buffer the round trip returns the C string stored in it.
\<close>

theorem string_roundtrip:
  "0 \<notin> set s \<Longrightarrow> map_option UnicodeToString (StringToUnicode s (-1)) = Some s"
  by (simp add: roundtrip_cstr cstr_id)

theorem string_roundtrip_witness:
  "0 \<notin> set [0x41, 0xE9, 0xFF :: byte]
   \<and> map_option UnicodeToString (StringToUnicode [0x41, 0xE9, 0xFF] (-1)) = Some [0x41, 0xE9, 0xFF]"
  using string_roundtrip [of "[0x41, 0xE9, 0xFF]"] by simp

text \<open>
  C9 as stated (bytes in 0..255) fails on a sequence that holds a NUL byte: both functions
  read a \<open>const char *\<close> up to its first zero byte, so the bytes 65, 0, 66 come back as the single byte 65.
\<close>

theorem string_roundtrip_nul_counterexample:
  "map_option UnicodeToString (StringToUnicode [0x41, 0, 0x42] (-1)) = Some [0x41]
   \<and> map_option UnicodeToString (StringToUnicode [0x41, 0, 0x42] (-1)) \<noteq> Some [0x41, 0, 0x42]"
  by (simp add: roundtrip_cstr cstr_def)

section \<open>Serializer: scalars in an object (serializer.cpp)\<close>

text \<open>
  Modelled from the spec: the tree of the JSON library (rapidjson is not among the
  sources). A value is a boolean, an integer number, a floating point number or a string;
  an integer number has each integer type whose range holds it, and only a number
  written as a double is a double. A double is stored as it is, whatever its value (the
  spec names no double that the writer refuses), and read as it was stored.
\<close>

datatype jvalue = JNull | JBool bool | JInt int | JDouble double | JString "byte list"

definition IsBool :: "jvalue \<Rightarrow> bool" where
  "IsBool v = (case v of JBool _ \<Rightarrow> True | _ \<Rightarrow> False)"

definition IsInt :: "jvalue \<Rightarrow> bool" where
  "IsInt v = (case v of JInt n \<Rightarrow> - (2 ^ 31) \<le> n \<and> n < 2 ^ 31 | _ \<Rightarrow> False)"

definition IsUint :: "jvalue \<Rightarrow> bool" where
  "IsUint v = (case v of JInt n \<Rightarrow> 0 \<le> n \<and> n < 2 ^ 32 | _ \<Rightarrow> False)"

definition IsInt64 :: "jvalue \<Rightarrow> bool" where
  "IsInt64 v = (case v of JInt n \<Rightarrow> - (2 ^ 63) \<le> n \<and> n < 2 ^ 63 | _ \<Rightarrow> False)"

definition IsUint64 :: "jvalue \<Rightarrow> bool" where
  "IsUint64 v = (case v of JInt n \<Rightarrow> 0 \<le> n \<and> n < 2 ^ 64 | _ \<Rightarrow> False)"

definition IsDouble :: "jvalue \<Rightarrow> bool" where
  "IsDouble v = (case v of JDouble _ \<Rightarrow> True | _ \<Rightarrow> False)"

definition IsString :: "jvalue \<Rightarrow> bool" where
  "IsString v = (case v of JString _ \<Rightarrow> True | _ \<Rightarrow> False)"

definition IsNull_value :: "jvalue \<Rightarrow> bool" where
  "IsNull_value v = (v = JNull)"

definition GetBool :: "jvalue \<Rightarrow> bool" where
  "GetBool v = (case v of JBool b \<Rightarrow> b | _ \<Rightarrow> False)"

definition GetInt :: "jvalue \<Rightarrow> 'a::len word" where
  "GetInt v = (case v of JInt n \<Rightarrow> word_of_int n | _ \<Rightarrow> 0)"

definition GetDouble :: "jvalue \<Rightarrow> double" where
  "GetDouble v = (case v of JDouble d \<Rightarrow> d | _ \<Rightarrow> Fin 0)"

definition GetString :: "jvalue \<Rightarrow> byte list" where
  "GetString v = (case v of JString s \<Rightarrow> s | _ \<Rightarrow> [])"

text \<open>
  \<open>FWriter\<close>: the stack \<open>mInObject\<close>, and what went to the JSON writer for the container
  that is open: \<open>Key\<close> leaves a key waiting for its value, a value is written with the key
  that waits (none inside an array).
\<close>

record FWriter =
  mInObject :: "bool list"
  mKey :: "string option"
  mOut :: "(string option \<times> jvalue) list"

definition inObject :: "FWriter \<Rightarrow> bool" where
  "inObject wr = (length (mInObject wr) > 0 \<and> last (mInObject wr))"

definition Key :: "string \<Rightarrow> FWriter \<Rightarrow> FWriter" where
  "Key k wr = wr\<lparr>mKey := Some k\<rparr>"

definition put_value :: "jvalue \<Rightarrow> FWriter \<Rightarrow> FWriter" where
  "put_value v wr = wr\<lparr>mOut := mOut wr @ [(mKey wr, v)], mKey := None\<rparr>"

definition Bool_w :: "bool \<Rightarrow> FWriter \<Rightarrow> FWriter" where
  "Bool_w k = put_value (JBool k)"

definition Int_w :: "32 word \<Rightarrow> FWriter \<Rightarrow> FWriter" where
  "Int_w k = put_value (JInt (sint k))"

definition Int64_w :: "64 word \<Rightarrow> FWriter \<Rightarrow> FWriter" where
  "Int64_w k = put_value (JInt (sint k))"

definition Uint_w :: "32 word \<Rightarrow> FWriter \<Rightarrow> FWriter" where
  "Uint_w k = put_value (JInt (uint k))"

text \<open>\<open>Uint64\<close> takes its argument as \<open>int64_t\<close> and hands it on as \<open>uint64_t\<close>: the same bits.\<close>

definition Uint64_w :: "64 word \<Rightarrow> FWriter \<Rightarrow> FWriter" where
  "Uint64_w k = put_value (JInt (uint k))"

definition Double_w :: "double \<Rightarrow> FWriter \<Rightarrow> FWriter" where
  "Double_w k = put_value (JDouble k)"

definition String_w :: "byte list \<Rightarrow> FWriter \<Rightarrow> fault + FWriter" where
  "String_w k wr =
     (case StringToUnicode k (-1) of
        None \<Rightarrow> Inl OutOfBounds
      | Some e \<Rightarrow> Inr (put_value (JString e) wr))"

text \<open>
  \<open>FReader\<close>, with an object on top of \<open>mObjects\<close>: its members. \<open>FindKey\<close> with a key that
  is not null finds the first member of that name.
\<close>

record FReader =
  mObject :: "(string \<times> jvalue) list"

definition FindKey :: "FReader \<Rightarrow> string \<Rightarrow> jvalue option" where
  "FindKey rd key = map_of (mObject rd) key"

text \<open>\<open>FSerializer\<close>: its writer \<open>w\<close>, its reader \<open>r\<close> (one of them is open) and \<open>mErrors\<close>.\<close>

record FSerializer =
  arc_w :: "FWriter option"
  arc_r :: "FReader option"
  mErrors :: nat

definition isWriting :: "FSerializer \<Rightarrow> bool" where
  "isWriting arc = (arc_w arc \<noteq> None)"

text \<open>
  \<open>WriteKey\<close>. A key is a string here: the null key, with which \<open>WriteKey\<close> aborts inside
  an object and \<open>FindKey\<close> iterates, has no call in this model.
\<close>

definition WriteKey :: "string \<Rightarrow> FSerializer \<Rightarrow> FSerializer" where
  "WriteKey key arc =
     (if isWriting arc \<and> inObject (the (arc_w arc)) then arc\<lparr>arc_w := Some (Key key (the (arc_w arc)))\<rparr>
      else arc)"

text \<open>
  The shape the scalar overloads share. On write: unless the serializer is inside an
  object, a default is given and the value equals it (\<open>same\<close>), write the key and the
  value (\<open>put\<close>). On read: find the key; when it is absent the value stays; when the
  member has the type (\<open>is\<close>) the value is read from it (\<open>get\<close>); otherwise an error is
  counted. The \<open>assert\<close> in front of the type test is compiled out of a release build.
  Reading with no reader open uses a null pointer.
\<close>

definition Serialize_scalar ::
  "('a \<Rightarrow> 'a \<Rightarrow> bool) \<Rightarrow> ('a \<Rightarrow> FWriter \<Rightarrow> FWriter) \<Rightarrow> (jvalue \<Rightarrow> bool) \<Rightarrow> (jvalue \<Rightarrow> 'a)
     \<Rightarrow> FSerializer \<Rightarrow> string \<Rightarrow> 'a \<Rightarrow> 'a option \<Rightarrow> fault + (FSerializer \<times> 'a)"
where
  "Serialize_scalar same put is get arc key value defval =
     (if isWriting arc then
        (if \<not> inObject (the (arc_w arc)) \<or> defval = None \<or> \<not> same value (the defval) then
           (let arc1 = WriteKey key arc
            in Inr (arc1\<lparr>arc_w := Some (put value (the (arc_w arc1)))\<rparr>, value))
         else Inr (arc, value))
      else
        (case arc_r arc of
           None \<Rightarrow> Inl NullDeref
         | Some rd \<Rightarrow>
             (case FindKey rd key of
                None \<Rightarrow> Inr (arc, value)
              | Some val \<Rightarrow>
                  if is val then Inr (arc, get val)
                  else Inr (arc\<lparr>mErrors := mErrors arc + 1\<rparr>, value))))"

definition Serialize_bool ::
  "FSerializer \<Rightarrow> string \<Rightarrow> bool \<Rightarrow> bool option \<Rightarrow> fault + (FSerializer \<times> bool)" where
  "Serialize_bool = Serialize_scalar (=) Bool_w IsBool GetBool"

definition Serialize_int64 ::
  "FSerializer \<Rightarrow> string \<Rightarrow> 64 word \<Rightarrow> 64 word option \<Rightarrow> fault + (FSerializer \<times> 64 word)" where
  "Serialize_int64 = Serialize_scalar (=) Int64_w IsInt64 GetInt"

definition Serialize_uint64 ::
  "FSerializer \<Rightarrow> string \<Rightarrow> 64 word \<Rightarrow> 64 word option \<Rightarrow> fault + (FSerializer \<times> 64 word)" where
  "Serialize_uint64 = Serialize_scalar (=) Uint64_w IsUint64 GetInt"

definition Serialize_int32 ::
  "FSerializer \<Rightarrow> string \<Rightarrow> 32 word \<Rightarrow> 32 word option \<Rightarrow> fault + (FSerializer \<times> 32 word)" where
  "Serialize_int32 = Serialize_scalar (=) Int_w IsInt GetInt"

definition Serialize_uint32 ::
  "FSerializer \<Rightarrow> string \<Rightarrow> 32 word \<Rightarrow> 32 word option \<Rightarrow> fault + (FSerializer \<times> 32 word)" where
  "Serialize_uint32 = Serialize_scalar (=) Uint_w IsUint GetInt"

text \<open>The \<open>double\<close> overload compares with the \<open>!=\<close> of the floating point unit.\<close>

definition Serialize_double ::
  "FSerializer \<Rightarrow> string \<Rightarrow> double \<Rightarrow> double option \<Rightarrow> fault + (FSerializer \<times> double)" where
  "Serialize_double = Serialize_scalar (\<lambda>value defval. \<not> fne value defval) Double_w IsDouble GetDouble"

text \<open>
  The narrow integers and \<open>float\<close>: widen the value, and the default, or \<open>value - 1\<close>
  when there is none; serialize the wide value; narrow the result (for \<open>float\<close>: to
  \<open>double\<close>, which keeps the value, and back by rounding).
\<close>

definition Serialize_int8 ::
  "FSerializer \<Rightarrow> string \<Rightarrow> 8 word \<Rightarrow> 8 word option \<Rightarrow> fault + (FSerializer \<times> 8 word)" where
  "Serialize_int8 arc key value defval =
     (let vv = (scast value :: 32 word);
          vvd = (case defval of Some d \<Rightarrow> scast d | None \<Rightarrow> scast value - 1)
      in case Serialize_int32 arc key vv (Some vvd) of
           Inl e \<Rightarrow> Inl e
         | Inr (arc', vv') \<Rightarrow> Inr (arc', ucast vv'))"

definition Serialize_uint8 ::
  "FSerializer \<Rightarrow> string \<Rightarrow> 8 word \<Rightarrow> 8 word option \<Rightarrow> fault + (FSerializer \<times> 8 word)" where
  "Serialize_uint8 arc key value defval =
     (let vv = (ucast value :: 32 word);
          vvd = (case defval of Some d \<Rightarrow> ucast d | None \<Rightarrow> ucast value - 1)
      in case Serialize_uint32 arc key vv (Some vvd) of
           Inl e \<Rightarrow> Inl e
         | Inr (arc', vv') \<Rightarrow> Inr (arc', ucast vv'))"

definition Serialize_int16 ::
  "FSerializer \<Rightarrow> string \<Rightarrow> 16 word \<Rightarrow> 16 word option \<Rightarrow> fault + (FSerializer \<times> 16 word)" where
  "Serialize_int16 arc key value defval =
     (let vv = (scast value :: 32 word);
          vvd = (case defval of Some d \<Rightarrow> scast d | None \<Rightarrow> scast value - 1)
      in case Serialize_int32 arc key vv (Some vvd) of
           Inl e \<Rightarrow> Inl e
         | Inr (arc', vv') \<Rightarrow> Inr (arc', ucast vv'))"

definition Serialize_uint16 ::
  "FSerializer \<Rightarrow> string \<Rightarrow> 16 word \<Rightarrow> 16 word option \<Rightarrow> fault + (FSerializer \<times> 16 word)" where
  "Serialize_uint16 arc key value defval =
     (let vv = (ucast value :: 32 word);
          vvd = (case defval of Some d \<Rightarrow> ucast d | None \<Rightarrow> ucast value - 1)
      in case Serialize_uint32 arc key vv (Some vvd) of
           Inl e \<Rightarrow> Inl e
         | Inr (arc', vv') \<Rightarrow> Inr (arc', ucast vv'))"

definition Serialize_float ::
  "FSerializer \<Rightarrow> string \<Rightarrow> float \<Rightarrow> float option \<Rightarrow> fault + (FSerializer \<times> float)" where
  "Serialize_float arc key value defval =
     (let vv = (value :: double);
          vvd = (case defval of Some d \<Rightarrow> d | None \<Rightarrow> fsub value (Fin 1))
      in case Serialize_double arc key vv (Some vvd) of
           Inl e \<Rightarrow> Inl e
         | Inr (arc', vv') \<Rightarrow> Inr (arc', to_float vv'))"

text \<open>
  The \<open>FString\<close> overload. \<open>Compare\<close> compares the C strings; the string goes out through
  \<open>StringToUnicode\<close> and comes back through \<open>UnicodeToString\<close>; a null member reads as the
  empty string, and so does a member of another type, with an error counted.
\<close>

definition Serialize_FString ::
  "FSerializer \<Rightarrow> string \<Rightarrow> byte list \<Rightarrow> byte list option \<Rightarrow> fault + (FSerializer \<times> byte list)"
where
  "Serialize_FString arc key pstr def =
     (if isWriting arc then
        (if \<not> inObject (the (arc_w arc)) \<or> def = None \<or> cstr pstr \<noteq> cstr (the def) then
           (let arc1 = WriteKey key arc
            in case String_w pstr (the (arc_w arc1)) of
                 Inl e \<Rightarrow> Inl e
               | Inr wr \<Rightarrow> Inr (arc1\<lparr>arc_w := Some wr\<rparr>, pstr))
         else Inr (arc, pstr))
      else
        (case arc_r arc of
           None \<Rightarrow> Inl NullDeref
         | Some rd \<Rightarrow>
             (case FindKey rd key of
                None \<Rightarrow> Inr (arc, pstr)
              | Some val \<Rightarrow>
                  if IsNull_value val then Inr (arc, [])
                  else if IsString val then Inr (arc, UnicodeToString (GetString val))
                  else Inr (arc\<lparr>mErrors := mErrors arc + 1\<rparr>, []))))"

text \<open>
  A call of one of the scalar overloads: the value (the destination, on read) and the
  default, of one type. A sequence of calls, each with its key, threads the serializer.
\<close>

datatype call =
    CBool bool "bool option"
  | CInt64 "64 word" "64 word option"
  | CUint64 "64 word" "64 word option"
  | CInt32 "32 word" "32 word option"
  | CUint32 "32 word" "32 word option"
  | CInt8 "8 word" "8 word option"
  | CUint8 "8 word" "8 word option"
  | CInt16 "16 word" "16 word option"
  | CUint16 "16 word" "16 word option"
  | CDouble double "double option"
  | CFloat float "float option"
  | CString "byte list" "byte list option"

definition returning :: "('a \<Rightarrow> call) \<Rightarrow> fault + (FSerializer \<times> 'a) \<Rightarrow> fault + (FSerializer \<times> call)" where
  "returning C res = (case res of Inl e \<Rightarrow> Inl e | Inr (arc, v) \<Rightarrow> Inr (arc, C v))"

fun Serialize_call :: "FSerializer \<Rightarrow> string \<Rightarrow> call \<Rightarrow> fault + (FSerializer \<times> call)" where
  "Serialize_call arc key (CBool v d) = returning (\<lambda>v. CBool v d) (Serialize_bool arc key v d)"
| "Serialize_call arc key (CInt64 v d) = returning (\<lambda>v. CInt64 v d) (Serialize_int64 arc key v d)"
| "Serialize_call arc key (CUint64 v d) = returning (\<lambda>v. CUint64 v d) (Serialize_uint64 arc key v d)"
| "Serialize_call arc key (CInt32 v d) = returning (\<lambda>v. CInt32 v d) (Serialize_int32 arc key v d)"
| "Serialize_call arc key (CUint32 v d) = returning (\<lambda>v. CUint32 v d) (Serialize_uint32 arc key v d)"
| "Serialize_call arc key (CInt8 v d) = returning (\<lambda>v. CInt8 v d) (Serialize_int8 arc key v d)"
| "Serialize_call arc key (CUint8 v d) = returning (\<lambda>v. CUint8 v d) (Serialize_uint8 arc key v d)"
| "Serialize_call arc key (CInt16 v d) = returning (\<lambda>v. CInt16 v d) (Serialize_int16 arc key v d)"
| "Serialize_call arc key (CUint16 v d) = returning (\<lambda>v. CUint16 v d) (Serialize_uint16 arc key v d)"
| "Serialize_call arc key (CDouble v d) = returning (\<lambda>v. CDouble v d) (Serialize_double arc key v d)"
| "Serialize_call arc key (CFloat v d) = returning (\<lambda>v. CFloat v d) (Serialize_float arc key v d)"
| "Serialize_call arc key (CString v d) = returning (\<lambda>v. CString v d) (Serialize_FString arc key v d)"

fun Serialize_calls ::
  "FSerializer \<Rightarrow> (string \<times> call) list \<Rightarrow> fault + (FSerializer \<times> (string \<times> call) list)" where
  "Serialize_calls arc [] = Inr (arc, [])"
| "Serialize_calls arc ((key, c) # cs) =
     (case Serialize_call arc key c of
        Inl e \<Rightarrow> Inl e
      | Inr (arc1, c1) \<Rightarrow>
          (case Serialize_calls arc1 cs of
             Inl e \<Rightarrow> Inl e
           | Inr (arc2, cs1) \<Rightarrow> Inr (arc2, (key, c1) # cs1)))"

text \<open>
  \<open>OpenWriter\<close> leaves a writer inside the root object. Modelled from the spec: the JSON
  text the writer produced and its parse by \<open>OpenReader\<close> (the JSON library is not among
  the sources): the reader stands on an object whose members are the keys and values
  written, in their order.
\<close>

definition OpenWriter :: FSerializer where
  "OpenWriter = \<lparr>arc_w = Some \<lparr>mInObject = [True], mKey = None, mOut = []\<rparr>, arc_r = None, mErrors = 0\<rparr>"

definition written :: "FSerializer \<Rightarrow> (string \<times> jvalue) list" where
  "written arc = (case arc_w arc of None \<Rightarrow> [] | Some wr \<Rightarrow> map (\<lambda>(k, v). (the k, v)) (mOut wr))"

definition OpenReader :: "(string \<times> jvalue) list \<Rightarrow> FSerializer" where
  "OpenReader members = \<lparr>arc_w = None, arc_r = Some \<lparr>mObject = members\<rparr>, mErrors = 0\<rparr>"

section \<open>Sound engine: data model (s_soundinternal.h)\<close>

text \<open>
  \<open>float\<close> values are modelled by real numbers (rounding is not part of the model),
  \<open>int\<close> values by integers (no computation below leaves the 32-bit range), pointers
  to emitters by natural numbers with \<open>NULL = 0\<close>, and nullable handles by options.
  The unsigned field \<open>EntChannel\<close> is a natural number; the narrowing of a value stored
  in a field of 8 or 16 bits is not modelled (the channel is 0 to 7, the priority 0 or 80).
\<close>

type_synonym ptr = nat
type_synonym FVector3 = "real \<times> real \<times> real"
type_synonym SoundHandle = "nat option"

definition NULL :: ptr where "NULL = 0"

definition ROLLOFF_Doom :: int where "ROLLOFF_Doom = 0"
definition ROLLOFF_Linear :: int where "ROLLOFF_Linear = 1"
definition ROLLOFF_Log :: int where "ROLLOFF_Log = 2"
definition ROLLOFF_Custom :: int where "ROLLOFF_Custom = 3"

lemmas rolloff_defs = ROLLOFF_Doom_def ROLLOFF_Linear_def ROLLOFF_Log_def ROLLOFF_Custom_def

definition CHAN_AUTO :: int where "CHAN_AUTO = 0"
definition CHAN_LISTENERZ :: int where "CHAN_LISTENERZ = 8"
definition CHAN_UI :: int where "CHAN_UI = 32"
definition CHAN_NOPAUSE :: int where "CHAN_NOPAUSE = 64"
definition CHAN_AREA :: int where "CHAN_AREA = 128"
definition CHAN_LOOP :: int where "CHAN_LOOP = 256"
definition CHAN_IS3D :: int where "CHAN_IS3D = 1"
definition CHAN_EVICTED :: int where "CHAN_EVICTED = 2"
definition CHAN_FORGETTABLE :: int where "CHAN_FORGETTABLE = 4"
definition CHAN_JUSTSTARTED :: int where "CHAN_JUSTSTARTED = 512"
definition CHAN_ABSTIME :: int where "CHAN_ABSTIME = 1024"
definition CHAN_VIRTUAL :: int where "CHAN_VIRTUAL = 2048"

lemmas chan_defs = CHAN_AUTO_def CHAN_LISTENERZ_def CHAN_UI_def CHAN_NOPAUSE_def CHAN_AREA_def
  CHAN_LOOP_def CHAN_IS3D_def CHAN_EVICTED_def CHAN_FORGETTABLE_def CHAN_JUSTSTARTED_def
  CHAN_ABSTIME_def CHAN_VIRTUAL_def

definition SOURCE_None :: int where "SOURCE_None = 0"
definition SOURCE_Actor :: int where "SOURCE_Actor = 1"
definition SOURCE_Sector :: int where "SOURCE_Sector = 2"
definition SOURCE_Polyobj :: int where "SOURCE_Polyobj = 3"
definition SOURCE_Unattached :: int where "SOURCE_Unattached = 4"

lemmas source_defs = SOURCE_None_def SOURCE_Actor_def SOURCE_Sector_def SOURCE_Polyobj_def
  SOURCE_Unattached_def

definition DEFAULT_PITCH :: int where "DEFAULT_PITCH = 128"

definition NO_LINK :: nat where "NO_LINK = 0xffffffff"

text \<open>The rolloff descriptor, with the four attributes the spec lists.\<close>

record FRolloffInfo =
  RolloffType :: int
  MinDistance :: float
  MaxDistance :: float
  RolloffFactor :: float

record sfxinfo_t =
  data :: SoundHandle
  data3d :: SoundHandle
  lumpnum :: int
  Volume :: real
  PitchMask :: int
  NearLimit :: int
  LimitRange :: real
  bRandomHeader :: bool
  bLoadRAW :: bool
  bSingular :: bool
  link :: nat
  Rolloff :: FRolloffInfo
  Attenuation :: real

record FRandomSoundList =
  Choices :: "nat list"
  Owner :: nat

text \<open>
  \<open>FSoundChan\<close> with the fields of its base \<open>FISoundChannel\<close> the engine reads and
  writes. \<open>Source\<close> and \<open>Point\<close> share storage in the source (a union tagged by
  \<open>SourceType\<close>); they are separate fields here. The list pointers \<open>NextChan\<close> and
  \<open>PrevChan\<close> are the order of the lists below.
\<close>

record FSoundChan =
  SysChannel :: "nat option"
  StartTime :: nat
  ChanFlags :: int
  SoundID :: int
  OrgID :: int
  ChanVolume :: real
  Pitch :: int
  EntChannel :: nat
  Priority :: int
  ChanNearLimit :: int
  SourceType :: int
  ChanLimitRange :: real
  Source :: ptr
  Point :: FVector3
  DistanceScale :: real

text \<open>
  The engine. \<open>Channels\<close> is the active list from its head, \<open>FreeChannels\<close> the free
  list. A \<open>FSoundChan *\<close> into the active list is the position of the channel in it.
\<close>

record SoundEngine =
  SoundPaused :: bool
  RestartEvictionsAt :: int
  ListenerObject :: ptr
  Channels :: "FSoundChan list"
  FreeChannels :: "FSoundChan list"
  S_sfx :: "sfxinfo_t list"
  S_Rolloff :: FRolloffInfo
  S_SoundCurve :: "byte list"
  S_rnd :: "FRandomSoundList list"

text \<open>
  What the engine consumes from outside: the client's virtual functions, the globals
  \<open>nosfx\<close>, \<open>nosound\<close> and \<open>sfx_empty\<close>, the C library's \<open>rand\<close> (the sequence of its
  values), and the backend \<open>GSnd\<close>: whether it is the null device, the playback position
  of a channel, the length of a sample, the clock \<open>MarkStartTime\<close> stores, and whether
  what reading and decoding the lump of a sound gives (\<open>DecodeLump\<close>: the handle, \<open>None\<close>
  when the lump holds no more than 8 bytes or no loader accepts it, and whether it is 3D
  capable; \<open>DecodeLump3D\<close>: the handle of the 3D load). The choice of the loader from the
  bytes of the lump is inside these two functions. \<open>rand env k\<close> is the value of the
  \<open>k\<close>-th call of \<open>rand\<close> during the operation the environment is given to.
\<close>

record Env =
  nosfx :: bool
  nosound :: bool
  sfx_empty :: int
  CalcPosVel :: "int \<Rightarrow> ptr \<Rightarrow> FVector3 option \<Rightarrow> int \<Rightarrow> int \<Rightarrow> FVector3 \<times> FVector3"
  ValidatePosVel :: "int \<Rightarrow> ptr \<Rightarrow> FVector3 \<Rightarrow> FVector3 \<Rightarrow> bool"
  rand :: "nat \<Rightarrow> int"
  IsNull :: bool
  GetPosition :: "FSoundChan \<Rightarrow> 32 word"
  GetSampleLength :: "SoundHandle \<Rightarrow> 32 word"
  Clock :: nat
  DecodeLump :: "int \<Rightarrow> sfxinfo_t \<Rightarrow> SoundHandle \<times> bool"
  DecodeLump3D :: "int \<Rightarrow> sfxinfo_t \<Rightarrow> SoundHandle"

definition has_flag :: "int \<Rightarrow> int \<Rightarrow> bool" where
  "has_flag flags f = (flags AND f \<noteq> 0)"

section \<open>Sound engine: the channel lists (s_sound.cpp)\<close>

text \<open>\<open>memset(chan, 0, sizeof(*chan))\<close>.\<close>

definition zero_chan :: FSoundChan where
  "zero_chan = \<lparr>SysChannel = None, StartTime = 0, ChanFlags = 0, SoundID = 0, OrgID = 0,
     ChanVolume = 0, Pitch = 0, EntChannel = 0, Priority = 0, ChanNearLimit = 0,
     SourceType = 0, ChanLimitRange = 0, Source = 0, Point = (0, 0, 0), DistanceScale = 0\<rparr>"

text \<open>
  \<open>GetChannel\<close>: take the head of the free list, or a new zeroed channel, link it at the
  head of the active list and store the backend handle. The channel returned is the one
  at position 0.
\<close>

definition GetChannel :: "nat option \<Rightarrow> SoundEngine \<Rightarrow> SoundEngine" where
  "GetChannel syschan eng =
     (case FreeChannels eng of
        [] \<Rightarrow> eng\<lparr>Channels := zero_chan\<lparr>SysChannel := syschan\<rparr> # Channels eng\<rparr>
      | chan # rest \<Rightarrow>
          eng\<lparr>Channels := chan\<lparr>SysChannel := syschan\<rparr> # Channels eng, FreeChannels := rest\<rparr>)"

text \<open>\<open>ReturnChannel\<close>: unlink the channel, zero it, link it at the head of the free list.\<close>

definition ReturnChannel :: "nat \<Rightarrow> SoundEngine \<Rightarrow> SoundEngine" where
  "ReturnChannel i eng =
     eng\<lparr>Channels := take i (Channels eng) @ drop (Suc i) (Channels eng),
         FreeChannels := zero_chan # FreeChannels eng\<rparr>"

section \<open>Sound engine: the end of a channel\<close>

text \<open>
  The decision of \<open>ChannelEnded\<close>, for the channel \<open>schan\<close>: \<open>pos\<close> and \<open>len\<close> are
  unsigned 32-bit values. The sample is that of \<open>S_sfx[schan->SoundID]\<close>, read only
  in the last branch.
\<close>

definition ended_evicted :: "Env \<Rightarrow> SoundEngine \<Rightarrow> FSoundChan \<Rightarrow> fault + bool" where
  "ended_evicted env eng schan =
     (if has_flag (ChanFlags schan) CHAN_FORGETTABLE then Inr False
      else if has_flag (ChanFlags schan) (CHAN_LOOP OR CHAN_EVICTED) then Inr True
      else if SoundID schan < 0 \<or> int (length (S_sfx eng)) \<le> SoundID schan then Inl OutOfBounds
      else
        (let pos = GetPosition env schan;
             len = GetSampleLength env (data (S_sfx eng ! nat (SoundID schan)))
         in if pos = 0 then Inr (has_flag (ChanFlags schan) CHAN_JUSTSTARTED)
            else Inr (pos < len)))"

text \<open>
  \<open>ChannelEnded ichan\<close>: \<open>None\<close> is the null pointer, \<open>Some i\<close> the channel at position
  \<open>i\<close> of the active list (\<open>i\<close> below its length).
\<close>

definition ChannelEnded :: "Env \<Rightarrow> nat option \<Rightarrow> SoundEngine \<Rightarrow> fault + SoundEngine" where
  "ChannelEnded env ichan eng =
     (case ichan of
        None \<Rightarrow> Inr eng
      | Some i \<Rightarrow>
          (let schan = Channels eng ! i in
           case ended_evicted env eng schan of
             Inl e \<Rightarrow> Inl e
           | Inr evicted \<Rightarrow>
               if \<not> evicted then Inr (ReturnChannel i eng)
               else Inr (eng\<lparr>Channels := (Channels eng)
                      [i := schan\<lparr>ChanFlags := ChanFlags schan OR CHAN_EVICTED,
                                   SysChannel := None\<rparr>]\<rparr>)))"

text \<open>
  Modelled from the spec: \<open>GSnd->StopChannel\<close> (the backend is not among the sources).
  The spec has the backend report the end of a voice it stops through the callback
  \<open>ChannelEnded\<close>, which retires or parks the channel.
\<close>

definition GSnd_StopChannel :: "Env \<Rightarrow> nat \<Rightarrow> SoundEngine \<Rightarrow> fault + SoundEngine" where
  "GSnd_StopChannel env i eng = ChannelEnded env (Some i) eng"

text \<open>\<open>StopChannel chan\<close>, for the channel at position \<open>i\<close> of the active list.\<close>

definition StopChannel :: "Env \<Rightarrow> nat \<Rightarrow> SoundEngine \<Rightarrow> fault + SoundEngine" where
  "StopChannel env i eng =
     (let chan = Channels eng ! i in
      if SysChannel chan \<noteq> None then
        (let chan' =
           (if \<not> has_flag (ChanFlags chan) CHAN_EVICTED then
              (let c1 = chan\<lparr>ChanFlags := ChanFlags chan OR CHAN_FORGETTABLE\<rparr>
               in if SourceType chan = SOURCE_Actor then c1\<lparr>Source := NULL\<rparr> else c1)
            else chan)
         in GSnd_StopChannel env i (eng\<lparr>Channels := (Channels eng)[i := chan']\<rparr>))
      else Inr (ReturnChannel i eng))"

text \<open>
  The one-argument \<open>StopSound\<close>. The loop walks the active list with \<open>chan\<close> at position
  \<open>i\<close>; \<open>n\<close> channels are still to visit. The successor is read before the channel is
  stopped: it is at position \<open>i\<close> when the stop unlinked the channel, at \<open>i + 1\<close> when
  the channel stayed in the list.
\<close>

fun StopSound_loop :: "Env \<Rightarrow> nat \<Rightarrow> nat \<Rightarrow> SoundEngine \<Rightarrow> fault + SoundEngine" where
  "StopSound_loop env 0 i eng = Inr eng"
| "StopSound_loop env (Suc n) i eng =
     (if SourceType (Channels eng ! i) = SOURCE_None then
        (case StopChannel env i eng of
           Inl e \<Rightarrow> Inl e
         | Inr eng' \<Rightarrow>
             StopSound_loop env n (if length (Channels eng') < length (Channels eng) then i else Suc i) eng')
      else StopSound_loop env n (Suc i) eng)"

definition StopSound :: "Env \<Rightarrow> int \<Rightarrow> SoundEngine \<Rightarrow> fault + SoundEngine" where
  "StopSound env channel eng = StopSound_loop env (length (Channels eng)) 0 eng"

section \<open>Sound engine: rolloff\<close>

text \<open>
  \<open>GetRolloff rolloff distance\<close>; \<open>None\<close> is the null pointer. The arithmetic is that of
  \<open>float\<close>. The table is a \<open>TArray\<close>, read without a check of the index: a read outside
  it is a fault, and so is the conversion to \<open>int\<close> of a position outside the range of
  \<open>int\<close>.
\<close>

definition GetRolloff :: "SoundEngine \<Rightarrow> FRolloffInfo option \<Rightarrow> float \<Rightarrow> fault + float" where
  "GetRolloff eng rolloff distance =
     (case rolloff of
        None \<Rightarrow> Inr (Fin 0)
      | Some r \<Rightarrow>
          if fle distance (MinDistance r) then Inr (Fin 1)
          else if RolloffType r = ROLLOFF_Log then
            Inr (fdiv (MinDistance r)
                   (fadd (MinDistance r) (fmul (RolloffFactor r) (fsub distance (MinDistance r)))))
          else if fge distance (MaxDistance r) then Inr (Fin 0)
          else
            (let volume = fdiv (fsub (MaxDistance r) distance) (fsub (MaxDistance r) (MinDistance r))
             in if RolloffType r = ROLLOFF_Linear then Inr volume
                else if RolloffType r = ROLLOFF_Custom \<and> length (S_SoundCurve eng) > 0 then
                  (case to_int (fmul (float_of_nat (length (S_SoundCurve eng)))
                                  (fsub (Fin 1) volume)) of
                     None \<Rightarrow> Inl Unrepresentable
                   | Some i \<Rightarrow>
                       if 0 \<le> i \<and> nat i < length (S_SoundCurve eng)
                       then Inr (fdiv (float_of_nat (unat (S_SoundCurve eng ! nat i))) (Fin 127))
                       else Inl OutOfBounds)
                else Inr (fdiv (fsub (powf10 volume) (Fin 1)) (Fin 9))))"

text \<open>
  The rolloff evaluation in the words of the spec, to compare with the code: 1 below the
  minimum; the table of the Custom type is read whatever its size.
\<close>

definition GetRolloff_spec :: "SoundEngine \<Rightarrow> FRolloffInfo \<Rightarrow> float \<Rightarrow> fault + float" where
  "GetRolloff_spec eng r d =
     (if flt d (MinDistance r) then Inr (Fin 1)
      else if RolloffType r = ROLLOFF_Log then
        Inr (fdiv (MinDistance r)
               (fadd (MinDistance r) (fmul (RolloffFactor r) (fsub d (MinDistance r)))))
      else if fge d (MaxDistance r) then Inr (Fin 0)
      else
        (let fraction = fdiv (fsub (MaxDistance r) d) (fsub (MaxDistance r) (MinDistance r))
         in if RolloffType r = ROLLOFF_Linear then Inr fraction
            else if RolloffType r = ROLLOFF_Custom then
              (case to_int (fmul (float_of_nat (length (S_SoundCurve eng)))
                              (fsub (Fin 1) fraction)) of
                 None \<Rightarrow> Inl Unrepresentable
               | Some i \<Rightarrow>
                   if 0 \<le> i \<and> nat i < length (S_SoundCurve eng)
                   then Inr (fdiv (float_of_nat (unat (S_SoundCurve eng ! nat i))) (Fin 127))
                   else Inl OutOfBounds)
            else Inr (fdiv (fsub (powf10 fraction) (Fin 1)) (Fin 9))))"

section \<open>Sound engine: the checks of StartSound\<close>

definition LengthSquared :: "FVector3 \<Rightarrow> real" where
  "LengthSquared v = (case v of (x, y, z) \<Rightarrow> x * x + y * y + z * z)"

definition vec_minus :: "FVector3 \<Rightarrow> FVector3 \<Rightarrow> FVector3" where
  "vec_minus a b = (case a of (ax, ay, az) \<Rightarrow> case b of (bx, by, bz) \<Rightarrow> (ax - bx, ay - by, az - bz))"

text \<open>\<open>CalcPosVel\<close> for a channel that is already playing.\<close>

definition CalcPosVel_chan :: "Env \<Rightarrow> FSoundChan \<Rightarrow> FVector3 \<times> FVector3" where
  "CalcPosVel_chan env chan =
     CalcPosVel env (SourceType chan) (Source chan) (Some (Point chan)) (int (EntChannel chan))
       (ChanFlags chan)"

text \<open>\<open>CheckSingular\<close>: the loop over the active list.\<close>

fun CheckSingular_loop :: "FSoundChan list \<Rightarrow> int \<Rightarrow> bool" where
  "CheckSingular_loop [] sound_id = False"
| "CheckSingular_loop (chan # rest) sound_id =
     (if OrgID chan = sound_id then True else CheckSingular_loop rest sound_id)"

definition CheckSingular :: "SoundEngine \<Rightarrow> int \<Rightarrow> bool" where
  "CheckSingular eng sound_id = CheckSingular_loop (Channels eng) sound_id"

text \<open>
  \<open>CheckSoundLimit\<close>: the loop runs while channels remain and \<open>count < near_limit\<close>. The
  pointer \<open>sfx\<close> is the index of the sound in \<open>S_sfx\<close>, and \<open>&S_sfx[chan->SoundID] == sfx\<close>
  compares indices.
\<close>

fun CheckSoundLimit_loop ::
  "Env \<Rightarrow> FSoundChan list \<Rightarrow> int \<Rightarrow> int \<Rightarrow> FVector3 \<Rightarrow> int \<Rightarrow> real \<Rightarrow> int \<Rightarrow> ptr \<Rightarrow> int \<Rightarrow> bool"
where
  "CheckSoundLimit_loop env [] count sfx pos near_limit limit_range sourcetype actor channel =
     (count \<ge> near_limit)"
| "CheckSoundLimit_loop env (chan # rest) count sfx pos near_limit limit_range sourcetype actor channel =
     (if \<not> count < near_limit then count \<ge> near_limit
      else if \<not> has_flag (ChanFlags chan) CHAN_EVICTED \<and> SoundID chan = sfx then
        (if actor \<noteq> NULL \<and> int (EntChannel chan) = channel \<and> SourceType chan = sourcetype
            \<and> Source chan = actor
         then False
         else
           (let chanorigin = fst (CalcPosVel_chan env chan)
            in CheckSoundLimit_loop env rest
                 (if LengthSquared (vec_minus chanorigin pos) \<le> limit_range then count + 1 else count)
                 sfx pos near_limit limit_range sourcetype actor channel))
      else CheckSoundLimit_loop env rest count sfx pos near_limit limit_range sourcetype actor
             channel)"

definition CheckSoundLimit ::
  "Env \<Rightarrow> SoundEngine \<Rightarrow> int \<Rightarrow> FVector3 \<Rightarrow> int \<Rightarrow> real \<Rightarrow> int \<Rightarrow> ptr \<Rightarrow> int \<Rightarrow> bool"
where
  "CheckSoundLimit env eng sfx pos near_limit limit_range sourcetype actor channel =
     CheckSoundLimit_loop env (Channels eng) 0 sfx pos near_limit limit_range sourcetype actor
       channel"

text \<open>
  \<open>IsChannelUsed\<close>, with the bit mask \<open>seen\<close> passed in and returned. \<open>1 << n\<close> is
  \<open>push_bit n 1\<close>.
\<close>

fun IsChannelUsed_loop :: "FSoundChan list \<Rightarrow> int \<Rightarrow> ptr \<Rightarrow> int \<Rightarrow> int \<Rightarrow> bool \<times> int" where
  "IsChannelUsed_loop [] sourcetype actor channel seen = (False, seen)"
| "IsChannelUsed_loop (chan # rest) sourcetype actor channel seen =
     (if SourceType chan = sourcetype \<and> Source chan = actor then
        (let seen' = seen OR push_bit (EntChannel chan) 1
         in if int (EntChannel chan) = channel then (True, seen')
            else IsChannelUsed_loop rest sourcetype actor channel seen')
      else IsChannelUsed_loop rest sourcetype actor channel seen)"

definition IsChannelUsed :: "SoundEngine \<Rightarrow> int \<Rightarrow> ptr \<Rightarrow> int \<Rightarrow> int \<Rightarrow> bool \<times> int" where
  "IsChannelUsed eng sourcetype actor channel seen =
     (if seen AND push_bit (nat channel) 1 \<noteq> 0 then (True, seen)
      else IsChannelUsed_loop (Channels eng) sourcetype actor channel seen)"

text \<open>
  The search \<open>for (channel = 7; channel > 0; --channel)\<close> of \<open>StartSound\<close>, from
  \<open>channel\<close> down: the result is the channel the loop ends with (0 when none is free).
\<close>

fun probe_down :: "SoundEngine \<Rightarrow> int \<Rightarrow> ptr \<Rightarrow> nat \<Rightarrow> int \<Rightarrow> int \<times> int" where
  "probe_down eng type source 0 seen = (0, seen)"
| "probe_down eng type source (Suc k) seen =
     (case IsChannelUsed eng type source (int (Suc k)) seen of
        (used, seen') \<Rightarrow>
          if \<not> used then (int (Suc k), seen') else probe_down eng type source k seen')"

text \<open>
  The choice of the channel: \<open>None\<close> when \<open>StartSound\<close> returns null for want of a free
  channel, else the channel and the mask \<open>seen\<close>.
\<close>

definition select_channel :: "SoundEngine \<Rightarrow> int \<Rightarrow> ptr \<Rightarrow> int \<Rightarrow> (int \<times> int) option" where
  "select_channel eng type source channel =
     (if source \<noteq> NULL \<and> channel = CHAN_AUTO then
        (case IsChannelUsed eng type source 0 0 of
           (used, seen) \<Rightarrow>
             if \<not> used then Some (0, seen)
             else
               (case probe_down eng type source 7 seen of
                  (channel', seen') \<Rightarrow> if channel' = 0 then None else Some (channel', seen')))
      else Some (channel, 0))"

text \<open>
  The channel \<open>StartSound\<close> stops before it starts the new one: the first of the active
  list with this source type and channel that is at the point (an unattached sound) or has
  the source.
\<close>

fun find_collision :: "FSoundChan list \<Rightarrow> nat \<Rightarrow> int \<Rightarrow> ptr \<Rightarrow> FVector3 option \<Rightarrow> int \<Rightarrow> nat option" where
  "find_collision [] i type source pt channel = None"
| "find_collision (chan # rest) i type source pt channel =
     (if SourceType chan = type \<and> int (EntChannel chan) = channel
         \<and> (if type = SOURCE_Unattached then Some (Point chan) = pt else Source chan = source)
      then Some i
      else find_collision rest (Suc i) type source pt channel)"

definition stop_collision ::
  "Env \<Rightarrow> int \<Rightarrow> ptr \<Rightarrow> FVector3 option \<Rightarrow> int \<Rightarrow> int \<Rightarrow> SoundEngine \<Rightarrow> fault + SoundEngine"
where
  "stop_collision env type source pt channel seen eng =
     (if type \<noteq> SOURCE_None
         \<and> ((source = NULL \<and> channel \<noteq> CHAN_AUTO)
              \<or> (source \<noteq> NULL \<and> fst (IsChannelUsed eng type source channel seen)))
      then
        (case find_collision (Channels eng) 0 type source pt channel of
           None \<Rightarrow> Inr eng
         | Some i \<Rightarrow> StopChannel env i eng)
      else Inr eng)"

section \<open>Sound engine: loading and resolving a sound\<close>

text \<open>
  \<open>LoadSound sfx\<close>, with the pointer \<open>sfx\<close> the index \<open>i\<close> into \<open>S_sfx\<close>. It returns
  the index of the entry that holds the data. The search is for the first entry that is
  loaded, is no link and has the lump.
\<close>

fun find_loaded :: "sfxinfo_t list \<Rightarrow> nat \<Rightarrow> int \<Rightarrow> nat option" where
  "find_loaded [] j lump = None"
| "find_loaded (s # rest) j lump =
     (if data s \<noteq> None \<and> link s = NO_LINK \<and> lumpnum s = lump then Some j
      else find_loaded rest (Suc j) lump)"

function LoadSound_loop :: "Env \<Rightarrow> nat \<Rightarrow> SoundEngine \<Rightarrow> nat \<times> SoundEngine" where
  "LoadSound_loop env i eng =
     (if length (S_sfx eng) \<le> i \<or> data (S_sfx eng ! i) \<noteq> None then (i, eng)
      else
        (let sfx = S_sfx eng ! i;
             sfx1 = (if lumpnum sfx = -1 then sfx\<lparr>lumpnum := sfx_empty env\<rparr> else sfx)
         in case find_loaded ((S_sfx eng)[i := sfx1]) 0 (lumpnum sfx1) of
              Some j \<Rightarrow>
                (j, eng\<lparr>S_sfx := (S_sfx eng)
                   [i := sfx1\<lparr>link := j,
                       Rolloff := (if feq (MinDistance (Rolloff sfx1)) (Fin 0) then S_Rolloff eng
                                   else Rolloff sfx1)\<rparr>]\<rparr>)
            | None \<Rightarrow>
                (case DecodeLump env (lumpnum sfx1) sfx1 of
                   (h, is3d) \<Rightarrow>
                     (let sfx2 = sfx1\<lparr>data := h, data3d := (if is3d then h else data3d sfx1)\<rparr>
                      in if h = None \<and> lumpnum sfx2 \<noteq> sfx_empty env then
                           LoadSound_loop env i
                             (eng\<lparr>S_sfx := (S_sfx eng)[i := sfx2\<lparr>lumpnum := sfx_empty env\<rparr>]\<rparr>)
                         else (i, eng\<lparr>S_sfx := (S_sfx eng)[i := sfx2]\<rparr>)))))"
  by pat_completeness auto
termination
  by (relation "measure (\<lambda>(env, i, eng). if lumpnum (S_sfx eng ! i) = sfx_empty env then 0 else 1)")
    (auto split: if_splits)

declare LoadSound_loop.simps [simp del]

definition LoadSound :: "Env \<Rightarrow> nat \<Rightarrow> SoundEngine \<Rightarrow> nat \<times> SoundEngine" where
  "LoadSound env i eng = (if IsNull env then (i, eng) else LoadSound_loop env i eng)"

definition LoadSound3D :: "Env \<Rightarrow> nat \<Rightarrow> SoundEngine \<Rightarrow> SoundEngine" where
  "LoadSound3D env i eng =
     (if IsNull env then eng
      else if data3d (S_sfx eng ! i) \<noteq> None then eng
      else eng\<lparr>S_sfx := (S_sfx eng)
             [i := (S_sfx eng ! i)\<lparr>data3d := DecodeLump3D env (lumpnum (S_sfx eng ! i)) (S_sfx eng ! i)\<rparr>]\<rparr>)"

text \<open>
  \<open>PickReplacement\<close>: the loop may not end (a random list that leads back to its
  header), so it runs on fuel. \<open>rp\<close> counts the calls of \<open>rand\<close>. Reads outside
  \<open>S_sfx\<close>, \<open>S_rnd\<close> and an empty list of choices are faults.
\<close>

fun PickReplacement :: "nat \<Rightarrow> Env \<Rightarrow> SoundEngine \<Rightarrow> nat \<Rightarrow> int \<Rightarrow> fault + (int \<times> nat)" where
  "PickReplacement 0 env eng rp refid = Inl OutOfFuel"
| "PickReplacement (Suc fuel) env eng rp refid =
     (if refid < 0 \<or> int (length (S_sfx eng)) \<le> refid then Inl OutOfBounds
      else if bRandomHeader (S_sfx eng ! nat refid) then
        (if length (S_rnd eng) \<le> link (S_sfx eng ! nat refid) then Inl OutOfBounds
         else
           (let list = S_rnd eng ! link (S_sfx eng ! nat refid)
            in if Choices list = [] then Inl DivByZero
               else PickReplacement fuel env eng (Suc rp)
                      (int (Choices list ! nat (rand env rp mod int (length (Choices list)))))))
      else Inr (refid, rp))"

text \<open>
  The locals of \<open>StartSound\<close> that the link resolution loop changes, and the loop, on fuel
  as well: \<open>while (sfx->link != NO_LINK)\<close>, with \<open>sfx = &S_sfx[sound_id]\<close> inside the table
  on entry.
\<close>

record resolving =
  rs_sound_id :: int
  rs_near_limit :: int
  rs_limit_range :: real
  rs_rolloff :: FRolloffInfo
  rs_attenuation :: real
  rs_rp :: nat

definition inherit :: "SoundEngine \<Rightarrow> resolving \<Rightarrow> int \<Rightarrow> resolving" where
  "inherit eng st sid =
     st\<lparr>rs_sound_id := sid,
        rs_near_limit := (if rs_near_limit st < 0 then NearLimit (S_sfx eng ! nat sid) else rs_near_limit st),
        rs_limit_range := (if rs_near_limit st < 0 then LimitRange (S_sfx eng ! nat sid) else rs_limit_range st),
        rs_rolloff := (if feq (MinDistance (rs_rolloff st)) (Fin 0) then Rolloff (S_sfx eng ! nat sid) else rs_rolloff st)\<rparr>"

fun resolve_links :: "nat \<Rightarrow> Env \<Rightarrow> SoundEngine \<Rightarrow> resolving \<Rightarrow> fault + resolving" where
  "resolve_links 0 env eng st = Inl OutOfFuel"
| "resolve_links (Suc fuel) env eng st =
     (let sfx = S_sfx eng ! nat (rs_sound_id st) in
      if link sfx = NO_LINK then Inr st
      else if bRandomHeader sfx then
        (case PickReplacement (Suc fuel) env eng (rs_rp st) (rs_sound_id st) of
           Inl e \<Rightarrow> Inl e
         | Inr (sid, rp') \<Rightarrow>
             resolve_links fuel env eng
               (inherit eng (st\<lparr>rs_attenuation := rs_attenuation st * Attenuation sfx, rs_rp := rp'\<rparr>) sid))
      else if length (S_sfx eng) \<le> link sfx then Inl OutOfBounds
      else resolve_links fuel env eng (inherit eng st (int (link sfx))))"

section \<open>Sound engine: StartSound\<close>

text \<open>
  A step of \<open>StartSound\<close> either returns null, with the engine as it is then, or goes on
  with the values it computed.
\<close>

datatype 'a step = Null SoundEngine | Next 'a

text \<open>
  The locals after the limit checks: the source type after the guard against a missing
  point, the channel and flag bits of the \<open>channel\<close> argument, the position, and the
  outcome of the link resolution.
\<close>

record request =
  rq_type :: int
  rq_channel :: int
  rq_chanflags :: int
  rq_org_id :: int
  rq_volume :: real
  rq_pitchmask :: int
  rq_pos :: FVector3
  rq_vel :: FVector3
  rq_res :: resolving

text \<open>
  Lines 436 to 469, after the link resolution gave \<open>res\<close>: the attenuation of the sound,
  the rolloff, the singular check, the exemption of unpositioned and listener sounds, and
  the limit of nearby copies.
\<close>

definition StartSound_limits ::
  "Env \<Rightarrow> SoundEngine \<Rightarrow> int \<Rightarrow> ptr \<Rightarrow> int \<Rightarrow> int \<Rightarrow> FVector3 \<times> FVector3 \<Rightarrow> int \<Rightarrow> real \<Rightarrow> int
     \<Rightarrow> FRolloffInfo option \<Rightarrow> resolving \<Rightarrow> request"
where
  "StartSound_limits env eng type source channel chanflags posvel org_id volume pitchmask
       forcedrolloff res =
     (let sfx = S_sfx eng ! nat (rs_sound_id res);
          att = rs_attenuation res * Attenuation sfx;
          rolloff1 =
            (case forcedrolloff of
               Some f \<Rightarrow> if fne (MinDistance f) (Fin 0) then f else rs_rolloff res
             | None \<Rightarrow> rs_rolloff res);
          rolloff2 = (if feq (MinDistance rolloff1) (Fin 0) then S_Rolloff eng else rolloff1);
          chanflags1 =
            (if bSingular sfx \<and> CheckSingular eng (rs_sound_id res)
             then chanflags OR CHAN_EVICTED else chanflags);
          near_limit1 =
            (if type = SOURCE_None \<or> source = ListenerObject eng then 0
             else rs_near_limit res);
          chanflags2 =
            (if near_limit1 > 0
                \<and> CheckSoundLimit env eng (rs_sound_id res) (fst posvel) near_limit1
                      (rs_limit_range res) type
                      (if type = SOURCE_Actor then source else NULL) channel
             then chanflags1 OR CHAN_EVICTED else chanflags1)
      in \<lparr>rq_type = type, rq_channel = channel, rq_chanflags = chanflags2, rq_org_id = org_id,
           rq_volume = volume, rq_pitchmask = pitchmask, rq_pos = fst posvel,
           rq_vel = snd posvel,
           rq_res = res\<lparr>rs_attenuation := att, rs_rolloff := rolloff2,
                       rs_near_limit := near_limit1\<rparr>\<rparr>)"

text \<open>Lines 371 to 469: the guards, the position, the volume, the links, the limits.\<close>

definition StartSound_checks ::
  "nat \<Rightarrow> Env \<Rightarrow> int \<Rightarrow> ptr \<Rightarrow> FVector3 option \<Rightarrow> int \<Rightarrow> int \<Rightarrow> real \<Rightarrow> real
     \<Rightarrow> FRolloffInfo option \<Rightarrow> SoundEngine \<Rightarrow> fault + request step"
where
  "StartSound_checks fuel env type0 source pt channel0 sound_id0 volume0 attenuation0 forcedrolloff eng =
     (if sound_id0 \<le> 0 \<or> volume0 \<le> 0 \<or> nosfx env \<or> nosound env then Inr (Null eng)
      else
        (let type = (if type0 = SOURCE_Unattached \<and> pt = None then SOURCE_None else type0);
             chanflags = channel0 AND NOT 7;
             channel = channel0 AND 7;
             posvel = CalcPosVel env type source pt channel chanflags
         in if \<not> ValidatePosVel env type source (fst posvel) (snd posvel) then Inr (Null eng)
            else if int (length (S_sfx eng)) \<le> sound_id0 then Inl OutOfBounds
            else
              (let sfx0 = S_sfx eng ! nat sound_id0;
                   volume = min (volume0 * Volume sfx0) 1
               in if volume \<le> 0 then Inr (Null eng)
                  else
                    (case resolve_links fuel env eng
                            \<lparr>rs_sound_id = sound_id0, rs_near_limit = NearLimit sfx0,
                             rs_limit_range = LimitRange sfx0, rs_rolloff = Rolloff sfx0,
                             rs_attenuation = attenuation0, rs_rp = 0\<rparr> of
                       Inl e \<Rightarrow> Inl e
                     | Inr res \<Rightarrow>
                         Inr (Next (StartSound_limits env eng type source channel chanflags
                                posvel sound_id0 volume (PitchMask sfx0) forcedrolloff res))))))"

text \<open>
  Lines 471 to 558: the return of a blocked sound that does not loop, the load, the empty
  sound, the priority, the choice of the channel, the stop of the channel in its place,
  the pause, the pitch. The two calls of \<open>rand\<close> are taken from left to right.
\<close>

record placed =
  pl_sfx :: nat
  pl_channel :: int
  pl_basepriority :: int
  pl_pitch :: int

definition StartSound_place ::
  "Env \<Rightarrow> ptr \<Rightarrow> FVector3 option \<Rightarrow> request \<Rightarrow> SoundEngine \<Rightarrow> fault + (placed \<times> SoundEngine) step"
where
  "StartSound_place env source pt rq eng =
     (if rq_chanflags rq AND (CHAN_EVICTED OR CHAN_LOOP) = CHAN_EVICTED then Inr (Null eng)
      else
        (case LoadSound env (nat (rs_sound_id (rq_res rq))) eng of
           (si, eng1) \<Rightarrow>
             if lumpnum (S_sfx eng1 ! si) = sfx_empty env then Inr (Null eng1)
             else
               (let basepriority =
                      (if rq_type rq = SOURCE_None \<or> source = ListenerObject eng1 then 80 else 0)
                in case select_channel eng1 (rq_type rq) source (rq_channel rq) of
                     None \<Rightarrow> Inr (Null eng1)
                   | Some (channel, seen) \<Rightarrow>
                       (case stop_collision env (rq_type rq) source pt channel seen eng1 of
                          Inl e \<Rightarrow> Inl e
                        | Inr eng2 \<Rightarrow>
                            if \<not> has_flag (rq_chanflags rq) CHAN_LOOP
                               \<and> \<not> has_flag (rq_chanflags rq) (CHAN_UI OR CHAN_NOPAUSE)
                               \<and> SoundPaused eng2
                            then Inr (Null eng2)
                            else
                              (let k = rs_rp (rq_res rq);
                                   pitch =
                                     (if rq_pitchmask rq \<noteq> 0 then
                                        DEFAULT_PITCH - (rand env k AND rq_pitchmask rq)
                                          + (rand env (Suc k) AND rq_pitchmask rq)
                                      else DEFAULT_PITCH)
                               in Inr (Next (\<lparr>pl_sfx = si, pl_channel = channel,
                                       pl_basepriority = basepriority, pl_pitch = pitch\<rparr>,
                                     eng2)))))))"

text \<open>
  Modelled from the spec: \<open>GSnd->StartSound\<close>, \<open>GSnd->StartSound3D\<close> and
  \<open>GSnd->MarkStartTime\<close> (the backend is not among the sources). \<open>voice\<close> is the
  backend's answer to this start: \<open>None\<close> when it refuses, else the handle of the voice,
  for which it takes a channel with \<open>GetChannel\<close>. \<open>MarkStartTime\<close> stores the clock.
\<close>

definition GSnd_StartSound :: "nat option \<Rightarrow> SoundEngine \<Rightarrow> nat option \<times> SoundEngine" where
  "GSnd_StartSound voice eng =
     (case voice of None \<Rightarrow> (None, eng) | Some h \<Rightarrow> (Some 0, GetChannel (Some h) eng))"

definition GSnd_MarkStartTime :: "Env \<Rightarrow> FSoundChan \<Rightarrow> FSoundChan" where
  "GSnd_MarkStartTime env chan = chan\<lparr>StartTime := Clock env\<rparr>"

text \<open>
  \<open>SetPitch\<close> stores \<open>max(1, int(DEFAULT_PITCH * pitch))\<close> in \<open>Pitch\<close>, an \<open>int16_t\<close>: the
  value wraps to 16 bits. (Below 1 the truncation of \<open>int()\<close> and the floor give the same
  maximum.)
\<close>

definition SetPitch :: "real \<Rightarrow> FSoundChan \<Rightarrow> FSoundChan" where
  "SetPitch pitch chan =
     chan\<lparr>Pitch := sint (word_of_int (max 1 \<lfloor>real_of_int DEFAULT_PITCH * pitch\<rfloor>) :: 16 word)\<rparr>"

text \<open>
  Lines 560 to 622: the start on the backend, the parked channel of a loop, and the state
  stored in the channel. The channel returned is the head of the active list.
\<close>

definition StartSound_start ::
  "Env \<Rightarrow> nat option \<Rightarrow> ptr \<Rightarrow> FVector3 option \<Rightarrow> real \<Rightarrow> request \<Rightarrow> placed \<Rightarrow> SoundEngine
     \<Rightarrow> nat option \<times> SoundEngine"
where
  "StartSound_start env voice source pt spitch rq pl eng =
     (let chanflags = rq_chanflags rq;
          att = rs_attenuation (rq_res rq);
          started =
            (if has_flag chanflags CHAN_EVICTED then (None, eng)
             else GSnd_StartSound voice (if att > 0 then LoadSound3D env (pl_sfx pl) eng else eng));
          parked = (fst started = None \<and> has_flag chanflags CHAN_LOOP);
          eng1 =
            (if parked then
               (let e = GetChannel None (snd started)
                in e\<lparr>Channels := GSnd_MarkStartTime env (hd (Channels e)) # tl (Channels e)\<rparr>)
             else snd started);
          chanflags1 = (if parked then chanflags OR CHAN_EVICTED else chanflags);
          chanflags2 =
            (if att > 0 then chanflags1 OR (CHAN_IS3D OR CHAN_JUSTSTARTED)
             else chanflags1 OR (CHAN_LISTENERZ OR CHAN_JUSTSTARTED))
      in if fst started = None \<and> \<not> parked then (None, eng1)
         else
           (let chan = hd (Channels eng1);
                chan1 = chan\<lparr>SoundID := rs_sound_id (rq_res rq), OrgID := rq_org_id rq,
                          EntChannel := nat (pl_channel pl), ChanVolume := rq_volume rq,
                          ChanFlags := ChanFlags chan OR chanflags2,
                          ChanNearLimit := rs_near_limit (rq_res rq),
                          ChanLimitRange := rs_limit_range (rq_res rq), Pitch := pl_pitch pl,
                          Priority := pl_basepriority pl, DistanceScale := att,
                          SourceType := rq_type rq\<rparr>;
                chan2 =
                  (if rq_type rq = SOURCE_Unattached then chan1\<lparr>Point := the pt\<rparr>
                   else if rq_type rq \<noteq> SOURCE_None then chan1\<lparr>Source := source\<rparr>
                   else chan1);
                chan3 = (if spitch > 0 then SetPitch spitch chan2 else chan2)
            in (Some 0, eng1\<lparr>Channels := chan3 # tl (Channels eng1)\<rparr>)))"

text \<open>
  \<open>StartSound\<close>. The result is the channel returned (\<open>None\<close> is null, \<open>Some 0\<close> the head
  of the active list) and the engine after the call.
\<close>

definition StartSound ::
  "nat \<Rightarrow> Env \<Rightarrow> nat option \<Rightarrow> int \<Rightarrow> ptr \<Rightarrow> FVector3 option \<Rightarrow> int \<Rightarrow> int \<Rightarrow> real \<Rightarrow> real
     \<Rightarrow> FRolloffInfo option \<Rightarrow> real \<Rightarrow> SoundEngine \<Rightarrow> fault + (nat option \<times> SoundEngine)"
where
  "StartSound fuel env voice type source pt channel sound_id volume attenuation forcedrolloff spitch eng =
     (case StartSound_checks fuel env type source pt channel sound_id volume attenuation
             forcedrolloff eng of
        Inl e \<Rightarrow> Inl e
      | Inr (Null eng') \<Rightarrow> Inr (None, eng')
      | Inr (Next rq) \<Rightarrow>
          (case StartSound_place env source pt rq eng of
             Inl e \<Rightarrow> Inl e
           | Inr (Null eng') \<Rightarrow> Inr (None, eng')
           | Inr (Next (pl, eng')) \<Rightarrow> Inr (StartSound_start env voice source pt spitch rq pl eng')))"

section \<open>Example data\<close>

text \<open>A client, a backend and an engine with one plain sound, for the concrete checks.\<close>

definition env0 :: Env where
  "env0 = \<lparr>nosfx = False, nosound = False, sfx_empty = -1,
     CalcPosVel = (\<lambda>type source pt channel flags.
       (case pt of None \<Rightarrow> (real source, 0, 0) | Some p \<Rightarrow> p, (0, 0, 0))),
     ValidatePosVel = (\<lambda>type source pos vel. True), rand = (\<lambda>n. 0), IsNull = False,
     GetPosition = (\<lambda>c. 5), GetSampleLength = (\<lambda>h. 9), Clock = 77,
     DecodeLump = (\<lambda>l s. (Some 1, True)), DecodeLump3D = (\<lambda>l s. Some 1)\<rparr>"

definition rolloff0 :: FRolloffInfo where
  "rolloff0 = \<lparr>RolloffType = ROLLOFF_Doom, MinDistance = Fin 200, MaxDistance = Fin 1200,
     RolloffFactor = Fin 1\<rparr>"

definition sfx0 :: sfxinfo_t where
  "sfx0 = \<lparr>data = None, data3d = None, lumpnum = 10, Volume = 1, PitchMask = 0, NearLimit = 2,
     LimitRange = 65536, bRandomHeader = False, bLoadRAW = False, bSingular = False,
     link = NO_LINK,
     Rolloff = \<lparr>RolloffType = ROLLOFF_Doom, MinDistance = Fin 0, MaxDistance = Fin 0,
       RolloffFactor = Fin 0\<rparr>,
     Attenuation = 1\<rparr>"

definition eng0 :: SoundEngine where
  "eng0 = \<lparr>SoundPaused = False, RestartEvictionsAt = 0, ListenerObject = 0, Channels = [],
     FreeChannels = [], S_sfx = [sfx0, sfx0], S_Rolloff = rolloff0, S_SoundCurve = [], S_rnd = []\<rparr>"
text \<open>
  The engine with a sound that has no limit of nearby copies, the same engine once the sound
  is loaded and the actor at address 9 plays it on the given channels (the head of the
  active list first), and a start of that sound on that actor with the channel \<open>CHAN_AUTO\<close>
  that the backend accepts.
\<close>

definition eng_auto :: SoundEngine where
  "eng_auto = eng0\<lparr>S_sfx := [sfx0, sfx0\<lparr>NearLimit := 0\<rparr>]\<rparr>"

definition auto_chan :: "nat \<Rightarrow> FSoundChan" where
  "auto_chan slot = \<lparr>SysChannel = Some 1, StartTime = 0, ChanFlags = 513, SoundID = 1, OrgID = 1,
     ChanVolume = 1, Pitch = 128, EntChannel = slot, Priority = 0, ChanNearLimit = 0,
     SourceType = SOURCE_Actor, ChanLimitRange = 65536, Source = 9, Point = (0, 0, 0),
     DistanceScale = 1\<rparr>"

definition auto_state :: "nat list \<Rightarrow> SoundEngine" where
  "auto_state slots =
     eng0\<lparr>S_sfx := [sfx0, sfx0\<lparr>NearLimit := 0, data := Some 1, data3d := Some 1\<rparr>],
          Channels := map auto_chan slots\<rparr>"

definition start_auto :: "SoundEngine \<Rightarrow> fault + (nat option \<times> SoundEngine)" where
  "start_auto eng = StartSound 1 env0 (Some 1) SOURCE_Actor 9 None CHAN_AUTO 1 1 1 None 0 eng"
text \<open>
  A channel an actor plays: the source, the channel, the sound it was started with, the
  sound it resolved to, and the limit stored. An engine with an alias (sound 1) of a
  singular sound (sound 2) and a sound without limit (sound 3), all loaded; an engine whose
  sound 1 allows one copy nearby.
\<close>

definition playing :: "ptr \<Rightarrow> nat \<Rightarrow> int \<Rightarrow> int \<Rightarrow> int \<Rightarrow> FSoundChan" where
  "playing source slot org sid nl =
     \<lparr>SysChannel = Some 1, StartTime = 0, ChanFlags = 513, SoundID = sid, OrgID = org,
      ChanVolume = 1, Pitch = 128, EntChannel = slot, Priority = 0, ChanNearLimit = nl,
      SourceType = SOURCE_Actor, ChanLimitRange = 65536, Source = source, Point = (0, 0, 0),
      DistanceScale = 1\<rparr>"

definition loaded :: "sfxinfo_t \<Rightarrow> sfxinfo_t" where
  "loaded s = s\<lparr>data := Some 1, data3d := Some 1\<rparr>"

definition siren_state :: "FSoundChan list \<Rightarrow> SoundEngine" where
  "siren_state chans =
     eng0\<lparr>S_sfx := [sfx0, sfx0\<lparr>link := 2\<rparr>, loaded (sfx0\<lparr>bSingular := True\<rparr>),
                     loaded (sfx0\<lparr>NearLimit := 0\<rparr>)],
          Channels := chans\<rparr>"

definition limit_state :: "FSoundChan list \<Rightarrow> SoundEngine" where
  "limit_state chans = eng0\<lparr>S_sfx := [sfx0, loaded (sfx0\<lparr>NearLimit := 1\<rparr>)], Channels := chans\<rparr>"


text \<open>
  The request of actor 9 for the singular sound 2, looping, on the channel \<open>CHAN_AUTO\<close>,
  while another actor plays that sound.
\<close>

definition rq_siren_loop :: request where
  "rq_siren_loop =
     \<lparr>rq_type = SOURCE_Actor, rq_channel = 0, rq_chanflags = 258, rq_org_id = 2, rq_volume = 1,
      rq_pitchmask = 0, rq_pos = (9, 0, 0), rq_vel = (0, 0, 0),
      rq_res = \<lparr>rs_sound_id = 2, rs_near_limit = 2, rs_limit_range = 65536,
                 rs_rolloff = rolloff0, rs_attenuation = 1, rs_rp = 0\<rparr>\<rparr>"

definition full_state :: SoundEngine where
  "full_state =
     siren_state (playing 10 0 2 2 2 # map (\<lambda>k. playing 9 k 3 3 0) [1, 2, 3, 4, 5, 6, 7, 0])"

section \<open>Properties of the rounding to float\<close>

lemmas ieee_defs = is_nan_def is_inf_def is_finite_def fval_def negative_def signed_zero_def
  signed_inf_def feq_def fne_def

lemma rne_int [simp]: "rne (of_int n) = n"
  by (simp add: rne_def)

lemma rne_mono: "x \<le> y \<Longrightarrow> rne x \<le> rne y"
proof -
  assume xy: "x \<le> y"
  have fx: "\<lfloor>x\<rfloor> \<le> rne x" "rne x \<le> \<lfloor>x\<rfloor> + 1" for x
    by (auto simp: rne_def Let_def)
  show ?thesis
  proof (cases "\<lfloor>x\<rfloor> = \<lfloor>y\<rfloor>")
    case True
    then show ?thesis using xy by (auto simp: rne_def Let_def)
  next
    case False
    then have "\<lfloor>x\<rfloor> < \<lfloor>y\<rfloor>" using xy floor_mono [of x y] by linarith
    then show ?thesis using fx(2) [of x] fx(1) [of y] by linarith
  qed
qed

lemma rne_minus: "rne (- x) = - rne x"
proof (cases "x = of_int \<lfloor>x\<rfloor>")
  case True
  then obtain n where "x = of_int n" ..
  then show ?thesis by (simp flip: of_int_minus)
next
  case False
  then have f: "\<lfloor>- x\<rfloor> = - \<lfloor>x\<rfloor> - 1"
    by (metis ceiling_altdef ceiling_def minus_minus minus_diff_eq uminus_add_conv_diff) 
  show ?thesis unfolding rne_def Let_def f by (auto simp: algebra_simps)
qed

lemma floor_log2:
  assumes "0 < x" "2 powi e \<le> x" "x < 2 powi (e + 1)"
  shows "\<lfloor>log 2 x\<rfloor> = e"
proof -
  have "2 powr (real_of_int e + 1) = 2 powi (e + 1)"
    using powr_real_of_int' [of 2 "e + 1"] by simp
  then show ?thesis using assms by (simp add: floor_log_eq_powr_iff powr_real_of_int')
qed


lemma two_powr_int: "2 powr real_of_int k = 2 powi k"
  by (simp add: powr_real_of_int')

lemma rne_0 [simp]: "rne 0 = 0"
  by (simp add: rne_def)

lemma expo32_at:
  assumes "2 powi e \<le> \<bar>x\<bar>" "\<bar>x\<bar> < 2 powi (e + 1)" "- 126 \<le> e"
  shows "expo32 x = e"
proof -
  have "(0::real) < 2 powi e" by simp
  then have "0 < \<bar>x\<bar>" using assms(1) by linarith
  then show ?thesis using floor_log2 [OF _ assms(1,2)] assms(3) by (simp add: expo32_def)
qed

lemma expo32_minus [simp]: "expo32 (- x) = expo32 x"
  by (simp add: expo32_def)

lemma expo32_low: "- 126 \<le> expo32 x"
  by (simp add: expo32_def)

lemma expo32_upper:
  assumes "x \<noteq> 0"
  shows "\<bar>x\<bar> < 2 powi (expo32 x + 1)"
proof -
  have "log 2 \<bar>x\<bar> < of_int (\<lfloor>log 2 \<bar>x\<bar>\<rfloor> + 1)" by linarith
  also have "\<dots> \<le> of_int (expo32 x + 1)" by (simp add: expo32_def)
  finally have "\<bar>x\<bar> < 2 powr of_int (expo32 x + 1)"
    using assms by (simp add: log_less_iff)
  then show ?thesis unfolding two_powr_int .
qed

lemma expo32_lower:
  assumes "- 126 < expo32 x" "x \<noteq> 0"
  shows "2 powi expo32 x \<le> \<bar>x\<bar>"
proof -
  have e: "expo32 x = \<lfloor>log 2 \<bar>x\<bar>\<rfloor>" using assms by (simp add: expo32_def)
  have "of_int (expo32 x) \<le> log 2 \<bar>x\<bar>" unfolding e by linarith
  then have "2 powr of_int (expo32 x) \<le> \<bar>x\<bar>"
    using assms by (simp add: le_log_iff)
  then show ?thesis unfolding two_powr_int .
qed

lemma expo32_mono:
  assumes "x \<noteq> 0" "\<bar>x\<bar> \<le> \<bar>y\<bar>"
  shows "expo32 x \<le> expo32 y"
proof -
  have "log 2 \<bar>x\<bar> \<le> log 2 \<bar>y\<bar>" using assms by simp
  then have "\<lfloor>log 2 \<bar>x\<bar>\<rfloor> \<le> \<lfloor>log 2 \<bar>y\<bar>\<rfloor>" by (rule floor_mono)
  then show ?thesis by (simp add: expo32_def)
qed

lemma ulp32_pos [simp]: "0 < ulp32 x"
  by (simp add: ulp32_def)

lemma ulp32_minus [simp]: "ulp32 (- x) = ulp32 x"
  by (simp add: ulp32_def)

lemma nearest32_minus [simp]: "nearest32 (- x) = - nearest32 x"
  by (simp add: nearest32_def rne_minus)

lemma nearest32_0 [simp]: "nearest32 0 = 0"
  by (simp add: nearest32_def)

lemma rne_nonneg: "0 \<le> x \<Longrightarrow> 0 \<le> rne x"
  using rne_mono [of 0 x] rne_int [of 0] by simp

lemma nearest32_nonneg: "0 \<le> x \<Longrightarrow> 0 \<le> nearest32 x"
proof -
  assume "0 \<le> x"
  then have "0 \<le> x / ulp32 x" by (simp add: less_imp_le)
  then have "0 \<le> rne (x / ulp32 x)" by (rule rne_nonneg)
  then show ?thesis unfolding nearest32_def
    by (intro mult_nonneg_nonneg) (simp_all add: less_imp_le)
qed


text \<open>Monotonicity of the nearest value.\<close>

lemma nearest32_upper:
  assumes "0 < x"
  shows "nearest32 x \<le> 2 powi (expo32 x + 1)"
proof -
  have "x < 2 powi (expo32 x + 1)" using expo32_upper [of x] assms by simp
  also have "\<dots> = 2 ^ 24 * ulp32 x"
    by (simp add: ulp32_def power_int_add power_int_diff)
  finally have "x / ulp32 x \<le> 2 ^ 24" by (simp add: pos_divide_le_eq)
  then have "rne (x / ulp32 x) \<le> rne (of_int (2 ^ 24))" by (intro rne_mono) simp
  then have "rne (x / ulp32 x) \<le> 2 ^ 24" unfolding rne_int .
  then have "real_of_int (rne (x / ulp32 x)) \<le> real_of_int (2 ^ 24)"
    by (simp only: of_int_le_iff)
  then have "real_of_int (rne (x / ulp32 x)) \<le> 2 ^ 24" by simp
  then have "nearest32 x \<le> 2 ^ 24 * ulp32 x"
    unfolding nearest32_def by (intro mult_right_mono) (simp_all add: less_imp_le)
  then show ?thesis by (simp add: ulp32_def power_int_add power_int_diff)
qed

lemma nearest32_lower:
  assumes "0 < x" "- 126 < expo32 x"
  shows "2 powi expo32 x \<le> nearest32 x"
proof -
  have "2 powi expo32 x \<le> x" using expo32_lower [of x] assms by simp
  moreover have e: "2 powi expo32 x = 2 ^ 23 * ulp32 x"
    by (simp add: ulp32_def power_int_diff)
  ultimately have "2 ^ 23 \<le> x / ulp32 x" by (simp add: pos_le_divide_eq)
  then have "rne (of_int (2 ^ 23)) \<le> rne (x / ulp32 x)" by (intro rne_mono) simp
  then have "2 ^ 23 \<le> rne (x / ulp32 x)" unfolding rne_int .
  then have "real_of_int (2 ^ 23) \<le> real_of_int (rne (x / ulp32 x))"
    by (simp only: of_int_le_iff)
  then have "2 ^ 23 \<le> real_of_int (rne (x / ulp32 x))" by simp
  then have "2 ^ 23 * ulp32 x \<le> nearest32 x"
    unfolding nearest32_def by (intro mult_right_mono) (simp_all add: less_imp_le)
  then show ?thesis unfolding e .
qed

lemma nearest32_mono_pos:
  assumes "0 < x" "x \<le> y"
  shows "nearest32 x \<le> nearest32 y"
proof (cases "expo32 x = expo32 y")
  case True
  then have u: "ulp32 x = ulp32 y" by (simp add: ulp32_def)
  have "x / ulp32 y \<le> y / ulp32 y" using assms by (simp add: divide_right_mono less_imp_le)
  then have "rne (x / ulp32 y) \<le> rne (y / ulp32 y)" by (rule rne_mono)
  then have "real_of_int (rne (x / ulp32 y)) \<le> real_of_int (rne (y / ulp32 y))" by linarith
  then show ?thesis unfolding nearest32_def u
    by (intro mult_right_mono) (simp_all add: less_imp_le)
next
  case False
  have "expo32 x \<le> expo32 y" using expo32_mono [of x y] assms by simp
  then have lt: "expo32 x + 1 \<le> expo32 y" using False by simp
  then have "- 126 < expo32 y" using expo32_low [of x] by linarith
  then have "2 powi expo32 y \<le> nearest32 y" using nearest32_lower [of y] assms by simp
  moreover have "nearest32 x \<le> 2 powi (expo32 x + 1)" using nearest32_upper assms by simp
  moreover have "(2::real) powi (expo32 x + 1) \<le> 2 powi expo32 y"
    using lt by (intro power_int_increasing) simp_all
  ultimately show ?thesis by linarith
qed

lemma nearest32_mono: "x \<le> y \<Longrightarrow> nearest32 x \<le> nearest32 y"
proof -
  assume xy: "x \<le> y"
  consider "0 < x" | "x \<le> 0" "0 \<le> y" | "y < 0" by linarith
  then show ?thesis
  proof cases
    case 1
    then show ?thesis using xy by (rule nearest32_mono_pos)
  next
    case 2
    have "nearest32 x \<le> 0" using nearest32_nonneg [of "- x"] 2 by simp
    then show ?thesis using nearest32_nonneg [of y] 2 by linarith
  next
    case 3
    then have "nearest32 (- y) \<le> nearest32 (- x)" using xy by (intro nearest32_mono_pos) simp_all
    then show ?thesis by simp
  qed
qed


text \<open>Numbers the format holds are kept.\<close>

lemma nearest32_dyadic:
  assumes "\<bar>n\<bar> < 2 ^ 24" "- 149 \<le> k"
  shows "nearest32 (of_int n * 2 powi k) = of_int n * 2 powi k"
proof (cases "n = 0")
  case True
  then show ?thesis by simp
next
  case False
  define x :: real where "x = of_int n * 2 powi k"
  have x0: "x \<noteq> 0" using False by (simp add: x_def)
  have "\<bar>x\<bar> = of_int \<bar>n\<bar> * 2 powi k" by (simp add: x_def abs_mult)
  also have "\<dots> < 2 ^ 24 * 2 powi k"
  proof -
    have "real_of_int \<bar>n\<bar> < real_of_int (2 ^ 24)" using assms(1) by (simp only: of_int_less_iff)
    then show ?thesis by simp
  qed
  also have "\<dots> = 2 powr of_int (k + 24)"
    unfolding two_powr_int by (simp add: power_int_add)
  finally have "log 2 \<bar>x\<bar> < of_int (k + 24)" using x0 by (simp add: log_less_iff)
  then have "\<lfloor>log 2 \<bar>x\<bar>\<rfloor> < k + 24" by linarith
  then have e: "expo32 x - 23 \<le> k" using assms(2) by (simp add: expo32_def)
  define u where "u = expo32 x - 23"
  define j where "j = nat (k - u)"
  have k: "k = u + int j" using e by (simp add: j_def u_def)
  have p: "(2::real) powi k = 2 powi u * 2 ^ j"
    unfolding k by (simp add: power_int_add)
  have ul: "ulp32 x = 2 powi u" by (simp add: ulp32_def u_def)
  have xe: "x = of_int n * (2 powi u * 2 ^ j)" using p by (simp add: x_def)
  have "x / 2 powi u = of_int n * 2 ^ j" by (subst xe) simp
  then have "x / ulp32 x = of_int n * 2 ^ j" unfolding ul .
  also have "\<dots> = of_int (n * 2 ^ j)" by simp
  finally have "rne (x / ulp32 x) = n * 2 ^ j" by (simp only: rne_int)
  then have "nearest32 x = of_int n * 2 ^ j * ulp32 x" by (simp add: nearest32_def)
  also have "\<dots> = x"
    unfolding ul by (subst xe) simp
  finally show ?thesis by (simp add: x_def)
qed

lemma round32_exact:
  assumes "nearest32 x = x" "\<bar>x\<bar> < 2 ^ 128"
  shows "round32 x = Fin x"
  using assms by (simp add: round32_def)

lemma round32_dyadic:
  assumes "\<bar>n\<bar> < 2 ^ 24" "- 149 \<le> k" "k \<le> 104"
  shows "round32 (of_int n * 2 powi k) = Fin (of_int n * 2 powi k)"
proof (rule round32_exact [OF nearest32_dyadic [OF assms(1,2)]])
  have "\<bar>of_int n * 2 powi k\<bar> = real_of_int \<bar>n\<bar> * 2 powi k" by (simp add: abs_mult)
  also have "\<dots> \<le> real_of_int \<bar>n\<bar> * 2 powi 104"
    using assms(3) by (intro mult_left_mono power_int_increasing) simp_all
  also have "\<dots> < 2 ^ 24 * 2 powi 104"
  proof -
    have "real_of_int \<bar>n\<bar> < real_of_int (2 ^ 24)" using assms(1) by (simp only: of_int_less_iff)
    then show ?thesis by simp
  qed
  also have "\<dots> = 2 ^ 128" by simp
  finally show "\<bar>real_of_int n * 2 powi k\<bar> < 2 ^ 128" .
qed

lemma round32_int:
  assumes "\<bar>n\<bar> < 2 ^ 24"
  shows "round32 (of_int n) = Fin (of_int n)"
  using round32_dyadic [OF assms, of 0] by simp

lemma round32_at:
  assumes "2 powi e \<le> \<bar>x\<bar>" "\<bar>x\<bar> < 2 powi (e + 1)" "- 126 \<le> e"
  shows "round32 x =
     (let y = of_int (rne (x / 2 powi (e - 23))) * 2 powi (e - 23)
      in if 2 ^ 128 \<le> \<bar>y\<bar> then (if x < 0 then NInf else PInf)
         else if y = 0 then (if x < 0 then NZero else Fin 0)
         else Fin y)"
proof -
  have "(0::real) < 2 powi e" by simp
  then have "0 < \<bar>x\<bar>" using assms(1) by linarith
  then have "x \<noteq> 0" by auto
  then show ?thesis
    by (simp add: round32_def nearest32_def ulp32_def expo32_at [OF assms])
qed

section \<open>Properties of the channel flags\<close>

lemma has_flag_or: "has_flag x (a OR b) \<longleftrightarrow> has_flag x a \<or> has_flag x b"
  by (auto simp add: has_flag_def bit.conj_disj_distrib or_eq_0_iff)

lemma has_flag_exp: "has_flag x (2 ^ n) = bit x n"
  by (simp add: has_flag_def and_exp_eq_0_iff_not_bit)

lemma has_flag_bits:
  "has_flag x CHAN_IS3D = bit x 0"
  "has_flag x CHAN_EVICTED = bit x 1"
  "has_flag x CHAN_FORGETTABLE = bit x 2"
  "has_flag x CHAN_UI = bit x 5"
  "has_flag x CHAN_NOPAUSE = bit x 6"
  "has_flag x CHAN_LOOP = bit x 8"
  "has_flag x CHAN_JUSTSTARTED = bit x 9"
  using has_flag_exp [of x 0] has_flag_exp [of x 1] has_flag_exp [of x 2] has_flag_exp [of x 5]
    has_flag_exp [of x 6] has_flag_exp [of x 8] has_flag_exp [of x 9]
  by (simp_all add: chan_defs)

lemma or_exp_bit: "bit (x OR 2 ^ n :: int) m \<longleftrightarrow> bit x m \<or> m = n"
  by (auto simp add: bit_simps)

lemma or_exp_id: "bit (x :: int) n \<Longrightarrow> x OR 2 ^ n = x"
  by (rule bit_eqI) (auto simp add: bit_simps)

lemma or_evicted_id: "has_flag x CHAN_EVICTED \<Longrightarrow> x OR CHAN_EVICTED = x"
proof -
  assume "has_flag x CHAN_EVICTED"
  then have "bit x 1" by (simp only: has_flag_bits)
  then have "x OR 2 ^ 1 = x" by (rule or_exp_id)
  then show ?thesis by (simp add: CHAN_EVICTED_def)
qed

lemma forgettable_or: "has_flag (x OR CHAN_FORGETTABLE) CHAN_FORGETTABLE"
proof -
  have "bit (x OR 2 ^ 2) 2" using or_exp_bit [of x 2 2] by simp
  then have "bit (x OR CHAN_FORGETTABLE) 2" by (simp add: CHAN_FORGETTABLE_def)
  then show ?thesis by (simp only: has_flag_bits)
qed

lemma forgettable_or_evicted:
  "has_flag (x OR CHAN_FORGETTABLE) CHAN_EVICTED = has_flag x CHAN_EVICTED"
proof -
  have "bit (x OR 2 ^ 2) 1 = bit x 1" using or_exp_bit [of x 2 1] by simp
  then have "bit (x OR CHAN_FORGETTABLE) 1 = bit x 1" by (simp add: CHAN_FORGETTABLE_def)
  then show ?thesis by (simp only: has_flag_bits)
qed

lemma evicted_or: "has_flag (x OR CHAN_EVICTED) CHAN_EVICTED"
proof -
  have "bit (x OR 2 ^ 1) 1" using or_exp_bit [of x 1 1] by simp
  then have "bit (x OR CHAN_EVICTED) 1" by (simp add: CHAN_EVICTED_def)
  then show ?thesis by (simp only: has_flag_bits)
qed

lemma has_flag_or_left: "has_flag (a OR b) f \<longleftrightarrow> has_flag a f \<or> has_flag b f"
  by (auto simp add: has_flag_def bit.conj_disj_distrib2 or_eq_0_iff)

lemma has_flag_self: "has_flag CHAN_EVICTED CHAN_EVICTED"
  by (simp add: has_flag_def CHAN_EVICTED_def)

lemma and_exp_value: "(x::int) AND 2 ^ n = (if bit x n then 2 ^ n else 0)"
  by (rule bit_eqI) (auto simp add: bit_simps)

lemma early_return_iff:
  "(flags AND (CHAN_EVICTED OR CHAN_LOOP) = CHAN_EVICTED)
     \<longleftrightarrow> has_flag flags CHAN_EVICTED \<and> \<not> has_flag flags CHAN_LOOP"
proof -
  have "flags AND (2 ^ 1 OR 2 ^ 8) = (flags AND 2 ^ 1) OR (flags AND 2 ^ 8)"
    by (rule bit.conj_disj_distrib)
  then have "(flags AND (2 ^ 1 OR 2 ^ 8) = 2 ^ 1) \<longleftrightarrow> bit flags 1 \<and> \<not> bit flags 8"
    by (simp only: and_exp_value) simp
  then have "(flags AND (CHAN_EVICTED OR CHAN_LOOP) = CHAN_EVICTED)
      \<longleftrightarrow> bit flags 1 \<and> \<not> bit flags 8"
    by (simp add: chan_defs)
  then show ?thesis
    by (simp only: has_flag_bits)
qed

section \<open>Properties of ChannelEnded\<close>

text \<open>
  C3. \<open>ChannelEnded\<close> on the channel at position \<open>i\<close> of the active list, whose sound is
  in the table: a Forgettable channel is not evicted; else a channel with Loop or Evicted
  set is evicted; else, with the backend position \<open>p\<close> and the sample length \<open>L\<close>, it is
  evicted iff JustStarted is set when \<open>p = 0\<close>, and iff \<open>p < L\<close> otherwise. An evicted
  channel stays in the active list with Evicted set and \<open>SysChannel\<close> cleared; any other
  leaves the active list, and a zeroed channel enters the free list.
\<close>

theorem ChannelEnded_classifies:
  assumes i: "i < length (Channels eng)"
    and id: "0 \<le> SoundID (Channels eng ! i)" "SoundID (Channels eng ! i) < int (length (S_sfx eng))"
  shows "ChannelEnded env (Some i) eng =
    (let schan = Channels eng ! i;
         flags = ChanFlags schan;
         p = GetPosition env schan;
         L = GetSampleLength env (data (S_sfx eng ! nat (SoundID schan)));
         evicted =
           (if has_flag flags CHAN_FORGETTABLE then False
            else if has_flag flags CHAN_LOOP \<or> has_flag flags CHAN_EVICTED then True
            else if p = 0 then has_flag flags CHAN_JUSTSTARTED
            else p < L)
     in if evicted
        then Inr (eng\<lparr>Channels := (Channels eng)
               [i := schan\<lparr>ChanFlags := flags OR CHAN_EVICTED, SysChannel := None\<rparr>]\<rparr>)
        else Inr (eng\<lparr>Channels := take i (Channels eng) @ drop (Suc i) (Channels eng),
                      FreeChannels := zero_chan # FreeChannels eng\<rparr>))"
  using id by (simp add: ChannelEnded_def ended_evicted_def ReturnChannel_def has_flag_or Let_def)


theorem ChannelEnded_classifies_witness:
  "ChannelEnded env0 (Some 0) (eng0\<lparr>Channels := [zero_chan\<lparr>SysChannel := Some 3\<rparr>]\<rparr>)
     = Inr (eng0\<lparr>Channels := [zero_chan\<lparr>ChanFlags := 2\<rparr>]\<rparr>)"
  by (subst ChannelEnded_classifies)
    (simp_all add: zero_chan_def has_flag_def chan_defs env0_def eng0_def)

section \<open>Properties of the one-argument StopSound\<close>

text \<open>
  What \<open>StopChannel\<close> does to one channel. A channel whose voice is live, that is marked
  Evicted and not Forgettable, is parked by the callback: it stays in the list, its voice
  released. Every other channel is retired to the free list.
\<close>

definition parks :: "FSoundChan \<Rightarrow> bool" where
  "parks chan = (SysChannel chan \<noteq> None \<and> has_flag (ChanFlags chan) CHAN_EVICTED
     \<and> \<not> has_flag (ChanFlags chan) CHAN_FORGETTABLE)"

definition stopped :: "FSoundChan \<Rightarrow> FSoundChan list" where
  "stopped chan =
     (if SourceType chan = SOURCE_None then
        (if parks chan then [chan\<lparr>SysChannel := None\<rparr>] else [])
      else [chan])"

lemma StopChannel_result:
  assumes "i < length (Channels eng)"
  shows "StopChannel env i eng =
     Inr (if parks (Channels eng ! i)
          then eng\<lparr>Channels := (Channels eng)[i := (Channels eng ! i)\<lparr>SysChannel := None\<rparr>]\<rparr>
          else ReturnChannel i eng)"
proof (cases "SysChannel (Channels eng ! i) = None")
  case True
  then show ?thesis by (simp add: StopChannel_def parks_def)
next
  case False
  show ?thesis
  proof (cases "has_flag (ChanFlags (Channels eng ! i)) CHAN_EVICTED")
    case True
    then show ?thesis using False assms
      by (auto simp add: StopChannel_def parks_def GSnd_StopChannel_def ChannelEnded_def
          ended_evicted_def has_flag_or or_evicted_id Let_def)
  next
    case nev: False
    then show ?thesis using False assms
      by (auto simp add: StopChannel_def parks_def GSnd_StopChannel_def ChannelEnded_def
          ended_evicted_def forgettable_or Let_def ReturnChannel_def)
  qed
qed

definition retired :: "FSoundChan \<Rightarrow> bool" where
  "retired chan = (SourceType chan = SOURCE_None \<and> \<not> parks chan)"

lemma stopped_other: "SourceType ch \<noteq> SOURCE_None \<Longrightarrow> stopped ch = [ch] \<and> \<not> retired ch"
  by (simp add: stopped_def retired_def)

lemma stopped_parks:
  "SourceType ch = SOURCE_None \<Longrightarrow> parks ch \<Longrightarrow> stopped ch = [ch\<lparr>SysChannel := None\<rparr>] \<and> \<not> retired ch"
  by (simp add: stopped_def retired_def)

lemma stopped_retired:
  "SourceType ch = SOURCE_None \<Longrightarrow> \<not> parks ch \<Longrightarrow> stopped ch = [] \<and> retired ch"
  by (simp add: stopped_def retired_def)

lemma StopSound_loop_result:
  "Channels eng = pre @ rest \<Longrightarrow>
   StopSound_loop env (length rest) (length pre) eng =
     Inr (eng\<lparr>Channels := pre @ concat (map stopped rest),
              FreeChannels := replicate (length (filter retired rest)) zero_chan @ FreeChannels eng\<rparr>)"
proof (induction rest arbitrary: eng pre)
  case Nil
  then show ?case by simp
next
  case (Cons ch rest)
  have at: "Channels eng ! length pre = ch" and len: "length pre < length (Channels eng)"
    using Cons.prems by simp_all
  show ?case
  proof (cases "SourceType ch = SOURCE_None")
    case False
    have "StopSound_loop env (length rest) (length (pre @ [ch])) eng =
      Inr (eng\<lparr>Channels := (pre @ [ch]) @ concat (map stopped rest),
              FreeChannels := replicate (length (filter retired rest)) zero_chan @ FreeChannels eng\<rparr>)"
      by (rule Cons.IH) (simp add: Cons.prems)
    then show ?thesis using False at stopped_other [OF False]
      by simp
  next
    case True
    show ?thesis
    proof (cases "parks ch")
      case p: True
      define eng' where "eng' = eng\<lparr>Channels := pre @ ch\<lparr>SysChannel := None\<rparr> # rest\<rparr>"
      have st: "StopChannel env (length pre) eng = Inr eng'"
        using StopChannel_result [OF len, of env] p at Cons.prems
        by (simp add: eng'_def list_update_append)
      have "StopSound_loop env (length rest) (length (pre @ [ch\<lparr>SysChannel := None\<rparr>])) eng' =
        Inr (eng'\<lparr>Channels := (pre @ [ch\<lparr>SysChannel := None\<rparr>]) @ concat (map stopped rest),
              FreeChannels := replicate (length (filter retired rest)) zero_chan @ FreeChannels eng'\<rparr>)"
        by (rule Cons.IH) (simp add: eng'_def)
      then show ?thesis using True at st stopped_parks [OF True p] Cons.prems
        by (simp add: eng'_def)
    next
      case np: False
      define eng' where "eng' = eng\<lparr>Channels := pre @ rest, FreeChannels := zero_chan # FreeChannels eng\<rparr>"
      have st: "StopChannel env (length pre) eng = Inr eng'"
        using StopChannel_result [OF len, of env] np at Cons.prems
        by (simp add: eng'_def ReturnChannel_def)
      have "StopSound_loop env (length rest) (length pre) eng' =
        Inr (eng'\<lparr>Channels := pre @ concat (map stopped rest),
              FreeChannels := replicate (length (filter retired rest)) zero_chan @ FreeChannels eng'\<rparr>)"
        by (rule Cons.IH) (simp add: eng'_def)
      then show ?thesis using True at st stopped_retired [OF True np] Cons.prems
        by (simp add: eng'_def replicate_app_Cons_same)
    qed
  qed
qed

lemma filter_stopped:
  "filter (\<lambda>ch. SourceType ch \<noteq> SOURCE_None) (concat (map stopped cs))
     = filter (\<lambda>ch. SourceType ch \<noteq> SOURCE_None) cs"
  by (induction cs) (auto simp: stopped_def)

text \<open>
  C10. The one-argument \<open>StopSound\<close> never faults; it applies \<open>StopChannel\<close> to every
  channel of the active list whose source type is \<open>SOURCE_None\<close> (each is retired to the
  free list, or parked with its voice released) and to no other: the channels of any other
  source type stay as they are, in their order. Its argument has no effect.
\<close>

theorem StopSound_unpositioned:
  "StopSound env c eng =
     Inr (eng\<lparr>Channels := concat (map stopped (Channels eng)),
              FreeChannels := replicate (length (filter retired (Channels eng))) zero_chan
                               @ FreeChannels eng\<rparr>)
   \<and> filter (\<lambda>ch. SourceType ch \<noteq> SOURCE_None) (concat (map stopped (Channels eng)))
       = filter (\<lambda>ch. SourceType ch \<noteq> SOURCE_None) (Channels eng)
   \<and> StopSound env c eng = StopSound env c' eng"
  using StopSound_loop_result [of eng "[]" "Channels eng" env]
  by (simp add: StopSound_def filter_stopped)


theorem StopSound_unpositioned_witness:
  "StopSound env0 5
     (eng0\<lparr>Channels := [zero_chan\<lparr>SysChannel := Some 3\<rparr>,
        zero_chan\<lparr>SourceType := SOURCE_Actor, Source := 9, SysChannel := Some 4\<rparr>, zero_chan]\<rparr>)
   = Inr (eng0\<lparr>Channels := [zero_chan\<lparr>SourceType := SOURCE_Actor, Source := 9, SysChannel := Some 4\<rparr>],
        FreeChannels := [zero_chan, zero_chan]\<rparr>)"
  using StopSound_unpositioned [of env0 5 "eng0\<lparr>Channels := [zero_chan\<lparr>SysChannel := Some 3\<rparr>,
        zero_chan\<lparr>SourceType := SOURCE_Actor, Source := 9, SysChannel := Some 4\<rparr>, zero_chan]\<rparr>" 0]
  by (simp add: stopped_def retired_def parks_def zero_chan_def source_defs eng0_def has_flag_def)

section \<open>Properties of GetRolloff\<close>

text \<open>The operations on finite operands, for the evaluation of examples.\<close>

lemma fsub_Fin: "fsub (Fin x) (Fin y) = round32 (x - y)"
  by (simp add: fsub_def fadd_def fneg_def ieee_defs)

lemma fadd_Fin: "fadd (Fin x) (Fin y) = round32 (x + y)"
  by (simp add: fadd_def ieee_defs)

lemma round32_0 [simp]: "round32 0 = Fin 0"
  by (simp add: round32_def)

lemma fmul_Fin:
  "fmul (Fin x) (Fin y) = (if x * y = 0 then signed_zero ((x < 0) \<noteq> (y < 0)) else round32 (x * y))"
  by (simp add: fmul_def ieee_defs)

lemma fdiv_Fin: "x \<noteq> 0 \<Longrightarrow> y \<noteq> 0 \<Longrightarrow> fdiv (Fin x) (Fin y) = round32 (x / y)"
  by (simp add: fdiv_def ieee_defs)

lemma round32_numeral:
  "numeral n < (2 ^ 24 :: int) \<Longrightarrow> round32 (numeral n) = Fin (numeral n)"
  using round32_int [of "numeral n"] by simp

lemma round32_1 [simp]: "round32 1 = Fin 1"
  using round32_int [of 1] by simp

lemma fle_Fin [simp]: "fle (Fin x) (Fin y) = (x \<le> y)"
  by (simp add: fle_def ieee_defs)

lemma fge_Fin [simp]: "fge (Fin x) (Fin y) = (y \<le> x)"
  by (simp add: fge_def)

lemma flt_Fin [simp]: "flt (Fin x) (Fin y) = (x < y)"
  by (auto simp add: flt_def ieee_defs)

lemma float_of_nat_numeral:
  "numeral n < (2 ^ 24 :: int) \<Longrightarrow> float_of_nat (numeral n) = Fin (numeral n)"
  by (simp add: float_of_nat_def round32_numeral)

lemma to_int_Fin:
  "0 \<le> x \<Longrightarrow> x < 2 ^ 31 \<Longrightarrow> to_int (Fin x) = Some \<lfloor>x\<rfloor>"
  by (simp add: to_int_def ieee_defs)

lemmas float_eval = fsub_Fin fadd_Fin fmul_Fin fdiv_Fin round32_numeral float_of_nat_numeral
  to_int_Fin


text \<open>
  The linear fraction, the position in the sound curve, and the read of the curve at a
  position.
\<close>

definition fraction :: "FRolloffInfo \<Rightarrow> float \<Rightarrow> float" where
  "fraction r d = fdiv (fsub (MaxDistance r) d) (fsub (MaxDistance r) (MinDistance r))"

definition curve_pos :: "SoundEngine \<Rightarrow> FRolloffInfo \<Rightarrow> float \<Rightarrow> int option" where
  "curve_pos eng r d =
     to_int (fmul (float_of_nat (length (S_SoundCurve eng))) (fsub (Fin 1) (fraction r d)))"

definition curve_read :: "SoundEngine \<Rightarrow> int option \<Rightarrow> fault + float" where
  "curve_read eng pos =
     (case pos of
        None \<Rightarrow> Inl Unrepresentable
      | Some i \<Rightarrow>
          if 0 \<le> i \<and> nat i < length (S_SoundCurve eng)
          then Inr (fdiv (float_of_nat (unat (S_SoundCurve eng ! nat i))) (Fin 127))
          else Inl OutOfBounds)"

text \<open>
  C6 (as amended). For every rolloff descriptor and every distance \<open>d\<close>, in the arithmetic
  and with the comparisons of \<open>float\<close>, \<open>GetRolloff\<close> returns: 1 when \<open>d <= min\<close>; for the
  logarithmic type \<open>min / (min + factor * (d - min))\<close>, with no cutoff at the maximum; for
  the other types 0 when \<open>d >= max\<close>; otherwise, with the fraction
  \<open>(max - d) / (max - min)\<close>: the fraction for Linear; for Custom with a non-empty curve
  the entry at the position \<open>int(size * (1 - fraction))\<close>, divided by 127, a read that is
  outside the table when the position is not below the size; and
  \<open>(powf(10, fraction) - 1) / 9\<close> for Doom, for any other type, and for Custom with an
  empty curve.
\<close>

theorem GetRolloff_cases:
  "(fle d (MinDistance r) \<longrightarrow> GetRolloff eng (Some r) d = Inr (Fin 1))
   \<and> (\<not> fle d (MinDistance r) \<and> RolloffType r = ROLLOFF_Log \<longrightarrow>
        GetRolloff eng (Some r) d
          = Inr (fdiv (MinDistance r)
                   (fadd (MinDistance r) (fmul (RolloffFactor r) (fsub d (MinDistance r))))))
   \<and> (\<not> fle d (MinDistance r) \<and> RolloffType r \<noteq> ROLLOFF_Log \<and> fge d (MaxDistance r) \<longrightarrow>
        GetRolloff eng (Some r) d = Inr (Fin 0))
   \<and> (\<not> fle d (MinDistance r) \<and> \<not> fge d (MaxDistance r) \<and> RolloffType r = ROLLOFF_Linear \<longrightarrow>
        GetRolloff eng (Some r) d = Inr (fraction r d))
   \<and> (\<not> fle d (MinDistance r) \<and> \<not> fge d (MaxDistance r) \<and> RolloffType r = ROLLOFF_Custom
        \<and> S_SoundCurve eng \<noteq> [] \<longrightarrow>
        GetRolloff eng (Some r) d = curve_read eng (curve_pos eng r d))
   \<and> (\<not> fle d (MinDistance r) \<and> \<not> fge d (MaxDistance r) \<and> RolloffType r \<noteq> ROLLOFF_Log
        \<and> RolloffType r \<noteq> ROLLOFF_Linear
        \<and> (RolloffType r = ROLLOFF_Custom \<longrightarrow> S_SoundCurve eng = []) \<longrightarrow>
        GetRolloff eng (Some r) d = Inr (fdiv (fsub (powf10 (fraction r d)) (Fin 1)) (Fin 9)))"
  by (auto simp add: GetRolloff_def fraction_def curve_pos_def curve_read_def Let_def rolloff_defs)

text \<open>Roundings used by the examples.\<close>

lemma half: "round32 (1 / 2) = Fin (1 / 2)"
  using round32_dyadic [of 1 "- 1"] by simp

lemma three_halves: "round32 (3 / 2) = Fin (3 / 2)"
  using round32_dyadic [of 3 "- 1"] by simp

lemma r_64_127: "round32 (64 / 127) = Fin (8454660 / 2 ^ 24)"
  by (subst round32_at [of "- 1"]) (simp_all add: rne_def Let_def)

lemma r_2_7: "round32 (2 / 7) = Fin (9586981 / 2 ^ 25)"
  by (subst round32_at [of "- 2"]) (simp_all add: rne_def Let_def)

lemma float_of_nat_small: "n < 2 ^ 24 \<Longrightarrow> float_of_nat n = Fin (real n)"
  using round32_int [of "int n"] by (simp add: float_of_nat_def)

text \<open>Example data: a Custom descriptor and two sound curves.\<close>

definition custom0 :: FRolloffInfo where
  "custom0 = rolloff0\<lparr>RolloffType := ROLLOFF_Custom\<rparr>"

definition curve0 :: SoundEngine where
  "curve0 = eng0\<lparr>S_SoundCurve := [127, 64, 0]\<rparr>"

lemma fraction0: "fraction custom0 (Fin 700) = Fin (1 / 2)"
  by (simp add: fraction_def custom0_def rolloff0_def float_eval half)

lemma curve_pos0: "curve_pos curve0 custom0 (Fin 700) = Some 1"
  by (simp add: curve_pos_def fraction0 curve0_def float_of_nat_small float_eval half three_halves)

lemma curve_read0: "curve_read curve0 (Some 1) = Inr (Fin (8454660 / 2 ^ 24))"
  by (simp add: curve_read_def curve0_def float_of_nat_small float_eval r_64_127)

theorem GetRolloff_cases_witness:
  "GetRolloff curve0 (Some custom0) (Fin 700) = Inr (Fin (8454660 / 2 ^ 24))
   \<and> GetRolloff eng0 (Some (rolloff0\<lparr>RolloffType := ROLLOFF_Linear\<rparr>)) (Fin 700) = Inr (Fin (1 / 2))
   \<and> GetRolloff eng0 (Some (rolloff0\<lparr>RolloffType := ROLLOFF_Log\<rparr>)) (Fin 700)
       = Inr (Fin (9586981 / 2 ^ 25))
   \<and> GetRolloff eng0 (Some rolloff0) (Fin 1200) = Inr (Fin 0)
   \<and> GetRolloff eng0 (Some rolloff0) (Fin 200) = Inr (Fin 1)"
proof -
  have 1: "GetRolloff curve0 (Some custom0) (Fin 700) = Inr (Fin (8454660 / 2 ^ 24))"
    using GetRolloff_cases [of "Fin 700" custom0 curve0]
    by (simp add: curve_pos0 curve_read0) (simp add: custom0_def rolloff0_def curve0_def)
  have 2: "GetRolloff eng0 (Some (rolloff0\<lparr>RolloffType := ROLLOFF_Linear\<rparr>)) (Fin 700) = Inr (Fin (1 / 2))"
    using GetRolloff_cases [of "Fin 700" "rolloff0\<lparr>RolloffType := ROLLOFF_Linear\<rparr>" eng0]
    by (simp add: fraction_def rolloff0_def float_eval half)
  have 3: "GetRolloff eng0 (Some (rolloff0\<lparr>RolloffType := ROLLOFF_Log\<rparr>)) (Fin 700)
       = Inr (Fin (9586981 / 2 ^ 25))"
    using GetRolloff_cases [of "Fin 700" "rolloff0\<lparr>RolloffType := ROLLOFF_Log\<rparr>" eng0]
    by (simp add: rolloff0_def float_eval r_2_7)
  have 4: "GetRolloff eng0 (Some rolloff0) (Fin 1200) = Inr (Fin 0)"
    using GetRolloff_cases [of "Fin 1200" rolloff0 eng0]
    by (simp add: rolloff0_def rolloff_defs)
  have 5: "GetRolloff eng0 (Some rolloff0) (Fin 200) = Inr (Fin 1)"
    using GetRolloff_cases [of "Fin 200" rolloff0 eng0]
    by (simp add: rolloff0_def)
  show ?thesis using 1 2 3 4 5 by simp
qed


lemma r_100_127: "round32 (100 / 127) = Fin (13210406 / 2 ^ 24)"
  by (subst round32_at [of "- 1"]) (simp_all add: rne_def Let_def)

definition curve1 :: SoundEngine where
  "curve1 = eng0\<lparr>S_SoundCurve := [100, 50, 0]\<rparr>"

text \<open>
  C6 as stated fails twice. At \<open>d\<close> equal to the minimum the claim's cases read the
  curve (here 100 / 127, rounded) where the code returns 1; and for Custom with an empty
  curve the claim's table read is outside the table, where the code returns the Doom
  formula.
\<close>

theorem GetRolloff_spec_counterexample:
  "GetRolloff_spec curve1 custom0 (Fin 200) = Inr (Fin (13210406 / 2 ^ 24))
   \<and> GetRolloff curve1 (Some custom0) (Fin 200) = Inr (Fin 1)
   \<and> GetRolloff_spec eng0 custom0 (Fin 700) = Inl OutOfBounds
   \<and> GetRolloff eng0 (Some custom0) (Fin 700)
     = Inr (fdiv (fsub (powf10 (Fin (1 / 2))) (Fin 1)) (Fin 9))"
proof -
  have 1: "GetRolloff_spec curve1 custom0 (Fin 200) = Inr (Fin (13210406 / 2 ^ 24))"
    by (simp add: GetRolloff_spec_def custom0_def rolloff0_def curve1_def eng0_def rolloff_defs
        float_eval float_of_nat_small signed_zero_def r_100_127 Let_def)
  have 2: "GetRolloff curve1 (Some custom0) (Fin 200) = Inr (Fin 1)"
    by (simp add: GetRolloff_def custom0_def rolloff0_def)
  have 3: "GetRolloff_spec eng0 custom0 (Fin 700) = Inl OutOfBounds"
    by (simp add: GetRolloff_spec_def custom0_def rolloff0_def eng0_def rolloff_defs float_eval
        half float_of_nat_def signed_zero_def Let_def)
  have 4: "GetRolloff eng0 (Some custom0) (Fin 700)
     = Inr (fdiv (fsub (powf10 (Fin (1 / 2))) (Fin 1)) (Fin 9))"
    by (simp add: GetRolloff_def custom0_def rolloff0_def eng0_def rolloff_defs float_eval half)
  show ?thesis using 1 2 3 4 by simp
qed

text \<open>Away from these two points the code returns what the spec's wording gives.\<close>

lemma GetRolloff_spec_agrees:
  assumes "fne d (MinDistance r)"
    and "RolloffType r = ROLLOFF_Custom \<Longrightarrow> S_SoundCurve eng \<noteq> []"
  shows "GetRolloff_spec eng r d = GetRolloff eng (Some r) d"
  using assms by (auto simp add: GetRolloff_spec_def GetRolloff_def Let_def flt_def)

text \<open>
  The position is rounded as the code rounds it: a third of the way into a curve of three
  entries the product \<open>3 * (1 - fraction)\<close> is just below 1 and entry 0 is read.
\<close>

lemma r_2_3: "round32 (2 / 3) = Fin (11184811 / 2 ^ 24)"
  by (subst round32_at [of "- 1"]) (simp_all add: rne_def Let_def)

lemma r_1_127: "round32 (1 / 127) = Fin (8454660 / 2 ^ 30)"
  by (subst round32_at [of "- 7"]) (simp_all add: rne_def Let_def)

lemma GetRolloff_rounded_position:
  "GetRolloff (eng0\<lparr>S_SoundCurve := [1, 2, 3]\<rparr>)
     (Some \<lparr>RolloffType = ROLLOFF_Custom, MinDistance = Fin 1, MaxDistance = Fin 4,
            RolloffFactor = Fin 1\<rparr>) (Fin 2)
   = Inr (Fin (8454660 / 2 ^ 30))"
proof -
  have a: "round32 (5592405 / 16777216) = Fin (5592405 / 16777216)"
    using round32_dyadic [of 5592405 "- 24"] by simp
  have b: "round32 (16777215 / 16777216) = Fin (16777215 / 16777216)"
    using round32_dyadic [of 16777215 "- 24"] by simp
  show ?thesis
    by (simp add: GetRolloff_def eng0_def rolloff_defs float_eval float_of_nat_small r_2_3 a b r_1_127)
qed


text \<open>
  The position can round up to the size of the table: with the minimum far below the
  maximum the fraction is below half the spacing of the floats under 1.
\<close>

lemma GetRolloff_position_overrun:
  "GetRolloff (eng0\<lparr>S_SoundCurve := [1, 2, 3]\<rparr>)
     (Some \<lparr>RolloffType = ROLLOFF_Custom, MinDistance = Fin (- 67108864), MaxDistance = Fin 1,
            RolloffFactor = Fin 1\<rparr>) (Fin 0)
   = Inl OutOfBounds"
proof -
  have a: "round32 67108865 = Fin 67108864"
    by (subst round32_at [of 26]) (simp_all add: rne_def Let_def)
  have b: "round32 (1 / 67108864) = Fin (1 / 67108864)"
    using round32_dyadic [of 1 "- 26"] by simp
  have c: "round32 (67108863 / 67108864) = Fin 1"
    by (subst round32_at [of "- 1"]) (simp_all add: rne_def Let_def)
  show ?thesis
    by (simp add: GetRolloff_def eng0_def rolloff_defs float_eval float_of_nat_small a b c)
qed

text \<open>A zero denominator of the logarithmic type gives an infinity.\<close>

lemma GetRolloff_log_infinite:
  "GetRolloff eng0
     (Some \<lparr>RolloffType = ROLLOFF_Log, MinDistance = Fin 1, MaxDistance = Fin 4,
            RolloffFactor = Fin (- 1)\<rparr>) (Fin 2)
   = Inr PInf"
proof -
  have a: "round32 (- 1) = Fin (- 1)" using round32_int [of "- 1"] by simp
  have b: "fdiv (Fin 1) (Fin 0) = PInf" by (simp add: fdiv_def ieee_defs)
  show ?thesis by (simp add: GetRolloff_def rolloff_defs float_eval a b)
qed

section \<open>Properties of the channel choice of StartSound\<close>

text \<open>
  The source plays on channel \<open>k\<close>; the mask \<open>seen\<close> is sound when each of its bits is
  such a channel; the first channel of a list that the source does not play on.
\<close>

definition slot_used :: "FSoundChan list \<Rightarrow> int \<Rightarrow> ptr \<Rightarrow> nat \<Rightarrow> bool" where
  "slot_used cs type source k =
     list_ex (\<lambda>chan. SourceType chan = type \<and> Source chan = source \<and> EntChannel chan = k) cs"

definition seen_sound :: "FSoundChan list \<Rightarrow> int \<Rightarrow> ptr \<Rightarrow> int \<Rightarrow> bool" where
  "seen_sound cs type source seen = (\<forall>k. bit seen k \<longrightarrow> slot_used cs type source k)"

lemma seen_sound_0: "seen_sound cs type source 0"
  by (simp add: seen_sound_def)

lemma seen_sound_or:
  assumes "seen_sound cs type source seen" "slot_used cs type source e"
  shows "seen_sound cs type source (seen OR push_bit e 1)"
  using assms by (auto simp add: seen_sound_def bit_simps)

lemma IsChannelUsed_loop_sound:
  assumes "seen_sound cs type source seen" "set rest \<subseteq> set cs"
  shows "fst (IsChannelUsed_loop rest type source (int k) seen) = slot_used rest type source k
       \<and> seen_sound cs type source (snd (IsChannelUsed_loop rest type source (int k) seen))"
  using assms
proof (induction rest arbitrary: seen)
  case Nil
  then show ?case by (simp add: slot_used_def)
next
  case (Cons chan rest)
  show ?case
  proof (cases "SourceType chan = type \<and> Source chan = source")
    case True
    have "slot_used cs type source (EntChannel chan)"
      using True Cons.prems(2) by (auto simp add: slot_used_def list_ex_iff)
    then have s: "seen_sound cs type source (seen OR push_bit (EntChannel chan) 1)"
      using Cons.prems(1) by (rule seen_sound_or [rotated])
    show ?thesis
    proof (cases "EntChannel chan = k")
      case e: True
      then show ?thesis using True s by (simp add: slot_used_def Let_def)
    next
      case False
      then show ?thesis using True Cons.IH [OF s] Cons.prems(2)
        by (simp add: slot_used_def Let_def)
    qed
  next
    case False
    then show ?thesis using Cons.IH [OF Cons.prems(1)] Cons.prems(2)
      by (auto simp add: slot_used_def)
  qed
qed

lemma IsChannelUsed_sound:
  assumes "seen_sound (Channels eng) type source seen"
  shows "fst (IsChannelUsed eng type source (int k) seen) = slot_used (Channels eng) type source k
       \<and> seen_sound (Channels eng) type source (snd (IsChannelUsed eng type source (int k) seen))"
proof (cases "bit seen k")
  case True
  then have "seen AND push_bit k 1 \<noteq> 0"
    by (simp add: bit_iff_and_push_bit_not_eq_0)
  moreover have "slot_used (Channels eng) type source k"
    using assms True by (simp add: seen_sound_def)
  ultimately show ?thesis using assms by (simp add: IsChannelUsed_def)
next
  case False
  then have "seen AND push_bit k 1 = 0"
    by (simp add: bit_iff_and_push_bit_not_eq_0)
  then show ?thesis
    using IsChannelUsed_loop_sound [OF assms subset_refl, of k]
    by (simp add: IsChannelUsed_def)
qed

definition first_free :: "FSoundChan list \<Rightarrow> int \<Rightarrow> ptr \<Rightarrow> nat list \<Rightarrow> nat option" where
  "first_free cs type source ks =
     (case filter (\<lambda>k. \<not> slot_used cs type source k) ks of [] \<Rightarrow> None | k # _ \<Rightarrow> Some k)"

fun down :: "nat \<Rightarrow> nat list" where
  "down 0 = []"
| "down (Suc n) = Suc n # down n"

lemma first_free_Cons:
  "first_free cs type source (k # ks) =
     (if slot_used cs type source k then first_free cs type source ks else Some k)"
  by (simp add: first_free_def)

lemma first_free_down_pos: "first_free cs type source (down n) = Some k \<Longrightarrow> 0 < k"
  by (induction n) (auto simp add: first_free_Cons first_free_def split: if_splits)

lemma probe_down_sound:
  assumes "seen_sound (Channels eng) type source seen"
  shows "fst (probe_down eng type source n seen)
           = (case first_free (Channels eng) type source (down n) of
                None \<Rightarrow> 0 | Some k \<Rightarrow> int k)"
  using assms
proof (induction n arbitrary: seen)
  case 0
  then show ?case by (simp add: first_free_def)
next
  case (Suc n)
  note u = IsChannelUsed_sound [OF Suc.prems, of "Suc n"]
  obtain used seen' where iu: "IsChannelUsed eng type source (int (Suc n)) seen = (used, seen')"
    by (cases "IsChannelUsed eng type source (int (Suc n)) seen")
  with u have used: "used = slot_used (Channels eng) type source (Suc n)"
    and s': "seen_sound (Channels eng) type source seen'" by simp_all
  show ?case
  proof (cases used)
    case True
    then show ?thesis using iu used Suc.IH [OF s']
      by (simp add: first_free_Cons)
  next
    case False
    then show ?thesis using iu used
      by (simp add: first_free_Cons)
  qed
qed

lemma down_7: "down 7 = [7, 6, 5, 4, 3, 2, 1]"
  by (simp add: eval_nat_numeral)

lemma select_channel_auto:
  assumes "source \<noteq> NULL"
  shows "map_option fst (select_channel eng type source CHAN_AUTO) =
     (if \<not> slot_used (Channels eng) type source 0 then Some 0
      else map_option int (first_free (Channels eng) type source [7, 6, 5, 4, 3, 2, 1]))"
proof -
  note u = IsChannelUsed_sound [OF seen_sound_0, of eng type source 0]
  obtain used seen where iu: "IsChannelUsed eng type source 0 0 = (used, seen)"
    by (cases "IsChannelUsed eng type source 0 0")
  with u have used: "used = slot_used (Channels eng) type source 0"
    and s: "seen_sound (Channels eng) type source seen" by simp_all
  obtain c seen' where pd: "probe_down eng type source 7 seen = (c, seen')"
    by (cases "probe_down eng type source 7 seen")
  with probe_down_sound [OF s, of 7]
  have c: "c = (case first_free (Channels eng) type source (down 7) of
                None \<Rightarrow> 0 | Some k \<Rightarrow> int k)"
    by simp
  show ?thesis
  proof (cases "first_free (Channels eng) type source (down 7)")
    case None
    then show ?thesis using assms iu used pd c
      by (simp add: select_channel_def down_7 del: down.simps)
  next
    case (Some k)
    then have "0 < k" by (rule first_free_down_pos)
    then show ?thesis using assms iu used pd c Some
      by (simp add: select_channel_def down_7 del: down.simps)
  qed
qed

lemma LoadSound_loop_Channels: "Channels (snd (LoadSound_loop env i eng)) = Channels eng"
proof (induction env i eng rule: LoadSound_loop.induct)
  case (1 env i eng)
  show ?case
    by (subst LoadSound_loop.simps)
      (auto simp add: Let_def 1 split: option.splits prod.splits)
qed

lemma LoadSound_Channels: "Channels (snd (LoadSound env i eng)) = Channels eng"
  by (simp add: LoadSound_def LoadSound_loop_Channels)

lemma limits_fields:
  "rq_channel (StartSound_limits env eng type source channel chanflags posvel org_id volume pitchmask forced res) = channel"
  "rq_type (StartSound_limits env eng type source channel chanflags posvel org_id volume pitchmask forced res) = type"
  by (simp_all add: StartSound_limits_def Let_def)

lemma checks_Next:
  assumes "StartSound_checks fuel env type source pt channel sid vol att forced eng = Inr (Next rq)"
  shows "rq_channel rq = channel AND 7"
    and "rq_type rq = (if type = SOURCE_Unattached \<and> pt = None then SOURCE_None else type)"
  using assms
  by (auto simp add: StartSound_checks_def Let_def limits_fields split: if_splits sum.splits)

lemma place_Next:
  assumes "StartSound_place env source pt rq eng = Inr (Next (pl, eng2))"
  shows "\<exists>seen. select_channel (snd (LoadSound env (nat (rs_sound_id (rq_res rq))) eng))
           (rq_type rq) source (rq_channel rq) = Some (pl_channel pl, seen)"
  using assms
  by (auto simp add: StartSound_place_def Let_def split: if_splits sum.splits prod.splits option.splits)

lemma start_Some:
  assumes "StartSound_start env voice source pt spitch rq pl eng = (Some c, eng')"
  shows "Channels eng' \<noteq> [] \<and> EntChannel (hd (Channels eng')) = nat (pl_channel pl)"
  using assms
  by (auto simp add: StartSound_start_def Let_def SetPitch_def split: if_splits)

lemma StartSound_auto_general:
  assumes src: "source \<noteq> NULL" and auto: "channel AND 7 = CHAN_AUTO"
    and run: "StartSound fuel env voice type source pt channel sid vol att forced spitch eng
               = Inr (ret, eng')"
  shows "(ret \<noteq> None \<longrightarrow>
           Channels eng' \<noteq> [] \<and>
           Some (int (EntChannel (hd (Channels eng')))) =
             (if \<not> slot_used (Channels eng)
                     (if type = SOURCE_Unattached \<and> pt = None then SOURCE_None else type) source 0
              then Some 0
              else map_option int (first_free (Channels eng)
                     (if type = SOURCE_Unattached \<and> pt = None then SOURCE_None else type) source
                     [7, 6, 5, 4, 3, 2, 1])))
       \<and> (list_all (slot_used (Channels eng)
                     (if type = SOURCE_Unattached \<and> pt = None then SOURCE_None else type) source)
             [0, 7, 6, 5, 4, 3, 2, 1] \<longrightarrow> ret = None)"
proof -
  define ty where "ty = (if type = SOURCE_Unattached \<and> pt = None then SOURCE_None else type)"
  define sel where "sel = (if \<not> slot_used (Channels eng) ty source 0 then Some 0
              else map_option int (first_free (Channels eng) ty source [7, 6, 5, 4, 3, 2, 1]))"
  have full: "sel = None" if "list_all (slot_used (Channels eng) ty source) [0, 7, 6, 5, 4, 3, 2, 1]"
    using that by (simp add: sel_def first_free_def)
  have "(ret \<noteq> None \<longrightarrow>
           Channels eng' \<noteq> [] \<and> Some (int (EntChannel (hd (Channels eng')))) = sel)
       \<and> (list_all (slot_used (Channels eng) ty source) [0, 7, 6, 5, 4, 3, 2, 1] \<longrightarrow> ret = None)"
  proof (cases ret)
    case None
    then show ?thesis by simp
  next
    case (Some c)
    from run Some obtain rq pl eng2 where
      ck: "StartSound_checks fuel env type source pt channel sid vol att forced eng = Inr (Next rq)"
      and pl: "StartSound_place env source pt rq eng = Inr (Next (pl, eng2))"
      and st: "StartSound_start env voice source pt spitch rq pl eng2 = (Some c, eng')"
      by (auto simp add: StartSound_def split: sum.splits step.splits prod.splits)
    define E1 where "E1 = snd (LoadSound env (nat (rs_sound_id (rq_res rq))) eng)"
    have ch: "Channels E1 = Channels eng"
      by (simp add: E1_def LoadSound_Channels)
    from place_Next [OF pl] obtain seen where
      "select_channel E1 (rq_type rq) source (rq_channel rq) = Some (pl_channel pl, seen)"
      unfolding E1_def by blast
    moreover have "rq_type rq = ty" "rq_channel rq = CHAN_AUTO"
      using checks_Next [OF ck] auto by (simp_all add: ty_def)
    ultimately have "map_option fst (select_channel E1 ty source CHAN_AUTO) = Some (pl_channel pl)"
      by simp
    then have sel: "sel = Some (pl_channel pl)"
      unfolding select_channel_auto [OF src] sel_def ch .
    then have "0 \<le> pl_channel pl"
      by (auto simp add: sel_def split: if_splits)
    then have "Some (int (EntChannel (hd (Channels eng')))) = sel"
      using start_Some [OF st] sel by simp
    moreover have "Channels eng' \<noteq> []"
      using start_Some [OF st] by simp
    moreover have "\<not> list_all (slot_used (Channels eng) ty source) [0, 7, 6, 5, 4, 3, 2, 1]"
      using full sel by auto
    ultimately show ?thesis using Some by simp
  qed
  then show ?thesis unfolding sel_def ty_def .
qed

lemmas start_eval = start_auto_def StartSound_def StartSound_checks_def StartSound_limits_def
  eng_auto_def auto_state_def auto_chan_def eng0_def env0_def sfx0_def
  source_defs chan_defs NO_LINK_def CheckSingular_def Let_def NULL_def StartSound_place_def
  LoadSound_def LoadSound_loop.simps select_channel_def IsChannelUsed_def stop_collision_def
  has_flag_def StartSound_start_def GSnd_StartSound_def GetChannel_def LoadSound3D_def
  DEFAULT_PITCH_def zero_chan_def

lemma probe_down_pos:
  "0 < n \<Longrightarrow> probe_down eng type source n seen =
     (case IsChannelUsed eng type source (int n) seen of
        (used, seen') \<Rightarrow>
          if \<not> used then (int n, seen') else probe_down eng type source (n - 1) seen')"
  by (cases n) (auto split: prod.splits)

text \<open>Nine starts in a row.\<close>

lemma auto_start_1: "start_auto eng_auto = Inr (Some 0, auto_state [0])"
  by (simp add: start_eval probe_down_pos)

lemma auto_start_2: "start_auto (auto_state [0]) = Inr (Some 0, auto_state [7, 0])"
  by (simp add: start_eval probe_down_pos)

lemma auto_start_3: "start_auto (auto_state [7, 0]) = Inr (Some 0, auto_state [6, 7, 0])"
  by (simp add: start_eval probe_down_pos)

lemma auto_start_4: "start_auto (auto_state [6, 7, 0]) = Inr (Some 0, auto_state [5, 6, 7, 0])"
  by (simp add: start_eval probe_down_pos)

lemma auto_start_5: "start_auto (auto_state [5, 6, 7, 0]) = Inr (Some 0, auto_state [4, 5, 6, 7, 0])"
  by (simp add: start_eval probe_down_pos)

lemma auto_start_6:
  "start_auto (auto_state [4, 5, 6, 7, 0]) = Inr (Some 0, auto_state [3, 4, 5, 6, 7, 0])"
  by (simp add: start_eval probe_down_pos)

lemma auto_start_7:
  "start_auto (auto_state [3, 4, 5, 6, 7, 0]) = Inr (Some 0, auto_state [2, 3, 4, 5, 6, 7, 0])"
  by (simp add: start_eval probe_down_pos)

lemma auto_start_8:
  "start_auto (auto_state [2, 3, 4, 5, 6, 7, 0]) = Inr (Some 0, auto_state [1, 2, 3, 4, 5, 6, 7, 0])"
  by (simp add: start_eval probe_down_pos)

lemma auto_start_9:
  "start_auto (auto_state [1, 2, 3, 4, 5, 6, 7, 0]) = Inr (None, auto_state [1, 2, 3, 4, 5, 6, 7, 0])"
  by (simp add: start_eval probe_down_pos)

text \<open>
  C2 (as amended). A start with a source that is not null and the channel \<open>CHAN_AUTO\<close>
  that returns a channel has put it on channel 0 when the source did not play on channel 0,
  else on the first of the channels 7, 6, ..., 1 the source did not play on; when the source
  plays on all eight, the start returns null. So repeated starts on one actor take the
  channels 0, 7, 6, 5, 4, 3, 2 and then 1, and it is the ninth start that returns null.
\<close>

theorem StartSound_auto_slot:
  "(source \<noteq> NULL \<and> channel AND 7 = CHAN_AUTO
      \<and> StartSound fuel env voice type source pt channel sid vol att forced spitch eng
           = Inr (ret, eng') \<longrightarrow>
      (ret \<noteq> None \<longrightarrow>
         Channels eng' \<noteq> [] \<and>
         Some (int (EntChannel (hd (Channels eng')))) =
           (if \<not> slot_used (Channels eng)
                   (if type = SOURCE_Unattached \<and> pt = None then SOURCE_None else type) source 0
            then Some 0
            else map_option int (first_free (Channels eng)
                   (if type = SOURCE_Unattached \<and> pt = None then SOURCE_None else type) source
                   [7, 6, 5, 4, 3, 2, 1])))
      \<and> (list_all (slot_used (Channels eng)
                   (if type = SOURCE_Unattached \<and> pt = None then SOURCE_None else type) source)
            [0, 7, 6, 5, 4, 3, 2, 1] \<longrightarrow> ret = None))
   \<and> start_auto eng_auto = Inr (Some 0, auto_state [0])
   \<and> start_auto (auto_state [0]) = Inr (Some 0, auto_state [7, 0])
   \<and> start_auto (auto_state [7, 0]) = Inr (Some 0, auto_state [6, 7, 0])
   \<and> start_auto (auto_state [6, 7, 0]) = Inr (Some 0, auto_state [5, 6, 7, 0])
   \<and> start_auto (auto_state [5, 6, 7, 0]) = Inr (Some 0, auto_state [4, 5, 6, 7, 0])
   \<and> start_auto (auto_state [4, 5, 6, 7, 0]) = Inr (Some 0, auto_state [3, 4, 5, 6, 7, 0])
   \<and> start_auto (auto_state [3, 4, 5, 6, 7, 0]) = Inr (Some 0, auto_state [2, 3, 4, 5, 6, 7, 0])
   \<and> start_auto (auto_state [2, 3, 4, 5, 6, 7, 0])
       = Inr (Some 0, auto_state [1, 2, 3, 4, 5, 6, 7, 0])
   \<and> start_auto (auto_state [1, 2, 3, 4, 5, 6, 7, 0])
       = Inr (None, auto_state [1, 2, 3, 4, 5, 6, 7, 0])"
  using StartSound_auto_general [of source channel fuel env voice type pt sid vol att forced spitch eng ret eng']
  by (simp only: auto_start_1 auto_start_2 auto_start_3 auto_start_4 auto_start_5 auto_start_6
      auto_start_7 auto_start_8 auto_start_9) blast

theorem StartSound_auto_slot_witness:
  "(9::nat) \<noteq> NULL \<and> (0::int) AND 7 = CHAN_AUTO
   \<and> StartSound 1 env0 (Some 1) SOURCE_Actor 9 None 0 1 1 1 None 0 (auto_state [0])
       = Inr (Some 0, auto_state [7, 0])
   \<and> slot_used (Channels (auto_state [0])) SOURCE_Actor 9 0
   \<and> first_free (Channels (auto_state [0])) SOURCE_Actor 9 [7, 6, 5, 4, 3, 2, 1] = Some 7
   \<and> EntChannel (hd (Channels (auto_state [7, 0]))) = 7"
  using StartSound_auto_slot [of 9 0 1 env0 "Some 1" SOURCE_Actor None 1 1 1 None 0 "auto_state [0]"
      "Some 0" "auto_state [7, 0]"] auto_start_2
  by (simp add: start_auto_def CHAN_AUTO_def NULL_def slot_used_def first_free_def auto_state_def
      auto_chan_def source_defs)

text \<open>
  C2 as stated fails in its last part: after seven starts have taken the channels
  0, 7, 6, 5, 4, 3 and 2, the eighth start does not return null; it returns a channel, on
  channel 1.
\<close>

theorem StartSound_auto_slot_counterexample:
  "start_auto (auto_state [2, 3, 4, 5, 6, 7, 0]) = Inr (Some 0, auto_state [1, 2, 3, 4, 5, 6, 7, 0])
   \<and> map EntChannel (Channels (auto_state [1, 2, 3, 4, 5, 6, 7, 0])) = [1, 2, 3, 4, 5, 6, 7, 0]"
proof
  show "start_auto (auto_state [2, 3, 4, 5, 6, 7, 0])
      = Inr (Some 0, auto_state [1, 2, 3, 4, 5, 6, 7, 0])"
    by (rule auto_start_8)
  show "map EntChannel (Channels (auto_state [1, 2, 3, 4, 5, 6, 7, 0])) = [1, 2, 3, 4, 5, 6, 7, 0]"
    by (simp add: auto_state_def auto_chan_def)
qed

section \<open>Evaluation of StartSound on the example data\<close>

lemma resolve_links_pos:
  assumes "0 < fuel"
  shows "resolve_links fuel env eng st =
     (let sfx = S_sfx eng ! nat (rs_sound_id st) in
      if link sfx = NO_LINK then Inr st
      else if bRandomHeader sfx then
        (case PickReplacement fuel env eng (rs_rp st) (rs_sound_id st) of
           Inl e \<Rightarrow> Inl e
         | Inr (sid, rp') \<Rightarrow>
             resolve_links (fuel - 1) env eng
               (inherit eng (st\<lparr>rs_attenuation := rs_attenuation st * Attenuation sfx, rs_rp := rp'\<rparr>) sid))
      else if length (S_sfx eng) \<le> link sfx then Inl OutOfBounds
      else resolve_links (fuel - 1) env eng (inherit eng st (int (link sfx))))"
proof -
  from assms obtain n where n: "fuel = Suc n"
    by (cases fuel) auto
  show ?thesis unfolding n diff_Suc_1 by simp
qed

lemmas start_eval2 = StartSound_def StartSound_checks_def StartSound_limits_def
  eng0_def env0_def sfx0_def playing_def loaded_def siren_state_def limit_state_def full_state_def rq_siren_loop_def
  source_defs chan_defs NO_LINK_def CheckSingular_def CheckSoundLimit_def Let_def NULL_def
  StartSound_place_def LoadSound_def LoadSound_loop.simps select_channel_def IsChannelUsed_def
  stop_collision_def has_flag_def StartSound_start_def GSnd_StartSound_def GetChannel_def
  LoadSound3D_def DEFAULT_PITCH_def zero_chan_def LengthSquared_def vec_minus_def
  CalcPosVel_chan_def GSnd_MarkStartTime_def probe_down_pos resolve_links_pos inherit_def


section \<open>Properties of the singular check\<close>

lemma CheckSingular_iff:
  "CheckSingular eng sid = list_ex (\<lambda>chan. OrgID chan = sid) (Channels eng)"
proof -
  have "CheckSingular_loop cs sid = list_ex (\<lambda>chan. OrgID chan = sid) cs" for cs
    by (induction cs) auto
  then show ?thesis by (simp add: CheckSingular_def)
qed

text \<open>
  What the code does: the request of a singular sound is marked Evicted when a channel of
  the active list was started with (has as \<open>OrgID\<close>) the resolved sound.
\<close>

lemma singular_marks_evicted:
  assumes "bSingular (S_sfx eng ! nat (rs_sound_id res))"
    and "list_ex (\<lambda>chan. OrgID chan = rs_sound_id res) (Channels eng)"
  shows "has_flag (rq_chanflags (StartSound_limits env eng type source channel chanflags posvel
           org_id volume pitchmask forced res)) CHAN_EVICTED"
  using assms
  by (simp add: StartSound_limits_def Let_def CheckSingular_iff has_flag_or_left has_flag_self)

lemma siren_1:
  "StartSound 2 env0 (Some 1) SOURCE_Actor 9 None CHAN_AUTO 1 1 1 None 0 (siren_state [])
     = Inr (Some 0, siren_state [playing 9 0 1 2 2])"
  by (simp add: start_eval2)

lemma siren_2:
  "StartSound 2 env0 (Some 1) SOURCE_Actor 10 None CHAN_AUTO 1 1 1 None 0
       (siren_state [playing 9 0 1 2 2])
     = Inr (Some 0, siren_state [playing 10 0 1 2 2, playing 9 0 1 2 2])"
  by (simp add: start_eval2)

lemma siren_3:
  "StartSound 2 env0 (Some 1) SOURCE_Actor 10 None CHAN_AUTO 2 1 1 None 0
       (siren_state [playing 9 0 1 2 2])
     = Inr (Some 0, siren_state [playing 10 0 2 2 2, playing 9 0 1 2 2])"
  by (simp add: start_eval2)

lemma siren_4:
  "StartSound 2 env0 (Some 1) SOURCE_Actor 10 None CHAN_AUTO 2 1 1 None 0
       (siren_state [playing 9 0 2 2 2])
     = Inr (None, siren_state [playing 9 0 2 2 2])"
  by (simp add: start_eval2)


text \<open>
  C1, at its failing input. Sound 1 is an alias of the singular sound 2. Actor 9 starts
  sound 1: the channel carries the resolved sound 2 and the original sound 1. While it
  plays, actor 10 starts sound 1, or sound 2 itself: the active list has a channel that
  carries the resolved sound 2, yet \<open>CheckSingular\<close> compares the resolved sound with
  \<open>OrgID\<close>, the request is not marked Evicted, and a second channel plays the singular
  sound. Only a channel started as sound 2 itself blocks the start.
\<close>

theorem singular_check_misses_alias:
  "bSingular (S_sfx (siren_state []) ! 2)
   \<and> StartSound 2 env0 (Some 1) SOURCE_Actor 9 None CHAN_AUTO 1 1 1 None 0 (siren_state [])
       = Inr (Some 0, siren_state [playing 9 0 1 2 2])
   \<and> StartSound 2 env0 (Some 1) SOURCE_Actor 10 None CHAN_AUTO 1 1 1 None 0
         (siren_state [playing 9 0 1 2 2])
       = Inr (Some 0, siren_state [playing 10 0 1 2 2, playing 9 0 1 2 2])
   \<and> StartSound 2 env0 (Some 1) SOURCE_Actor 10 None CHAN_AUTO 2 1 1 None 0
         (siren_state [playing 9 0 1 2 2])
       = Inr (Some 0, siren_state [playing 10 0 2 2 2, playing 9 0 1 2 2])
   \<and> map SoundID (Channels (siren_state [playing 10 0 1 2 2, playing 9 0 1 2 2])) = [2, 2]
   \<and> map (\<lambda>chan. has_flag (ChanFlags chan) CHAN_EVICTED)
         (Channels (siren_state [playing 10 0 1 2 2, playing 9 0 1 2 2])) = [False, False]
   \<and> StartSound 2 env0 (Some 1) SOURCE_Actor 10 None CHAN_AUTO 2 1 1 None 0
         (siren_state [playing 9 0 2 2 2])
       = Inr (None, siren_state [playing 9 0 2 2 2])"
  by (simp only: siren_1 siren_2 siren_3 siren_4)
    (simp add: siren_state_def playing_def loaded_def has_flag_def chan_defs)

section \<open>Properties of the limit of nearby copies\<close>

text \<open>
  A copy of the sound: a channel that is not evicted and carries it. The copies within the
  range of a position. The exemption the source documents: the actor already plays the
  sound on the channel.
\<close>

definition is_copy :: "int \<Rightarrow> FSoundChan \<Rightarrow> bool" where
  "is_copy sfx chan = (\<not> has_flag (ChanFlags chan) CHAN_EVICTED \<and> SoundID chan = sfx)"

definition nearby :: "Env \<Rightarrow> FSoundChan list \<Rightarrow> int \<Rightarrow> FVector3 \<Rightarrow> real \<Rightarrow> int" where
  "nearby env cs sfx pos limit_range =
     int (length (filter (\<lambda>chan. is_copy sfx chan
        \<and> LengthSquared (vec_minus (fst (CalcPosVel_chan env chan)) pos) \<le> limit_range) cs))"

definition restarting :: "FSoundChan list \<Rightarrow> int \<Rightarrow> int \<Rightarrow> ptr \<Rightarrow> int \<Rightarrow> bool" where
  "restarting cs sfx sourcetype actor channel =
     (actor \<noteq> NULL \<and> list_ex (\<lambda>chan. is_copy sfx chan \<and> int (EntChannel chan) = channel
        \<and> SourceType chan = sourcetype \<and> Source chan = actor) cs)"

lemma CheckSoundLimit_loop_count:
  assumes "\<not> restarting cs sfx sourcetype actor channel"
  shows "CheckSoundLimit_loop env cs count sfx pos near_limit limit_range sourcetype actor channel
     = (near_limit \<le> count + nearby env cs sfx pos limit_range)"
  using assms
proof (induction cs arbitrary: count)
  case Nil
  then show ?case by (simp add: nearby_def)
next
  case (Cons chan cs)
  have r: "\<not> restarting cs sfx sourcetype actor channel"
    using Cons.prems by (auto simp add: restarting_def)
  have n0: "0 \<le> nearby env cs sfx pos limit_range" "0 \<le> nearby env (chan # cs) sfx pos limit_range"
    by (simp_all add: nearby_def)
  show ?case
  proof (cases "count < near_limit")
    case False
    then show ?thesis using n0 by simp
  next
    case True
    show ?thesis
    proof (cases "is_copy sfx chan")
      case False
      then have nc: "\<not> (\<not> has_flag (ChanFlags chan) CHAN_EVICTED \<and> SoundID chan = sfx)"
        by (simp add: is_copy_def)
      have "CheckSoundLimit_loop env (chan # cs) count sfx pos near_limit limit_range sourcetype
            actor channel
          = CheckSoundLimit_loop env cs count sfx pos near_limit limit_range sourcetype
            actor channel"
        using True nc by auto
      also have "\<dots> = (near_limit \<le> count + nearby env cs sfx pos limit_range)"
        by (rule Cons.IH [OF r])
      also have "nearby env cs sfx pos limit_range = nearby env (chan # cs) sfx pos limit_range"
        using False by (simp add: nearby_def)
      finally show ?thesis .
    next
      case c: True
      then have ne: "\<not> (actor \<noteq> NULL \<and> int (EntChannel chan) = channel \<and> SourceType chan = sourcetype
            \<and> Source chan = actor)"
        using Cons.prems by (auto simp add: restarting_def)
      have c': "\<not> has_flag (ChanFlags chan) CHAN_EVICTED \<and> SoundID chan = sfx"
        using c by (simp add: is_copy_def)
      show ?thesis
      proof (cases "LengthSquared (vec_minus (fst (CalcPosVel_chan env chan)) pos) \<le> limit_range")
        case inr: True
        have "CheckSoundLimit_loop env (chan # cs) count sfx pos near_limit limit_range sourcetype
            actor channel
          = CheckSoundLimit_loop env cs (count + 1) sfx pos near_limit limit_range sourcetype
            actor channel"
          using True c' ne inr by (auto simp add: Let_def)
        also have "\<dots> = (near_limit \<le> count + 1 + nearby env cs sfx pos limit_range)"
          by (rule Cons.IH [OF r])
        also have "count + 1 + nearby env cs sfx pos limit_range
            = count + nearby env (chan # cs) sfx pos limit_range"
          using c inr by (simp add: nearby_def)
        finally show ?thesis .
      next
        case far: False
        have "CheckSoundLimit_loop env (chan # cs) count sfx pos near_limit limit_range sourcetype
            actor channel
          = CheckSoundLimit_loop env cs count sfx pos near_limit limit_range sourcetype
            actor channel"
          using True c' ne far by (auto simp add: Let_def)
        also have "\<dots> = (near_limit \<le> count + nearby env cs sfx pos limit_range)"
          by (rule Cons.IH [OF r])
        also have "nearby env cs sfx pos limit_range = nearby env (chan # cs) sfx pos limit_range"
          using far by (simp add: nearby_def)
        finally show ?thesis .
      qed
    qed
  qed
qed

lemma CheckSoundLimit_count:
  "\<not> restarting (Channels eng) sfx sourcetype actor channel \<Longrightarrow>
   CheckSoundLimit env eng sfx pos near_limit limit_range sourcetype actor channel
     = (near_limit \<le> nearby env (Channels eng) sfx pos limit_range)"
  by (simp add: CheckSoundLimit_def CheckSoundLimit_loop_count)

lemma limit_1:
  "CheckSoundLimit env0 (limit_state [playing 10 0 1 1 1, playing 9 5 1 1 1]) 1 (9, 0, 0) 1 65536
     SOURCE_Actor 9 5 = True"
  by (simp add: start_eval2)

lemma limit_2:
  "CheckSoundLimit env0 (limit_state [playing 9 5 1 1 1, playing 10 0 1 1 1]) 1 (9, 0, 0) 1 65536
     SOURCE_Actor 9 5 = False"
  by (simp add: start_eval2)

lemma limit_3:
  "StartSound 1 env0 (Some 1) SOURCE_Actor 9 None 5 1 1 1 None 0
     (limit_state [playing 10 0 1 1 1, playing 9 5 1 1 1])
   = Inr (None, limit_state [playing 10 0 1 1 1, playing 9 5 1 1 1])"
  by (simp add: start_eval2)

lemma limit_4:
  "restarting [playing 10 0 1 1 1, playing 9 5 1 1 1] 1 SOURCE_Actor 9 5"
  by (simp add: restarting_def is_copy_def playing_def has_flag_def chan_defs NULL_def)

text \<open>
  C4, at its failing input. The sound allows one copy nearby. Actor 10 plays it on channel
  0, and behind it in the active list actor 9 plays it on channel 5. Actor 9 starts it
  again on channel 5: a matching channel has the same source type, actor and channel, so
  the start should be exempt; but the loop of \<open>CheckSoundLimit\<close> ends once it has counted
  the copy of actor 10, before it reaches the channel of actor 9, and the start is blocked
  and returns null. With the two channels in the other order the same start is exempt.
  Where no channel has the tuple, the count decides (lemma \<open>CheckSoundLimit_count\<close>).
\<close>

theorem sound_limit_blocks_restart:
  "restarting [playing 10 0 1 1 1, playing 9 5 1 1 1] 1 SOURCE_Actor 9 5
   \<and> CheckSoundLimit env0 (limit_state [playing 10 0 1 1 1, playing 9 5 1 1 1]) 1 (9, 0, 0) 1 65536
         SOURCE_Actor 9 5
   \<and> \<not> CheckSoundLimit env0 (limit_state [playing 9 5 1 1 1, playing 10 0 1 1 1]) 1 (9, 0, 0) 1
         65536 SOURCE_Actor 9 5
   \<and> StartSound 1 env0 (Some 1) SOURCE_Actor 9 None 5 1 1 1 None 0
         (limit_state [playing 10 0 1 1 1, playing 9 5 1 1 1])
       = Inr (None, limit_state [playing 10 0 1 1 1, playing 9 5 1 1 1])"
  using limit_1 limit_2 limit_3 limit_4 by simp

section \<open>Properties of a blocked or refused start\<close>

lemma find_collision_bound:
  "find_collision cs i type source pt channel = Some j \<Longrightarrow> i \<le> j \<and> j < i + length cs"
proof (induction cs arbitrary: i)
  case Nil
  then show ?case by simp
next
  case (Cons chan cs)
  show ?case
  proof (cases "find_collision (chan # cs) i type source pt channel
      = find_collision cs (Suc i) type source pt channel")
    case True
    with Cons.prems Cons.IH [of "Suc i"] show ?thesis by simp
  next
    case False
    then have "find_collision (chan # cs) i type source pt channel = Some i"
      by (simp split: if_splits)
    with Cons.prems show ?thesis by simp
  qed
qed

lemma stop_collision_total:
  "\<exists>eng'. stop_collision env type source pt channel seen eng = Inr eng'"
proof (cases "find_collision (Channels eng) 0 type source pt channel")
  case None
  then show ?thesis by (simp add: stop_collision_def)
next
  case (Some i)
  then have "i < length (Channels eng)"
    using find_collision_bound by fastforce
  then show ?thesis using Some StopChannel_result [of i eng env]
    by (simp add: stop_collision_def)
qed

text \<open>The request is blocked (marked Evicted by a check); it asks for a loop.\<close>

definition blocked :: "request \<Rightarrow> bool" where
  "blocked rq = has_flag (rq_chanflags rq) CHAN_EVICTED"

definition looping :: "request \<Rightarrow> bool" where
  "looping rq = has_flag (rq_chanflags rq) CHAN_LOOP"

lemma GetChannel_head:
  "Channels (GetChannel syschan eng) \<noteq> [] \<and> SysChannel (hd (Channels (GetChannel syschan eng))) = syschan"
  by (simp add: GetChannel_def split: list.splits)

lemma start_parked:
  assumes "has_flag (rq_chanflags rq) CHAN_LOOP"
    and "has_flag (rq_chanflags rq) CHAN_EVICTED \<or> voice = None"
  shows "fst (StartSound_start env voice source pt spitch rq pl eng) = Some 0
     \<and> Channels (snd (StartSound_start env voice source pt spitch rq pl eng)) \<noteq> []
     \<and> has_flag (ChanFlags (hd (Channels (snd (StartSound_start env voice source pt spitch rq pl eng)))))
           CHAN_EVICTED
     \<and> SysChannel (hd (Channels (snd (StartSound_start env voice source pt spitch rq pl eng)))) = None
     \<and> StartTime (hd (Channels (snd (StartSound_start env voice source pt spitch rq pl eng)))) = Clock env
     \<and> SoundID (hd (Channels (snd (StartSound_start env voice source pt spitch rq pl eng))))
           = rs_sound_id (rq_res rq)"
proof -
  define started where "started =
    (if has_flag (rq_chanflags rq) CHAN_EVICTED then (None, eng)
     else GSnd_StartSound voice
       (if rs_attenuation (rq_res rq) > 0 then LoadSound3D env (pl_sfx pl) eng else eng))"
  have f: "fst started = None"
    using assms(2) by (auto simp add: started_def GSnd_StartSound_def)
  note g = GetChannel_head [of None "snd started"]
  show ?thesis
    unfolding StartSound_start_def Let_def started_def [symmetric]
    using f assms(1) g
    by (simp add: GSnd_MarkStartTime_def SetPitch_def has_flag_or_left has_flag_self)
qed

lemma start_refused:
  assumes "\<not> has_flag (rq_chanflags rq) CHAN_LOOP"
    and "has_flag (rq_chanflags rq) CHAN_EVICTED \<or> voice = None"
  shows "fst (StartSound_start env voice source pt spitch rq pl eng) = None"
  using assms by (auto simp add: StartSound_start_def Let_def GSnd_StartSound_def)

lemma place_total:
  "(\<exists>e. StartSound_place env source pt rq eng = Inr (Null e))
   \<or> (\<exists>pl e. StartSound_place env source pt rq eng = Inr (Next (pl, e)))"
proof -
  obtain si E1 where l: "LoadSound env (nat (rs_sound_id (rq_res rq))) eng = (si, E1)"
    by (cases "LoadSound env (nat (rs_sound_id (rq_res rq))) eng")
  show ?thesis
  proof (cases "select_channel E1 (rq_type rq) source (rq_channel rq)")
    case None
    then show ?thesis using l by (simp add: StartSound_place_def)
  next
    case (Some cs)
    obtain channel seen where cs: "cs = (channel, seen)" by (cases cs)
    obtain eng2 where "stop_collision env (rq_type rq) source pt channel seen E1 = Inr eng2"
      using stop_collision_total by blast
    then show ?thesis using l Some cs
      by (simp add: StartSound_place_def Let_def)
  qed
qed

lemma place_looping:
  assumes "looping rq"
    and "LoadSound env (nat (rs_sound_id (rq_res rq))) eng = (si, E1)"
  shows "if lumpnum (S_sfx E1 ! si) = sfx_empty env
            \<or> select_channel E1 (rq_type rq) source (rq_channel rq) = None
         then StartSound_place env source pt rq eng = Inr (Null E1)
         else \<exists>pl e. StartSound_place env source pt rq eng = Inr (Next (pl, e))"
proof (cases "select_channel E1 (rq_type rq) source (rq_channel rq)")
  case None
  then show ?thesis using assms
    by (simp add: StartSound_place_def early_return_iff looping_def)
next
  case (Some cs)
  obtain channel seen where cs: "cs = (channel, seen)" by (cases cs)
  obtain eng2 where "stop_collision env (rq_type rq) source pt channel seen E1 = Inr eng2"
    using stop_collision_total by blast
  then show ?thesis using assms Some cs
    by (simp add: StartSound_place_def early_return_iff looping_def Let_def)
qed

lemma place_blocked:
  assumes "blocked rq" "\<not> looping rq"
  shows "StartSound_place env source pt rq eng = Inr (Null eng)"
  using assms by (simp add: StartSound_place_def early_return_iff looping_def blocked_def)

text \<open>
  The engine a parked start takes its channel from: the one left by the collision stop,
  with the 3D data loaded when the start went to the backend (a start not blocked, with a
  positive attenuation). And what \<open>GetChannel\<close> does to an engine: one more channel at the
  head of the active list, in front of the channels that were there; the head of the free
  list gone, if there was one; nothing else changed.
\<close>

definition before_start :: "Env \<Rightarrow> request \<Rightarrow> nat \<Rightarrow> SoundEngine \<Rightarrow> SoundEngine" where
  "before_start env rq si eng =
     (if \<not> has_flag (rq_chanflags rq) CHAN_EVICTED \<and> rs_attenuation (rq_res rq) > 0
      then LoadSound3D env si eng else eng)"

definition allocated :: "SoundEngine \<Rightarrow> SoundEngine \<Rightarrow> bool" where
  "allocated eng eng' =
     (Channels eng' \<noteq> [] \<and> tl (Channels eng') = Channels eng
      \<and> FreeChannels eng' = tl (FreeChannels eng)
      \<and> eng'\<lparr>Channels := [], FreeChannels := []\<rparr> = eng\<lparr>Channels := [], FreeChannels := []\<rparr>)"

lemma GetChannel_allocated:
  "allocated eng ((GetChannel syschan eng)\<lparr>Channels := c # tl (Channels (GetChannel syschan eng))\<rparr>)"
  by (simp add: allocated_def GetChannel_def split: list.splits)

lemma start_parked_state:
  assumes "has_flag (rq_chanflags rq) CHAN_LOOP"
    and "has_flag (rq_chanflags rq) CHAN_EVICTED \<or> voice = None"
  shows "allocated (before_start env rq (pl_sfx pl) eng)
           (snd (StartSound_start env voice source pt spitch rq pl eng))
     \<and> OrgID (hd (Channels (snd (StartSound_start env voice source pt spitch rq pl eng)))) = rq_org_id rq
     \<and> EntChannel (hd (Channels (snd (StartSound_start env voice source pt spitch rq pl eng))))
         = nat (pl_channel pl)
     \<and> SourceType (hd (Channels (snd (StartSound_start env voice source pt spitch rq pl eng))))
         = rq_type rq
     \<and> has_flag (ChanFlags (hd (Channels (snd (StartSound_start env voice source pt spitch rq pl eng)))))
         CHAN_LOOP"
proof -
  define started where "started =
    (if has_flag (rq_chanflags rq) CHAN_EVICTED then (None, eng)
     else GSnd_StartSound voice
       (if rs_attenuation (rq_res rq) > 0 then LoadSound3D env (pl_sfx pl) eng else eng))"
  have f: "fst started = None"
    using assms(2) by (auto simp add: started_def GSnd_StartSound_def)
  have s: "snd started = before_start env rq (pl_sfx pl) eng"
    using assms(2) by (auto simp add: started_def GSnd_StartSound_def before_start_def)
  note g = GetChannel_allocated [of "snd started" _ None]
  have lp: "has_flag (x OR y) CHAN_LOOP" if "has_flag y CHAN_LOOP" for x y
    using that by (simp add: has_flag_or_left)
  have lp2: "has_flag (x OR y) CHAN_LOOP" if "has_flag x CHAN_LOOP" for x y
    using that by (simp add: has_flag_or_left)
  show ?thesis
    unfolding StartSound_start_def Let_def started_def [symmetric]
    using f assms(1) g s
    by (simp add: GSnd_MarkStartTime_def SetPitch_def has_flag_or_left)
qed


lemma place_looping_state:
  assumes "looping rq"
    and "LoadSound env (nat (rs_sound_id (rq_res rq))) eng = (si, E1)"
    and "lumpnum (S_sfx E1 ! si) \<noteq> sfx_empty env"
    and "select_channel E1 (rq_type rq) source (rq_channel rq) = Some (channel, seen)"
  shows "\<exists>pl E2. stop_collision env (rq_type rq) source pt channel seen E1 = Inr E2
     \<and> StartSound_place env source pt rq eng = Inr (Next (pl, E2))
     \<and> pl_sfx pl = si \<and> pl_channel pl = channel"
proof -
  obtain E2 where "stop_collision env (rq_type rq) source pt channel seen E1 = Inr E2"
    using stop_collision_total by blast
  then show ?thesis using assms
    by (simp add: StartSound_place_def early_return_iff looping_def Let_def)
qed

text \<open>
  C5 (as amended). A start that passed the guards up to the limit checks, and that is
  blocked or that the backend refuses, never faults. Without the Loop flag it returns null.
  With the Loop flag it returns null, the engine as the load of the sound left it, when
  the sound loaded is the empty sound or when no channel of the source is free for
  \<open>CHAN_AUTO\<close>; otherwise it returns a channel allocated with \<open>GetChannel\<close>: the new head of
  the active list, in front of the channels the collision stop left, one channel fewer on
  the free list and nothing else of the engine changed; the channel has the Evicted and
  the Loop flag, no backend voice, the start time the backend marked, the sound, the
  original sound, the slot selected and the source type of the request.
\<close>

theorem StartSound_blocked_or_refused:
  assumes ck: "StartSound_checks fuel env type source pt channel sid vol att forced eng = Inr (Next rq)"
    and br: "blocked rq \<or> voice = None"
  shows "\<exists>ret eng'.
     StartSound fuel env voice type source pt channel sid vol att forced spitch eng = Inr (ret, eng')
     \<and> (if looping rq then
          (if lumpnum (S_sfx (snd (LoadSound env (nat (rs_sound_id (rq_res rq))) eng))
                  ! fst (LoadSound env (nat (rs_sound_id (rq_res rq))) eng)) = sfx_empty env
              \<or> select_channel (snd (LoadSound env (nat (rs_sound_id (rq_res rq))) eng))
                    (rq_type rq) source (rq_channel rq) = None
           then ret = None \<and> eng' = snd (LoadSound env (nat (rs_sound_id (rq_res rq))) eng)
           else ret = Some 0 \<and> Channels eng' \<noteq> []
                \<and> has_flag (ChanFlags (hd (Channels eng'))) CHAN_EVICTED
                \<and> SysChannel (hd (Channels eng')) = None
                \<and> StartTime (hd (Channels eng')) = Clock env
                \<and> SoundID (hd (Channels eng')) = rs_sound_id (rq_res rq)
                \<and> (\<exists>slot seen E2.
                      select_channel (snd (LoadSound env (nat (rs_sound_id (rq_res rq))) eng))
                          (rq_type rq) source (rq_channel rq) = Some (slot, seen)
                      \<and> stop_collision env (rq_type rq) source pt slot seen
                          (snd (LoadSound env (nat (rs_sound_id (rq_res rq))) eng)) = Inr E2
                      \<and> allocated
                          (before_start env rq (fst (LoadSound env (nat (rs_sound_id (rq_res rq))) eng)) E2)
                          eng'
                      \<and> EntChannel (hd (Channels eng')) = nat slot)
                \<and> OrgID (hd (Channels eng')) = rq_org_id rq
                \<and> SourceType (hd (Channels eng')) = rq_type rq
                \<and> has_flag (ChanFlags (hd (Channels eng'))) CHAN_LOOP)
        else ret = None)"
proof -
  obtain si E1 where l: "LoadSound env (nat (rs_sound_id (rq_res rq))) eng = (si, E1)"
    by (cases "LoadSound env (nat (rs_sound_id (rq_res rq))) eng")
  have br': "has_flag (rq_chanflags rq) CHAN_EVICTED \<or> voice = None"
    using br by (simp add: blocked_def)
  show ?thesis
  proof (cases "looping rq")
    case True
    then have lp: "has_flag (rq_chanflags rq) CHAN_LOOP" by (simp add: looping_def)
    show ?thesis
    proof (cases "lumpnum (S_sfx E1 ! si) = sfx_empty env
            \<or> select_channel E1 (rq_type rq) source (rq_channel rq) = None")
      case e: True
      then have "StartSound_place env source pt rq eng = Inr (Null E1)"
        using place_looping [OF True l, of source pt] by simp
      then show ?thesis using ck True e l
        by (simp add: StartSound_def)
    next
      case ne: False
      then obtain slot seen where sc:
        "select_channel E1 (rq_type rq) source (rq_channel rq) = Some (slot, seen)" by auto
      obtain pl E2 where p: "stop_collision env (rq_type rq) source pt slot seen E1 = Inr E2"
          "StartSound_place env source pt rq eng = Inr (Next (pl, E2))"
          "pl_sfx pl = si" "pl_channel pl = slot"
        using place_looping_state [OF True l _ sc, of pt] ne by auto
      obtain ret eng' where s: "StartSound_start env voice source pt spitch rq pl E2 = (ret, eng')"
        by (cases "StartSound_start env voice source pt spitch rq pl E2")
      with start_parked [OF lp br', of env source pt spitch pl E2]
      have a: "ret = Some 0 \<and> Channels eng' \<noteq> []
                \<and> has_flag (ChanFlags (hd (Channels eng'))) CHAN_EVICTED
                \<and> SysChannel (hd (Channels eng')) = None
                \<and> StartTime (hd (Channels eng')) = Clock env
                \<and> SoundID (hd (Channels eng')) = rs_sound_id (rq_res rq)"
        by simp
      from s start_parked_state [OF lp br', of env pl E2 source pt spitch] p(3,4)
      have b: "allocated (before_start env rq si E2) eng'
          \<and> OrgID (hd (Channels eng')) = rq_org_id rq
          \<and> EntChannel (hd (Channels eng')) = nat slot
          \<and> SourceType (hd (Channels eng')) = rq_type rq
          \<and> has_flag (ChanFlags (hd (Channels eng'))) CHAN_LOOP"
        by simp
      have "StartSound fuel env voice type source pt channel sid vol att forced spitch eng
          = Inr (ret, eng')"
        using ck p(2) s by (simp add: StartSound_def)
      then show ?thesis using True ne l sc p(1) a b by simp
    qed
  next
    case False
    then have nl: "\<not> has_flag (rq_chanflags rq) CHAN_LOOP" by (simp add: looping_def)
    from place_total [of env source pt rq eng] show ?thesis
    proof
      assume "\<exists>e. StartSound_place env source pt rq eng = Inr (Null e)"
      then show ?thesis using ck False by (auto simp add: StartSound_def)
    next
      assume "\<exists>pl e. StartSound_place env source pt rq eng = Inr (Next (pl, e))"
      then obtain pl e where p: "StartSound_place env source pt rq eng = Inr (Next (pl, e))"
        by blast
      obtain ret eng' where s: "StartSound_start env voice source pt spitch rq pl e = (ret, eng')"
        by (cases "StartSound_start env voice source pt spitch rq pl e")
      with start_refused [OF nl br', of env source pt spitch pl e] have "ret = None" by simp
      then show ?thesis using ck False p s by (simp add: StartSound_def)
    qed
  qed
qed



lemma siren_loop_checks:
  "StartSound_checks 1 env0 SOURCE_Actor 9 None 256 2 1 1 None (siren_state [playing 10 0 2 2 2])
     = Inr (Next rq_siren_loop)"
  by (simp add: start_eval2 rolloff0_def ieee_defs)

lemma siren_loop_full_checks:
  "StartSound_checks 1 env0 SOURCE_Actor 9 None 256 2 1 1 None full_state = Inr (Next rq_siren_loop)"
  by (simp add: start_eval2 rolloff0_def ieee_defs)

lemma siren_loop_full_start:
  "StartSound 1 env0 (Some 1) SOURCE_Actor 9 None 256 2 1 1 None 0 full_state = Inr (None, full_state)"
  by (simp add: start_eval2 rolloff0_def)

lemma rq_siren_loop_flags: "blocked rq_siren_loop \<and> looping rq_siren_loop"
  by (simp add: blocked_def looping_def rq_siren_loop_def has_flag_def chan_defs)

theorem StartSound_blocked_or_refused_witness:
  "StartSound_checks 1 env0 SOURCE_Actor 9 None 256 2 1 1 None (siren_state [playing 10 0 2 2 2])
     = Inr (Next rq_siren_loop)
   \<and> blocked rq_siren_loop \<and> looping rq_siren_loop
   \<and> (\<exists>ret eng'.
        StartSound 1 env0 (Some 1) SOURCE_Actor 9 None 256 2 1 1 None 0
          (siren_state [playing 10 0 2 2 2]) = Inr (ret, eng')
        \<and> ret = Some 0 \<and> Channels eng' \<noteq> []
        \<and> has_flag (ChanFlags (hd (Channels eng'))) CHAN_EVICTED
        \<and> SysChannel (hd (Channels eng')) = None
        \<and> StartTime (hd (Channels eng')) = 77
        \<and> SoundID (hd (Channels eng')) = 2
        \<and> tl (Channels eng') = [playing 10 0 2 2 2]
        \<and> FreeChannels eng' = []
        \<and> EntChannel (hd (Channels eng')) = 0
        \<and> OrgID (hd (Channels eng')) = 2
        \<and> SourceType (hd (Channels eng')) = SOURCE_Actor
        \<and> has_flag (ChanFlags (hd (Channels eng'))) CHAN_LOOP)"
proof -
  let ?S = "siren_state [playing 10 0 2 2 2]"
  let ?L = "LoadSound env0 (nat (rs_sound_id (rq_res rq_siren_loop))) ?S"
  have ne: "\<not> (lumpnum (S_sfx (snd ?L) ! fst ?L) = sfx_empty env0
          \<or> select_channel (snd ?L) (rq_type rq_siren_loop) 9 (rq_channel rq_siren_loop) = None)"
    by (simp add: start_eval2)
  have sel: "select_channel (snd ?L) (rq_type rq_siren_loop) 9 (rq_channel rq_siren_loop)
      = Some (0, 0)"
    by (simp add: start_eval2)
  have E1: "snd ?L = ?S" by (simp add: start_eval2)
  have st: "stop_collision env0 (rq_type rq_siren_loop) 9 None 0 0 ?S = Inr ?S"
    by (simp add: start_eval2)
  have bs: "before_start env0 rq_siren_loop (fst ?L) ?S = ?S"
    using rq_siren_loop_flags by (simp add: before_start_def blocked_def)
  have c: "Clock env0 = 77" "rs_sound_id (rq_res rq_siren_loop) = 2"
      "rq_org_id rq_siren_loop = 2" "rq_type rq_siren_loop = SOURCE_Actor"
    by (simp_all add: env0_def rq_siren_loop_def)
  have ch: "Channels ?S = [playing 10 0 2 2 2]" "FreeChannels ?S = []"
    by (simp_all add: siren_state_def eng0_def)
  have lp: "looping rq_siren_loop" and br: "blocked rq_siren_loop \<or> Some (1::nat) = None"
    using rq_siren_loop_flags by simp_all
  obtain ret eng' slot seen E2 where r:
      "StartSound 1 env0 (Some 1) SOURCE_Actor 9 None 256 2 1 1 None 0 ?S = Inr (ret, eng')"
      "ret = Some 0" "Channels eng' \<noteq> []"
      "has_flag (ChanFlags (hd (Channels eng'))) CHAN_EVICTED"
      "SysChannel (hd (Channels eng')) = None"
      "StartTime (hd (Channels eng')) = Clock env0"
      "SoundID (hd (Channels eng')) = rs_sound_id (rq_res rq_siren_loop)"
      "select_channel (snd ?L) (rq_type rq_siren_loop) 9 (rq_channel rq_siren_loop) = Some (slot, seen)"
      "stop_collision env0 (rq_type rq_siren_loop) 9 None slot seen (snd ?L) = Inr E2"
      "allocated (before_start env0 rq_siren_loop (fst ?L) E2) eng'"
      "EntChannel (hd (Channels eng')) = nat slot"
      "OrgID (hd (Channels eng')) = rq_org_id rq_siren_loop"
      "SourceType (hd (Channels eng')) = rq_type rq_siren_loop"
      "has_flag (ChanFlags (hd (Channels eng'))) CHAN_LOOP"
    using StartSound_blocked_or_refused [OF siren_loop_checks br, of 0]
    unfolding if_P [OF lp] if_not_P [OF ne] by blast
  have s0: "slot = 0" "seen = 0" using r(8) sel by simp_all
  have e2: "E2 = ?S" using r(9) st unfolding s0 E1 by simp
  have al: "allocated ?S eng'" using r(10) bs unfolding e2 by simp
  then have "tl (Channels eng') = [playing 10 0 2 2 2]" "FreeChannels eng' = []"
    using ch by (simp_all add: allocated_def)
  then show ?thesis
    using r(1-7,11-14) siren_loop_checks rq_siren_loop_flags unfolding c s0 by auto
qed

text \<open>
  C5 as stated fails: actor 9 plays on all its eight channels, another actor plays the
  singular sound 2, and actor 9 asks for sound 2, looping, on \<open>CHAN_AUTO\<close>. The start is
  blocked and the Loop flag is set, yet \<open>StartSound\<close> returns null and parks no channel,
  for no channel of the actor is free.
\<close>

theorem StartSound_blocked_or_refused_counterexample:
  "StartSound_checks 1 env0 SOURCE_Actor 9 None 256 2 1 1 None full_state = Inr (Next rq_siren_loop)
   \<and> blocked rq_siren_loop \<and> looping rq_siren_loop
   \<and> StartSound 1 env0 (Some 1) SOURCE_Actor 9 None 256 2 1 1 None 0 full_state
       = Inr (None, full_state)"
  using siren_loop_full_checks siren_loop_full_start rq_siren_loop_flags by simp

section \<open>Properties of the scalar round trip of the serializer\<close>

text \<open>
  What the round trip is stated with. A call has its default \<open>supplied\<close>. It is \<open>regular\<close>
  when a string and its default hold no NUL byte, when a \<open>float\<close> is a float (the rounding
  keeps it), and when a \<open>double\<close> or \<open>float\<close> that compares equal to its default is the
  default (no zero against the zero of the other sign). Its field is \<open>elided\<close> when the
  value equals the default, for \<open>double\<close> and \<open>float\<close> by the comparison of the floating
  point unit; \<open>reset\<close> is the call on read, with the destination set to the default; \<open>enc\<close>
  is the JSON value the writer stores for it.
\<close>

fun supplied :: "call \<Rightarrow> bool" where
  "supplied (CBool v d) = (d \<noteq> None)"
| "supplied (CInt64 v d) = (d \<noteq> None)"
| "supplied (CUint64 v d) = (d \<noteq> None)"
| "supplied (CInt32 v d) = (d \<noteq> None)"
| "supplied (CUint32 v d) = (d \<noteq> None)"
| "supplied (CInt8 v d) = (d \<noteq> None)"
| "supplied (CUint8 v d) = (d \<noteq> None)"
| "supplied (CInt16 v d) = (d \<noteq> None)"
| "supplied (CUint16 v d) = (d \<noteq> None)"
| "supplied (CDouble v d) = (d \<noteq> None)"
| "supplied (CFloat v d) = (d \<noteq> None)"
| "supplied (CString v d) = (d \<noteq> None)"

fun regular :: "call \<Rightarrow> bool" where
  "regular (CString v d) = (0 \<notin> set v \<and> (case d of None \<Rightarrow> True | Some x \<Rightarrow> 0 \<notin> set x))"
| "regular (CDouble v d) = (case d of None \<Rightarrow> True | Some x \<Rightarrow> fne v x \<or> v = x)"
| "regular (CFloat v d) =
     (to_float v = v \<and> (case d of None \<Rightarrow> True | Some x \<Rightarrow> fne v x \<or> v = x))"
| "regular _ = True"

fun elided :: "call \<Rightarrow> bool" where
  "elided (CBool v d) = (d = Some v)"
| "elided (CInt64 v d) = (d = Some v)"
| "elided (CUint64 v d) = (d = Some v)"
| "elided (CInt32 v d) = (d = Some v)"
| "elided (CUint32 v d) = (d = Some v)"
| "elided (CInt8 v d) = (d = Some v)"
| "elided (CUint8 v d) = (d = Some v)"
| "elided (CInt16 v d) = (d = Some v)"
| "elided (CUint16 v d) = (d = Some v)"
| "elided (CDouble v d) = (case d of None \<Rightarrow> False | Some x \<Rightarrow> \<not> fne v x)"
| "elided (CFloat v d) = (case d of None \<Rightarrow> False | Some x \<Rightarrow> \<not> fne v x)"
| "elided (CString v d) = (d = Some v)"

fun reset :: "call \<Rightarrow> call" where
  "reset (CBool v d) = CBool (the d) d"
| "reset (CInt64 v d) = CInt64 (the d) d"
| "reset (CUint64 v d) = CUint64 (the d) d"
| "reset (CInt32 v d) = CInt32 (the d) d"
| "reset (CUint32 v d) = CUint32 (the d) d"
| "reset (CInt8 v d) = CInt8 (the d) d"
| "reset (CUint8 v d) = CUint8 (the d) d"
| "reset (CInt16 v d) = CInt16 (the d) d"
| "reset (CUint16 v d) = CUint16 (the d) d"
| "reset (CDouble v d) = CDouble (the d) d"
| "reset (CFloat v d) = CFloat (the d) d"
| "reset (CString v d) = CString (the d) d"

fun enc :: "call \<Rightarrow> jvalue" where
  "enc (CBool v d) = JBool v"
| "enc (CInt64 v d) = JInt (sint v)"
| "enc (CUint64 v d) = JInt (uint v)"
| "enc (CInt32 v d) = JInt (sint v)"
| "enc (CUint32 v d) = JInt (uint v)"
| "enc (CInt8 v d) = JInt (sint v)"
| "enc (CUint8 v d) = JInt (uint v)"
| "enc (CInt16 v d) = JInt (sint v)"
| "enc (CUint16 v d) = JInt (uint v)"
| "enc (CDouble v d) = JDouble v"
| "enc (CFloat v d) = JDouble v"
| "enc (CString v d) = JString (the (StringToUnicode v (-1)))"

text \<open>
  The writer, inside the root object, after it wrote \<open>out\<close>; and what one call adds to it.
\<close>

definition wstate :: "FSerializer \<Rightarrow> (string option \<times> jvalue) list \<Rightarrow> bool" where
  "wstate arc out = (\<exists>wr. arc_w arc = Some wr \<and> mInObject wr = [True] \<and> mOut wr = out
      \<and> arc_r arc = None \<and> mErrors arc = 0)"

definition fields :: "string \<Rightarrow> call \<Rightarrow> (string option \<times> jvalue) list" where
  "fields k c = (if elided c then [] else [(Some k, enc c)])"

subsection \<open>Writing\<close>

lemma scalar_write:
  assumes "wstate arc out" "\<And>wr. mOut (put v wr) = mOut wr @ [(mKey wr, j)]"
    "\<And>wr. mInObject (put v wr) = mInObject wr"
  shows "\<exists>arc'. Serialize_scalar same put is get arc k v (Some d) = Inr (arc', v)
     \<and> wstate arc' (out @ (if same v d then [] else [(Some k, j)]))"
  using assms
  by (auto simp: wstate_def Serialize_scalar_def isWriting_def inObject_def WriteKey_def Key_def Let_def)

lemma scast_8_32: "sint (scast (v :: 8 word) :: 32 word) = sint v"
  by (simp add: sint_up_scast is_up)
lemma scast_16_32: "sint (scast (v :: 16 word) :: 32 word) = sint v"
  by (simp add: sint_up_scast is_up)
lemma ucast_8_32: "uint (ucast (v :: 8 word) :: 32 word) = uint v"
  by (simp add: uint_up_ucast is_up)
lemma ucast_16_32: "uint (ucast (v :: 16 word) :: 32 word) = uint v"
  by (simp add: uint_up_ucast is_up)

lemma narrow_scast_8: "(ucast (scast (v :: 8 word) :: 32 word) :: 8 word) = v"
  by (rule bit_eqI) (auto simp: bit_simps)
lemma narrow_scast_16: "(ucast (scast (v :: 16 word) :: 32 word) :: 16 word) = v"
  by (rule bit_eqI) (auto simp: bit_simps)
lemma narrow_ucast_8: "(ucast (ucast (v :: 8 word) :: 32 word) :: 8 word) = v"
  by (rule bit_eqI) (auto simp: bit_simps)
lemma narrow_ucast_16: "(ucast (ucast (v :: 16 word) :: 32 word) :: 16 word) = v"
  by (rule bit_eqI) (auto simp: bit_simps)

lemma scast_inj_8: "(scast (a :: 8 word) = (scast b :: 32 word)) = (a = b)"
  by (metis narrow_scast_8)
lemma scast_inj_16: "(scast (a :: 16 word) = (scast b :: 32 word)) = (a = b)"
  by (metis narrow_scast_16)
lemma ucast_inj_8: "(ucast (a :: 8 word) = (ucast b :: 32 word)) = (a = b)"
  by (metis narrow_ucast_8)
lemma ucast_inj_16: "(ucast (a :: 16 word) = (ucast b :: 32 word)) = (a = b)"
  by (metis narrow_ucast_16)

lemmas narrow = narrow_scast_8 narrow_scast_16 narrow_ucast_8 narrow_ucast_16
  scast_inj_8 scast_inj_16 ucast_inj_8 ucast_inj_16 scast_8_32 scast_16_32 ucast_8_32 ucast_16_32

lemmas put_defs = put_value_def Bool_w_def Int_w_def Int64_w_def Uint_w_def Uint64_w_def Double_w_def

lemmas overload_defs = Serialize_bool_def Serialize_int64_def Serialize_uint64_def
  Serialize_int32_def Serialize_uint32_def Serialize_double_def

lemma call_write:
  assumes "wstate arc out" "supplied c" "regular c"
  shows "\<exists>arc'. Serialize_call arc k c = Inr (arc', c) \<and> wstate arc' (out @ fields k c)"
proof (cases c)
  case (CBool v d)
  then show ?thesis using assms scalar_write [of arc out Bool_w v "JBool v" "(=)" IsBool GetBool k "the d"]
    by (auto simp: returning_def fields_def overload_defs put_defs)
next
  case (CInt64 v d)
  then show ?thesis using assms scalar_write [of arc out Int64_w v "JInt (sint v)" "(=)" IsInt64 GetInt k "the d"]
    by (auto simp: returning_def fields_def overload_defs put_defs)
next
  case (CUint64 v d)
  then show ?thesis using assms scalar_write [of arc out Uint64_w v "JInt (uint v)" "(=)" IsUint64 GetInt k "the d"]
    by (auto simp: returning_def fields_def overload_defs put_defs)
next
  case (CInt32 v d)
  then show ?thesis using assms scalar_write [of arc out Int_w v "JInt (sint v)" "(=)" IsInt GetInt k "the d"]
    by (auto simp: returning_def fields_def overload_defs put_defs)
next
  case (CUint32 v d)
  then show ?thesis using assms scalar_write [of arc out Uint_w v "JInt (uint v)" "(=)" IsUint GetInt k "the d"]
    by (auto simp: returning_def fields_def overload_defs put_defs)
next
  case (CInt8 v d)
  then show ?thesis using assms
      scalar_write [of arc out Int_w "scast v" "JInt (sint v)" "(=)" IsInt GetInt k "scast (the d)"]
    by (auto simp: returning_def fields_def overload_defs put_defs Serialize_int8_def narrow)
next
  case (CUint8 v d)
  then show ?thesis using assms
      scalar_write [of arc out Uint_w "ucast v" "JInt (uint v)" "(=)" IsUint GetInt k "ucast (the d)"]
    by (auto simp: returning_def fields_def overload_defs put_defs Serialize_uint8_def narrow)
next
  case (CInt16 v d)
  then show ?thesis using assms
      scalar_write [of arc out Int_w "scast v" "JInt (sint v)" "(=)" IsInt GetInt k "scast (the d)"]
    by (auto simp: returning_def fields_def overload_defs put_defs Serialize_int16_def narrow)
next
  case (CUint16 v d)
  then show ?thesis using assms
      scalar_write [of arc out Uint_w "ucast v" "JInt (uint v)" "(=)" IsUint GetInt k "ucast (the d)"]
    by (auto simp: returning_def fields_def overload_defs put_defs Serialize_uint16_def narrow)
next
  case (CDouble v d)
  then show ?thesis using assms
      scalar_write [of arc out Double_w v "JDouble v" "\<lambda>value defval. \<not> fne value defval"
        IsDouble GetDouble k "the d"]
    by (auto simp: returning_def fields_def overload_defs put_defs)
next
  case (CFloat v d)
  then show ?thesis using assms
      scalar_write [of arc out Double_w v "JDouble v" "\<lambda>value defval. \<not> fne value defval"
        IsDouble GetDouble k "the d"]
    by (auto simp: returning_def fields_def overload_defs put_defs Serialize_float_def)
next
  case (CString v d)
  obtain e where e: "StringToUnicode v (-1) = Some e"
    using roundtrip_cstr [of v] by auto
  show ?thesis using assms CString e
    by (auto simp: returning_def fields_def Serialize_FString_def String_w_def put_value_def
        wstate_def isWriting_def inObject_def WriteKey_def Key_def Let_def cstr_id)
qed


lemma calls_write:
  assumes "wstate arc out" "\<forall>(k, c)\<in>set cs. supplied c \<and> regular c"
  shows "\<exists>arc'. Serialize_calls arc cs = Inr (arc', cs)
     \<and> wstate arc' (out @ concat (map (\<lambda>(k, c). fields k c) cs))"
  using assms
proof (induction cs arbitrary: arc out)
  case Nil
  then show ?case by simp
next
  case (Cons kc cs)
  obtain k c where kc: "kc = (k, c)" by (cases kc)
  obtain arc1 where 1: "Serialize_call arc k c = Inr (arc1, c)" "wstate arc1 (out @ fields k c)"
    using call_write [of arc out c k] Cons.prems kc by auto
  obtain arc2 where 2: "Serialize_calls arc1 cs = Inr (arc2, cs)"
      "wstate arc2 ((out @ fields k c) @ concat (map (\<lambda>(k, c). fields k c) cs))"
    using Cons.IH [OF 1(2)] Cons.prems by auto
  show ?case using 1 2 kc by simp
qed

subsection \<open>Reading\<close>

lemma scalar_read_absent:
  assumes "map_of members k = None"
  shows "Serialize_scalar same put is get (OpenReader members) k v d = Inr (OpenReader members, v)"
  using assms by (simp add: Serialize_scalar_def OpenReader_def isWriting_def FindKey_def)

lemma scalar_read_present:
  assumes "map_of members k = Some j" "is j"
  shows "Serialize_scalar same put is get (OpenReader members) k v d = Inr (OpenReader members, get j)"
  using assms by (simp add: Serialize_scalar_def OpenReader_def isWriting_def FindKey_def)

lemmas is_defs = IsBool_def IsInt_def IsUint_def IsInt64_def IsUint64_def IsDouble_def IsString_def
  IsNull_value_def GetBool_def GetInt_def GetDouble_def GetString_def

lemma sint_32: "- 2147483648 \<le> sint (v :: 32 word)" "sint (v :: 32 word) < 2147483648"
  using sint_ge [of v] sint_lt [of v] by simp_all
lemma sint_64: "- 9223372036854775808 \<le> sint (v :: 64 word)" "sint (v :: 64 word) < 9223372036854775808"
  using sint_ge [of v] sint_lt [of v] by simp_all
lemma uint_32: "uint (v :: 32 word) < 4294967296"
  using uint_lt2p [of v] by simp
lemma uint_64: "uint (v :: 64 word) < 18446744073709551616"
  using uint_lt2p [of v] by simp
lemma sint_8_32: "- 2147483648 \<le> sint (v :: 8 word)" "sint (v :: 8 word) < 2147483648"
  using sint_ge [of v] sint_lt [of v] by simp_all
lemma sint_16_32: "- 2147483648 \<le> sint (v :: 16 word)" "sint (v :: 16 word) < 2147483648"
  using sint_ge [of v] sint_lt [of v] by simp_all
lemma uint_8_32: "uint (v :: 8 word) < 4294967296"
  using uint_lt2p [of v] by simp
lemma uint_16_32: "uint (v :: 16 word) < 4294967296"
  using uint_lt2p [of v] by simp

lemmas ranges = sint_32 sint_64 uint_32 uint_64 sint_8_32 sint_16_32 uint_8_32 uint_16_32

lemma call_read_absent:
  assumes "map_of members k = None" "regular c"
  shows "Serialize_call (OpenReader members) k c = Inr (OpenReader members, c)"
proof (cases c)
  case (CString v d)
  then show ?thesis using assms
    by (simp add: returning_def Serialize_FString_def OpenReader_def isWriting_def FindKey_def)
qed (use assms(2) in \<open>simp_all add: returning_def overload_defs scalar_read_absent [OF assms(1)] narrow
    Serialize_int8_def Serialize_uint8_def Serialize_int16_def Serialize_uint16_def Serialize_float_def\<close>)

lemma call_read_present:
  assumes "map_of members k = Some (enc c)" "supplied c" "regular c"
  shows "Serialize_call (OpenReader members) k (reset c) = Inr (OpenReader members, c)"
proof (cases c)
  case (CString v d)
  have "UnicodeToString (the (StringToUnicode v (-1))) = v"
    using roundtrip_cstr [of v] assms(3) CString by (auto simp: cstr_id)
  then show ?thesis using assms CString
    by (simp add: returning_def Serialize_FString_def OpenReader_def isWriting_def FindKey_def is_defs)
next
  case (CInt8 v d)
  have "word_of_int (sint v) = (scast v :: 32 word)" by (simp only: scast_eq)
  then show ?thesis using assms CInt8
    by (simp add: returning_def overload_defs Serialize_int8_def
        scalar_read_present [OF assms(1)] is_defs ranges narrow)
next
  case (CInt16 v d)
  have "word_of_int (sint v) = (scast v :: 32 word)" by (simp only: scast_eq)
  then show ?thesis using assms CInt16
    by (simp add: returning_def overload_defs Serialize_int16_def
        scalar_read_present [OF assms(1)] is_defs ranges narrow)
next
  case (CUint8 v d)
  have "word_of_int (uint v) = (ucast v :: 32 word)" by (simp only: ucast_eq)
  then show ?thesis using assms CUint8
    by (simp add: returning_def overload_defs Serialize_uint8_def
        scalar_read_present [OF assms(1)] is_defs ranges narrow)
next
  case (CUint16 v d)
  have "word_of_int (uint v) = (ucast v :: 32 word)" by (simp only: ucast_eq)
  then show ?thesis using assms CUint16
    by (simp add: returning_def overload_defs Serialize_uint16_def
        scalar_read_present [OF assms(1)] is_defs ranges narrow)
qed (use assms in \<open>simp_all add: returning_def overload_defs Serialize_float_def
    scalar_read_present [OF assms(1)] is_defs ranges\<close>)

lemma reset_elided: "elided c \<Longrightarrow> regular c \<Longrightarrow> reset c = c"
  by (cases c) (auto split: option.splits)

lemma calls_read:
  assumes "\<forall>(k, c)\<in>set cs. supplied c \<and> regular c
      \<and> map_of members k = (if elided c then None else Some (enc c))"
  shows "Serialize_calls (OpenReader members) (map (\<lambda>(k, c). (k, reset c)) cs)
      = Inr (OpenReader members, cs)"
  using assms
proof (induction cs)
  case Nil
  then show ?case by simp
next
  case (Cons kc cs)
  obtain k c where kc: "kc = (k, c)" by (cases kc)
  have "Serialize_call (OpenReader members) k (reset c) = Inr (OpenReader members, c)"
    using Cons.prems kc call_read_absent [of members k "reset c"] call_read_present [of members k c]
    by (auto simp: reset_elided split: if_splits)
  then show ?case using Cons kc by simp
qed

subsection \<open>Writing, then reading\<close>

text \<open>The members of the object written: the fields not elided, in the order of the calls.\<close>

definition members_of :: "(string \<times> call) list \<Rightarrow> (string \<times> jvalue) list" where
  "members_of cs = map (\<lambda>(k, c). (k, enc c)) (filter (\<lambda>(k, c). \<not> elided c) cs)"

lemma written_members:
  assumes "wstate arc (concat (map (\<lambda>(k, c). fields k c) cs))"
  shows "written arc = members_of cs"
proof -
  have "map (\<lambda>(k, v). (the k, v)) (concat (map (\<lambda>(k, c). fields k c) cs)) = members_of cs"
    by (induction cs) (auto simp: members_of_def fields_def)
  then show ?thesis using assms by (auto simp: wstate_def written_def)
qed

lemma map_of_members:
  assumes "distinct (map fst cs)" "(k, c) \<in> set cs"
  shows "map_of (members_of cs) k = (if elided c then None else Some (enc c))"
  using assms
proof (induction cs)
  case Nil
  then show ?case by simp
next
  case (Cons a cs)
  have absent: "map_of (members_of cs) k' = None" if "k' \<notin> fst ` set cs" for k'
    using that by (force simp: members_of_def map_of_eq_None_iff)
  obtain k1 c1 where a: "a = (k1, c1)" by (cases a)
  show ?case
  proof (cases "(k, c) = a")
    case True
    then show ?thesis using Cons.prems a absent [of k] by (auto simp: members_of_def)
  next
    case False
    then have "(k, c) \<in> set cs" using Cons.prems by auto
    moreover have "k \<noteq> k1" using Cons.prems a \<open>(k, c) \<in> set cs\<close> by force
    ultimately show ?thesis using Cons a by (auto simp: members_of_def)
  qed
qed

lemma wstate_open: "wstate OpenWriter []"
  by (simp add: wstate_def OpenWriter_def)

text \<open>
  Write a sequence of calls into the root object of a new writer, then read the same
  keys from the object written, each destination reset to its default: the members
  written, the errors counted on read, and the calls with the values read.
\<close>

definition write_read ::
  "(string \<times> call) list \<Rightarrow> fault + ((string \<times> jvalue) list \<times> nat \<times> (string \<times> call) list)" where
  "write_read cs =
     (case Serialize_calls OpenWriter cs of
        Inl e \<Rightarrow> Inl e
      | Inr (arc, _) \<Rightarrow>
          (case Serialize_calls (OpenReader (written arc)) (map (\<lambda>(k, c). (k, reset c)) cs) of
             Inl e \<Rightarrow> Inl e
           | Inr (arc', cs') \<Rightarrow> Inr (written arc, mErrors arc', cs')))"

lemma write_read_members:
  assumes "distinct (map fst cs)" "\<forall>(k, c)\<in>set cs. supplied c \<and> regular c"
  shows "write_read cs = Inr (members_of cs, 0, cs)"
proof -
  obtain arc where arc: "Serialize_calls OpenWriter cs = Inr (arc, cs)"
      "wstate arc (concat (map (\<lambda>(k, c). fields k c) cs))"
    using calls_write [OF wstate_open assms(2)] by auto
  have w: "written arc = members_of cs" by (rule written_members [OF arc(2)])
  have "Serialize_calls (OpenReader (members_of cs)) (map (\<lambda>(k, c). (k, reset c)) cs)
      = Inr (OpenReader (members_of cs), cs)"
    by (rule calls_read) (use assms(2) map_of_members [OF assms(1)] in auto)
  then show ?thesis using arc(1) w by (simp add: write_read_def OpenReader_def)
qed


text \<open>Example data: five fields of a saved object; and two fields under one key.\<close>

lemma float_half: "to_float (Fin (1 / 2)) = Fin (1 / 2)"
  using round32_dyadic [of 1 "- 1"] by (simp add: to_float_def)

definition save0 :: "(string \<times> call) list" where
  "save0 = [(''flag'', CBool True (Some True)), (''count'', CInt32 5 (Some 0)),
     (''delta'', CInt8 (- 1) (Some 0)), (''scale'', CFloat (Fin (1 / 2)) (Some (Fin 1))),
     (''angle'', CDouble NaN (Some NaN)), (''floor'', CDouble NZero (Some NZero)),
     (''name'', CString [0x41, 0xE9] (Some []))]"




text \<open>The object written for the example, evaluated.\<close>

lemmas serialize_eval = write_read_def OpenWriter_def OpenReader_def written_def returning_def
  overload_defs Serialize_scalar_def Serialize_int8_def Serialize_uint8_def Serialize_int16_def
  Serialize_uint16_def Serialize_float_def Serialize_FString_def String_w_def
  isWriting_def inObject_def WriteKey_def Key_def put_defs FindKey_def is_defs

lemma save0_string: "StringToUnicode [0x41, 0xE9] (-1) = Some [0x41, 0xC3, 0xA9]"
  by (simp add: StringToUnicode_def utf8_encode_def Let_def)

lemma save0_written:
  "write_read save0 = Inr ([(''count'', JInt 5), (''delta'', JInt (- 1)), (''scale'', JDouble (Fin (1 / 2))),
      (''angle'', JDouble NaN), (''name'', JString [0x41, 0xC3, 0xA9])], 0, save0)"
proof -
  have "write_read save0 = Inr (members_of save0, 0, save0)"
    by (rule write_read_members) (simp_all add: save0_def float_half fne_def ieee_defs)
  then show ?thesis by (simp add: members_of_def save0_def save0_string fne_def ieee_defs)
qed


text \<open>
  A string goes through \<open>const char *\<close> in comparison and output: the bytes 65, 0, 66 with
  the default 65 are taken as equal to the default, elided, and read back as 65.
\<close>

lemma nul_string_elided:
  "write_read [(''n'', CString [0x41, 0, 0x42] (Some [0x41]))]
     = Inr ([], 0, [(''n'', CString [0x41] (Some [0x41]))])"
  by (simp add: serialize_eval cstr_def)

text \<open>
  A \<open>float\<close> or \<open>double\<close> is compared with \<open>!=\<close>: the negative zero with the default
  positive zero is taken as equal to the default, elided, and read back as the positive
  zero.
\<close>

lemma negative_zero_elided:
  "write_read [(''z'', CDouble NZero (Some (Fin 0)))]
     = Inr ([], 0, [(''z'', CDouble (Fin 0) (Some (Fin 0)))])"
  by (simp add: serialize_eval fne_def ieee_defs)

end
